theory Spec2Isabelle
  imports Main "HOL-Library.Sublist"
begin

section \<open>Entity model\<close>

text \<open>
  Modelled from the spec: the entity shapes of section 3, whose type declarations
  \<^verbatim>\<open>chartdb-provider.tsx\<close> imports. The members are the ones the provider itself writes
  when it builds a table, a field, an index and a relationship. A record member carries
  the prefix of its entity (\<open>t_id\<close> is \<^verbatim>\<open>DBTable.id\<close>, \<open>f_id\<close> is \<^verbatim>\<open>DBField.id\<close>, and so
  on). Positions and timestamps are numbers that the provider only copies.
\<close>

record DBField =
  f_id :: string
  f_name :: string
  f_type :: string
  f_unique :: bool
  f_nullable :: bool
  f_primaryKey :: bool
  f_createdAt :: int

record DBIndex =
  i_id :: string
  i_name :: string
  i_fieldIds :: "string list"
  i_unique :: bool
  i_createdAt :: int

record DBTable =
  t_id :: string
  t_name :: string
  t_x :: int
  t_y :: int
  t_fields :: "DBField list"
  t_indexes :: "DBIndex list"
  t_color :: string
  t_createdAt :: int
  t_isView :: bool

record DBRelationship =
  r_id :: string
  r_name :: string
  r_sourceTableId :: string
  r_targetTableId :: string
  r_sourceFieldId :: string
  r_targetFieldId :: string
  r_type :: string
  r_createdAt :: int

text \<open>
  Modelled from the spec: the database type tag of a diagram. The provider names one
  member, \<^verbatim>\<open>DatabaseType.GENERIC\<close>, the initial value; every other tag is carried by name.
\<close>

datatype DatabaseType = GENERIC | OtherDatabase string

text \<open>
  \<^verbatim>\<open>Partial<T>\<close>: every member may be absent (\<open>None\<close>). The same shape stands for
  \<^verbatim>\<open>PartialExcept<DBTable, 'id'>\<close>, whose \<open>id\<close> is always present.
\<close>

record DBField_partial =
  fp_id :: "string option"
  fp_name :: "string option"
  fp_type :: "string option"
  fp_unique :: "bool option"
  fp_nullable :: "bool option"
  fp_primaryKey :: "bool option"
  fp_createdAt :: "int option"

record DBIndex_partial =
  ip_id :: "string option"
  ip_name :: "string option"
  ip_fieldIds :: "string list option"
  ip_unique :: "bool option"
  ip_createdAt :: "int option"

record DBTable_partial =
  tp_id :: "string option"
  tp_name :: "string option"
  tp_x :: "int option"
  tp_y :: "int option"
  tp_fields :: "DBField list option"
  tp_indexes :: "DBIndex list option"
  tp_color :: "string option"
  tp_createdAt :: "int option"
  tp_isView :: "bool option"

record DBRelationship_partial =
  rp_id :: "string option"
  rp_name :: "string option"
  rp_sourceTableId :: "string option"
  rp_targetTableId :: "string option"
  rp_sourceFieldId :: "string option"
  rp_targetFieldId :: "string option"
  rp_type :: "string option"
  rp_createdAt :: "int option"

record Diagram_partial =
  dp_id :: "string option"
  dp_name :: "string option"
  dp_databaseType :: "DatabaseType option"

text \<open>A diagram as \<^verbatim>\<open>db.getDiagram\<close> returns it: tables and relationships are optional.\<close>

record Diagram =
  d_id :: string
  d_name :: string
  d_databaseType :: DatabaseType
  d_tables :: "DBTable list option"
  d_relationships :: "DBRelationship list option"

text \<open>One member of an object spread \<^verbatim>\<open>{ ...a, ...b }\<close>: the value of \<open>b\<close> when it has one.\<close>

definition spread :: "'a \<Rightarrow> 'a option \<Rightarrow> 'a" where
  "spread a b = (case b of None \<Rightarrow> a | Some v \<Rightarrow> v)"

text \<open>\<^verbatim>\<open>{ ...f, ...field }\<close>\<close>

definition merge_field :: "DBField \<Rightarrow> DBField_partial \<Rightarrow> DBField" where
  "merge_field f p =
     \<lparr> f_id = spread (f_id f) (fp_id p),
       f_name = spread (f_name f) (fp_name p),
       f_type = spread (f_type f) (fp_type p),
       f_unique = spread (f_unique f) (fp_unique p),
       f_nullable = spread (f_nullable f) (fp_nullable p),
       f_primaryKey = spread (f_primaryKey f) (fp_primaryKey p),
       f_createdAt = spread (f_createdAt f) (fp_createdAt p) \<rparr>"

text \<open>\<^verbatim>\<open>{ ...i, ...index }\<close>\<close>

definition merge_index :: "DBIndex \<Rightarrow> DBIndex_partial \<Rightarrow> DBIndex" where
  "merge_index i p =
     \<lparr> i_id = spread (i_id i) (ip_id p),
       i_name = spread (i_name i) (ip_name p),
       i_fieldIds = spread (i_fieldIds i) (ip_fieldIds p),
       i_unique = spread (i_unique i) (ip_unique p),
       i_createdAt = spread (i_createdAt i) (ip_createdAt p) \<rparr>"

text \<open>\<^verbatim>\<open>{ ...t, ...table }\<close>\<close>

definition merge_table :: "DBTable \<Rightarrow> DBTable_partial \<Rightarrow> DBTable" where
  "merge_table t p =
     \<lparr> t_id = spread (t_id t) (tp_id p),
       t_name = spread (t_name t) (tp_name p),
       t_x = spread (t_x t) (tp_x p),
       t_y = spread (t_y t) (tp_y p),
       t_fields = spread (t_fields t) (tp_fields p),
       t_indexes = spread (t_indexes t) (tp_indexes p),
       t_color = spread (t_color t) (tp_color p),
       t_createdAt = spread (t_createdAt t) (tp_createdAt p),
       t_isView = spread (t_isView t) (tp_isView p) \<rparr>"

text \<open>\<^verbatim>\<open>{ ...r, ...relationship }\<close>\<close>

definition merge_relationship :: "DBRelationship \<Rightarrow> DBRelationship_partial \<Rightarrow> DBRelationship" where
  "merge_relationship r p =
     \<lparr> r_id = spread (r_id r) (rp_id p),
       r_name = spread (r_name r) (rp_name p),
       r_sourceTableId = spread (r_sourceTableId r) (rp_sourceTableId p),
       r_targetTableId = spread (r_targetTableId r) (rp_targetTableId p),
       r_sourceFieldId = spread (r_sourceFieldId r) (rp_sourceFieldId p),
       r_targetFieldId = spread (r_targetFieldId r) (rp_targetFieldId p),
       r_type = spread (r_type r) (rp_type p),
       r_createdAt = spread (r_createdAt r) (rp_createdAt p) \<rparr>"

text \<open>A whole table passed where \<^verbatim>\<open>Partial<DBTable>\<close> is expected: every member present.\<close>

definition table_attributes :: "DBTable \<Rightarrow> DBTable_partial" where
  "table_attributes t =
     \<lparr> tp_id = Some (t_id t),
       tp_name = Some (t_name t),
       tp_x = Some (t_x t),
       tp_y = Some (t_y t),
       tp_fields = Some (t_fields t),
       tp_indexes = Some (t_indexes t),
       tp_color = Some (t_color t),
       tp_createdAt = Some (t_createdAt t),
       tp_isView = Some (t_isView t) \<rparr>"




section \<open>Storage Gateway\<close>

text \<open>
  \<^verbatim>\<open>useStorage()\<close> is consumed, not implemented, by the provider, so the gateway is a
  parameter. Every call the provider issues is appended to a log; the gateway decides each
  reply from the calls issued before it and the call itself. A rejected promise is
  \<open>Inl\<close>, a fulfilled one \<open>Inr\<close>; \<open>None\<close> is the gateway's not-found.
\<close>

datatype error = PersistenceFailure string

datatype db_call =
    GetDiagram string
  | UpdateDiagram string Diagram_partial
  | GetTable string string
  | AddTable string DBTable
  | UpdateTable string DBTable_partial
  | DeleteTable string string
  | AddRelationship string DBRelationship
  | UpdateRelationship string DBRelationship_partial
  | DeleteRelationship string string

text \<open>
  \<open>settles_first\<close> says which of several rejected promises settles first: given the
  calls issued and the rejections in the order of issue, the position of the one that
  \<^verbatim>\<open>Promise.all\<close> reports.
\<close>

record storage =
  getDiagram_reply :: "db_call list \<Rightarrow> string \<Rightarrow> error + Diagram option"
  getTable_reply :: "db_call list \<Rightarrow> string \<Rightarrow> string \<Rightarrow> error + DBTable option"
  write_reply :: "db_call list \<Rightarrow> db_call \<Rightarrow> error + unit"
  settles_first :: "db_call list \<Rightarrow> error list \<Rightarrow> nat"

section \<open>History Log\<close>

text \<open>
  One constructor per \<^verbatim>\<open>action\<close> tag. The arguments are the members of \<^verbatim>\<open>redoData\<close>
  followed by the members of \<^verbatim>\<open>undoData\<close>, in the order the provider writes them.
\<close>

datatype Action =
    Act_updateDiagramName string string
      \<comment> \<open>redoData: name; undoData: name\<close>
  | Act_addTable DBTable string
      \<comment> \<open>redoData: table; undoData: tableId\<close>
  | Act_removeTable string DBTable
      \<comment> \<open>redoData: tableId; undoData: table\<close>
  | Act_updateTable string DBTable_partial string DBTable
      \<comment> \<open>redoData: tableId, table; undoData: tableId, table\<close>
  | Act_updateTablesState "DBTable list" "DBTable list"
      \<comment> \<open>redoData: tables; undoData: tables\<close>
  | Act_updateField string string DBField string string DBField
      \<comment> \<open>redoData: tableId, fieldId, field; undoData: tableId, fieldId, field\<close>
  | Act_removeField string string string DBField
      \<comment> \<open>redoData: tableId, fieldId; undoData: tableId, field\<close>
  | Act_addField string DBField string string
      \<comment> \<open>redoData: tableId, field; undoData: tableId, fieldId\<close>
  | Act_addIndex string DBIndex string string
      \<comment> \<open>redoData: tableId, index; undoData: tableId, indexId\<close>
  | Act_removeIndex string string string DBIndex
      \<comment> \<open>redoData: indexId, tableId; undoData: tableId, index\<close>
  | Act_updateIndex string string DBIndex_partial string string DBIndex
      \<comment> \<open>redoData: tableId, indexId, index; undoData: tableId, indexId, index\<close>
  | Act_addRelationship DBRelationship string
      \<comment> \<open>redoData: relationship; undoData: relationshipId\<close>
  | Act_addRelationships "DBRelationship list" "string list"
      \<comment> \<open>redoData: relationships; undoData: relationshipIds\<close>
  | Act_removeRelationship string DBRelationship
      \<comment> \<open>redoData: relationshipId; undoData: relationship\<close>
  | Act_removeRelationships "string list" "DBRelationship list"
      \<comment> \<open>redoData: relationshipsIds; undoData: relationships\<close>
  | Act_updateRelationship string DBRelationship_partial string DBRelationship
      \<comment> \<open>redoData: relationshipId, relationship; undoData: relationshipId, relationship\<close>

section \<open>Diagram State Store\<close>

text \<open>
  A render of the provider: the values of its five \<^verbatim>\<open>React.useState\<close> cells. A callback
  (\<^verbatim>\<open>useCallback\<close>) captures the cells of the render that created it; wherever the source
  reads \<^verbatim>\<open>diagramId\<close>, \<^verbatim>\<open>diagramName\<close>, \<^verbatim>\<open>tables\<close> or \<^verbatim>\<open>relationships\<close> by name, or through
  \<^verbatim>\<open>getTable\<close>, \<^verbatim>\<open>getField\<close>, \<^verbatim>\<open>getIndex\<close> and \<^verbatim>\<open>getRelationship\<close>, it reads that render.
\<close>

record render =
  diagramId :: string
  diagramName :: string
  databaseType :: DatabaseType
  tables :: "DBTable list"
  relationships :: "DBRelationship list"

text \<open>
  The live state: the current value of the five cells, the two stacks of the History Log
  and the log of gateway calls. A setter called with a function, such as
  \<^verbatim>\<open>setTables((tables) => ...)\<close>, transforms the live cell; a setter called with a value
  replaces it. Every operation takes the render \<open>c\<close> of its callback and the live state
  \<open>w\<close>; the two differ when the callback was created by an older render, as for the
  second of two awaited calls in one event handler.
\<close>

record world = render +
  undoStack :: "Action list"
  redoStack :: "Action list"
  dbCalls :: "db_call list"

text \<open>The render of the live state: what a callback of the current render has captured.\<close>

definition rendered :: "world \<Rightarrow> render" where
  "rendered w =
     \<lparr> diagramId = diagramId w, diagramName = diagramName w, databaseType = databaseType w,
       tables = tables w, relationships = relationships w \<rparr>"

text \<open>The provider's state before any operation.\<close>

definition initial_world :: world where
  "initial_world =
     \<lparr> diagramId = '''', diagramName = '''', databaseType = GENERIC, tables = [],
       relationships = [], undoStack = [], redoStack = [], dbCalls = [] \<rparr>"

text \<open>
  Modelled from the spec: \<^verbatim>\<open>addUndoAction\<close> and \<^verbatim>\<open>resetRedoStack\<close> of
  \<^verbatim>\<open>useRedoUndoStack()\<close>, which is not part of the provider. The spec gives them as
  \<open>pushAction(Action)\<close>, which appends an Action to the History Log, and
  \<open>clearRedoBranch()\<close>, which discards the entire redo branch. The head of \<open>undoStack\<close> is
  the newest Action.
\<close>

definition addUndoAction :: "Action \<Rightarrow> world \<Rightarrow> world" where
  "addUndoAction a w = w\<lparr>undoStack := a # undoStack w\<rparr>"

definition resetRedoStack :: "world \<Rightarrow> world" where
  "resetRedoStack w = w\<lparr>redoStack := []\<rparr>"

text \<open>An awaited gateway call that only completes: the call is logged, its reply returned.\<close>

definition db_write :: "storage \<Rightarrow> db_call \<Rightarrow> world \<Rightarrow> (error + unit) \<times> world" where
  "db_write db call w =
     (write_reply db (dbCalls w) call, w\<lparr>dbCalls := dbCalls w @ [call]\<rparr>)"

text \<open>\<^verbatim>\<open>db.getTable({ diagramId, id })\<close>\<close>

definition db_getTable :: "storage \<Rightarrow> string \<Rightarrow> string \<Rightarrow> world \<Rightarrow> (error + DBTable option) \<times> world" where
  "db_getTable db did tid w =
     (getTable_reply db (dbCalls w) did tid, w\<lparr>dbCalls := dbCalls w @ [GetTable did tid]\<rparr>)"

text \<open>\<^verbatim>\<open>db.getDiagram(diagramId, { includeRelationships: true, includeTables: true })\<close>\<close>

definition db_getDiagram :: "storage \<Rightarrow> string \<Rightarrow> world \<Rightarrow> (error + Diagram option) \<times> world" where
  "db_getDiagram db did w =
     (getDiagram_reply db (dbCalls w) did, w\<lparr>dbCalls := dbCalls w @ [GetDiagram did]\<rparr>)"

text \<open>The calls pushed on \<^verbatim>\<open>promises\<close>: each is issued, in order; the rejections are kept.\<close>

fun db_issue_all :: "storage \<Rightarrow> db_call list \<Rightarrow> world \<Rightarrow> error list \<times> world" where
  "db_issue_all db [] w = ([], w)"
| "db_issue_all db (call # calls) w =
     (case db_write db call w of
        (r, w1) \<Rightarrow>
          (case db_issue_all db calls w1 of
             (errs, w2) \<Rightarrow> ((case r of Inl e \<Rightarrow> e # errs | Inr _ \<Rightarrow> errs), w2)))"

text \<open>
  \<^verbatim>\<open>await Promise.all(promises)\<close>: every call has been issued before the join is awaited;
  the join fulfils when none rejects, and otherwise rejects with the rejection that
  settles first.
\<close>

definition db_write_all :: "storage \<Rightarrow> db_call list \<Rightarrow> world \<Rightarrow> (error + unit) \<times> world" where
  "db_write_all db calls w =
     (case db_issue_all db calls w of
        (errs, w1) \<Rightarrow>
          (if errs = [] then Inr ()
           else Inl (errs ! (settles_first db (dbCalls w1) errs mod length errs)),
           w1))"

section \<open>Mutation Engine: diagram metadata\<close>

definition no_attributes :: Diagram_partial where
  "no_attributes = \<lparr> dp_id = None, dp_name = None, dp_databaseType = None \<rparr>"

definition updateDatabaseType :: "storage \<Rightarrow> render \<Rightarrow> DatabaseType \<Rightarrow> world \<Rightarrow> (error + unit) \<times> world" where
  "updateDatabaseType db c databaseType' w =
     (let w1 = w\<lparr>databaseType := databaseType'\<rparr> in
      db_write db
        (UpdateDiagram (diagramId c) (no_attributes\<lparr>dp_databaseType := Some databaseType'\<rparr>)) w1)"

definition updateDiagramId :: "storage \<Rightarrow> render \<Rightarrow> string \<Rightarrow> world \<Rightarrow> (error + unit) \<times> world" where
  "updateDiagramId db c id' w =
     (let prevId = diagramId c;
          w1 = w\<lparr>diagramId := id'\<rparr> in
      db_write db (UpdateDiagram prevId (no_attributes\<lparr>dp_id := Some id'\<rparr>)) w1)"

definition updateDiagramName :: "storage \<Rightarrow> render \<Rightarrow> string \<Rightarrow> bool \<Rightarrow> world \<Rightarrow> (error + unit) \<times> world" where
  "updateDiagramName db c name updateHistory w =
     (let prevName = diagramName c;
          w1 = w\<lparr>diagramName := name\<rparr> in
      case db_write db (UpdateDiagram (diagramId c) (no_attributes\<lparr>dp_name := Some name\<rparr>)) w1 of
        (Inl e, w2) \<Rightarrow> (Inl e, w2)
      | (Inr _, w2) \<Rightarrow>
          if updateHistory
          then (Inr (), resetRedoStack (addUndoAction (Act_updateDiagramName name prevName) w2))
          else (Inr (), w2))"

section \<open>Mutation Engine: tables\<close>

text \<open>
  A non-negative integer in a template literal, \<^verbatim>\<open>`table_${tables.length + 1}`\<close>: its
  decimal digits.
\<close>

definition digit_char :: "nat \<Rightarrow> char" where
  "digit_char d = ''0123456789'' ! d"

function string_of_nat :: "nat \<Rightarrow> string" where
  "string_of_nat n =
     (if n < 10 then [digit_char n] else string_of_nat (n div 10) @ [digit_char (n mod 10)])"
  by pat_completeness auto
termination
  by (relation "measure (\<lambda>n. n)") auto

text \<open>The equation of \<open>string_of_nat\<close> is recursive without a guard: it is unfolded on demand only.\<close>

declare string_of_nat.simps [simp del]

text \<open>
  The number that a string of decimal digits denotes, read from the left. It states what
  the \<open>n+1\<close> of the spec's \<open>table_<n+1>\<close> is, independently of \<open>string_of_nat\<close>.
\<close>

definition digit_value :: "char \<Rightarrow> nat" where
  "digit_value ch = of_char ch - 48"

definition decimal_value :: "string \<Rightarrow> nat" where
  "decimal_value s = foldl (\<lambda>a ch. 10 * a + digit_value ch) 0 s"

definition addTable :: "storage \<Rightarrow> render \<Rightarrow> DBTable \<Rightarrow> bool \<Rightarrow> world \<Rightarrow> (error + unit) \<times> world" where
  "addTable db c table updateHistory w =
     (let w1 = w\<lparr>tables := tables w @ [table]\<rparr> in
      case db_write db (AddTable (diagramId c) table) w1 of
        (Inl e, w2) \<Rightarrow> (Inl e, w2)
      | (Inr _, w2) \<Rightarrow>
          if updateHistory
          then (Inr (), resetRedoStack (addUndoAction (Act_addTable table (t_id table)) w2))
          else (Inr (), w2))"

text \<open>
  The table literal of \<^verbatim>\<open>createTable\<close>. The results of the impure calls are arguments, in
  the order the literal evaluates them: \<^verbatim>\<open>generateId()\<close> for the table, \<^verbatim>\<open>generateId()\<close>
  and \<^verbatim>\<open>Date.now()\<close> for the field, \<^verbatim>\<open>randomHSLA()\<close>, and \<^verbatim>\<open>Date.now()\<close> for the table.
\<close>

definition new_table :: "string \<Rightarrow> string \<Rightarrow> int \<Rightarrow> string \<Rightarrow> int \<Rightarrow> DBTable list \<Rightarrow> DBTable" where
  "new_table tableId fieldId fieldNow color tableNow tabs =
     \<lparr> t_id = tableId,
       t_name = ''table_'' @ string_of_nat (length tabs + 1),
       t_x = 0,
       t_y = 0,
       t_fields =
         [\<lparr> f_id = fieldId, f_name = ''id'', f_type = ''bigint'', f_unique = True,
            f_nullable = False, f_primaryKey = True, f_createdAt = fieldNow \<rparr>],
       t_indexes = [],
       t_color = color,
       t_createdAt = tableNow,
       t_isView = False \<rparr>"

definition createTable ::
  "storage \<Rightarrow> render \<Rightarrow> string \<Rightarrow> string \<Rightarrow> int \<Rightarrow> string \<Rightarrow> int \<Rightarrow> world \<Rightarrow> (error + DBTable) \<times> world" where
  "createTable db c tableId fieldId fieldNow color tableNow w =
     (let table = new_table tableId fieldId fieldNow color tableNow (tables c) in
      case addTable db c table True w of
        (Inl e, w1) \<Rightarrow> (Inl e, w1)
      | (Inr _, w1) \<Rightarrow> (Inr table, w1))"

definition getTable :: "render \<Rightarrow> string \<Rightarrow> DBTable option" where
  "getTable c id' = find (\<lambda>table. t_id table = id') (tables c)"

definition removeTable :: "storage \<Rightarrow> render \<Rightarrow> string \<Rightarrow> bool \<Rightarrow> world \<Rightarrow> (error + unit) \<times> world" where
  "removeTable db c id' updateHistory w =
     (let table = getTable c id';
          w1 = w\<lparr>tables := filter (\<lambda>table. t_id table \<noteq> id') (tables w)\<rparr> in
      case db_write db (DeleteTable (diagramId c) id') w1 of
        (Inl e, w2) \<Rightarrow> (Inl e, w2)
      | (Inr _, w2) \<Rightarrow>
          (case table of
             Some t \<Rightarrow>
               if updateHistory
               then (Inr (), resetRedoStack (addUndoAction (Act_removeTable id' t) w2))
               else (Inr (), w2)
           | None \<Rightarrow> (Inr (), w2)))"

definition updateTable ::
  "storage \<Rightarrow> render \<Rightarrow> string \<Rightarrow> DBTable_partial \<Rightarrow> bool \<Rightarrow> world \<Rightarrow> (error + unit) \<times> world" where
  "updateTable db c id' table updateHistory w =
     (let prevTable = getTable c id';
          w1 = w\<lparr>tables := map (\<lambda>t. if t_id t = id' then merge_table t table else t) (tables w)\<rparr> in
      case db_write db (UpdateTable id' table) w1 of
        (Inl e, w2) \<Rightarrow> (Inl e, w2)
      | (Inr _, w2) \<Rightarrow>
          (case prevTable of
             Some pt \<Rightarrow>
               if updateHistory
               then (Inr (), resetRedoStack (addUndoAction (Act_updateTable id' table id' pt) w2))
               else (Inr (), w2)
           | None \<Rightarrow> (Inr (), w2)))"

text \<open>
  The inner function \<^verbatim>\<open>updateTables\<close> of \<^verbatim>\<open>updateTablesState\<close>: \<^verbatim>\<open>map\<close> with
  \<^verbatim>\<open>updatedTables.find\<close>, then \<^verbatim>\<open>filter\<close> with \<^verbatim>\<open>updatedTables.some\<close> on the mapped tables.
\<close>

definition updateTables :: "(DBTable list \<Rightarrow> DBTable_partial list) \<Rightarrow> DBTable list \<Rightarrow> DBTable list" where
  "updateTables updateFn prevTables =
     (let updatedTables = updateFn prevTables in
      filter (\<lambda>prevTable. list_ex (\<lambda>t. tp_id t = Some (t_id prevTable)) updatedTables)
        (map (\<lambda>prevTable.
                case find (\<lambda>t. tp_id t = Some (t_id prevTable)) updatedTables of
                  Some updatedTable \<Rightarrow> merge_table prevTable updatedTable
                | None \<Rightarrow> prevTable)
           prevTables))"

definition updateTablesState ::
  "storage \<Rightarrow> render \<Rightarrow> (DBTable list \<Rightarrow> DBTable_partial list) \<Rightarrow> bool \<Rightarrow> world \<Rightarrow> (error + unit) \<times> world" where
  "updateTablesState db c updateFn updateHistory w =
     (let prevTables = tables c;
          updatedTables = updateTables updateFn (tables c);
          w1 = w\<lparr>tables := updateTables updateFn (tables w)\<rparr>;
          tablesToDelete =
            filter (\<lambda>table. \<not> list_ex (\<lambda>t. t_id t = t_id table) updatedTables) (tables c);
          promises =
            map (\<lambda>updatedTable. UpdateTable (t_id updatedTable) (table_attributes updatedTable))
              updatedTables
            @ map (\<lambda>table. DeleteTable (diagramId c) (t_id table)) tablesToDelete in
      case db_write_all db promises w1 of
        (Inl e, w2) \<Rightarrow> (Inl e, w2)
      | (Inr _, w2) \<Rightarrow>
          if updateHistory
          then (Inr (),
                resetRedoStack (addUndoAction (Act_updateTablesState updatedTables prevTables) w2))
          else (Inr (), w2))"

section \<open>Mutation Engine: fields\<close>

definition getField :: "render \<Rightarrow> string \<Rightarrow> string \<Rightarrow> DBField option" where
  "getField c tableId fieldId =
     (case getTable c tableId of
        None \<Rightarrow> None
      | Some table \<Rightarrow> find (\<lambda>f. f_id f = fieldId) (t_fields table))"

definition updateField ::
  "storage \<Rightarrow> render \<Rightarrow> string \<Rightarrow> string \<Rightarrow> DBField_partial \<Rightarrow> bool \<Rightarrow> world \<Rightarrow> (error + unit) \<times> world" where
  "updateField db c tableId fieldId field updateHistory w =
     (let prevField = getField c tableId fieldId;
          w1 = w\<lparr>tables :=
                 map (\<lambda>table.
                        if t_id table = tableId
                        then table\<lparr>t_fields :=
                               map (\<lambda>f. if f_id f = fieldId then merge_field f field else f)
                                 (t_fields table)\<rparr>
                        else table)
                   (tables w)\<rparr> in
      case db_getTable db (diagramId c) tableId w1 of
        (Inl e, w2) \<Rightarrow> (Inl e, w2)
      | (Inr None, w2) \<Rightarrow> (Inr (), w2)
      | (Inr (Some table), w2) \<Rightarrow>
          (case db_write db
                  (UpdateTable tableId
                     (table_attributes
                        (table\<lparr>t_fields :=
                                 map (\<lambda>f. if f_id f = fieldId then merge_field f field else f)
                                   (t_fields table)\<rparr>)))
                  w2 of
             (Inl e, w3) \<Rightarrow> (Inl e, w3)
           | (Inr _, w3) \<Rightarrow>
               (case prevField of
                  Some pf \<Rightarrow>
                    if updateHistory
                    then (Inr (),
                          resetRedoStack
                            (addUndoAction
                               (Act_updateField tableId fieldId (merge_field pf field)
                                  tableId fieldId pf)
                               w3))
                    else (Inr (), w3)
                | None \<Rightarrow> (Inr (), w3))))"

definition removeField ::
  "storage \<Rightarrow> render \<Rightarrow> string \<Rightarrow> string \<Rightarrow> bool \<Rightarrow> world \<Rightarrow> (error + unit) \<times> world" where
  "removeField db c tableId fieldId updateHistory w =
     (let prevField = getField c tableId fieldId;
          w1 = w\<lparr>tables :=
                 map (\<lambda>table.
                        if t_id table = tableId
                        then table\<lparr>t_fields := filter (\<lambda>f. f_id f \<noteq> fieldId) (t_fields table)\<rparr>
                        else table)
                   (tables w)\<rparr> in
      case db_getTable db (diagramId c) tableId w1 of
        (Inl e, w2) \<Rightarrow> (Inl e, w2)
      | (Inr None, w2) \<Rightarrow> (Inr (), w2)
      | (Inr (Some table), w2) \<Rightarrow>
          (case db_write db
                  (UpdateTable tableId
                     (table_attributes
                        (table\<lparr>t_fields := filter (\<lambda>f. f_id f \<noteq> fieldId) (t_fields table)\<rparr>)))
                  w2 of
             (Inl e, w3) \<Rightarrow> (Inl e, w3)
           | (Inr _, w3) \<Rightarrow>
               (case prevField of
                  Some pf \<Rightarrow>
                    if updateHistory
                    then (Inr (),
                          resetRedoStack
                            (addUndoAction (Act_removeField tableId fieldId tableId pf) w3))
                    else (Inr (), w3)
                | None \<Rightarrow> (Inr (), w3))))"

definition addField ::
  "storage \<Rightarrow> render \<Rightarrow> string \<Rightarrow> DBField \<Rightarrow> bool \<Rightarrow> world \<Rightarrow> (error + unit) \<times> world" where
  "addField db c tableId field updateHistory w =
     (let w1 = w\<lparr>tables :=
                 map (\<lambda>table.
                        if t_id table = tableId
                        then table\<lparr>t_fields := t_fields table @ [field]\<rparr>
                        else table)
                   (tables w)\<rparr> in
      case db_getTable db (diagramId c) tableId w1 of
        (Inl e, w2) \<Rightarrow> (Inl e, w2)
      | (Inr None, w2) \<Rightarrow> (Inr (), w2)
      | (Inr (Some table), w2) \<Rightarrow>
          (case db_write db
                  (UpdateTable tableId
                     (table_attributes (table\<lparr>t_fields := t_fields table @ [field]\<rparr>)))
                  w2 of
             (Inl e, w3) \<Rightarrow> (Inl e, w3)
           | (Inr _, w3) \<Rightarrow>
               if updateHistory
               then (Inr (),
                     resetRedoStack
                       (addUndoAction (Act_addField tableId field tableId (f_id field)) w3))
               else (Inr (), w3)))"

text \<open>
  \<^verbatim>\<open>createField\<close>; \<open>fieldId\<close> and \<open>now\<close> are the results of \<^verbatim>\<open>generateId()\<close> and
  \<^verbatim>\<open>Date.now()\<close>.
\<close>

definition createField ::
  "storage \<Rightarrow> render \<Rightarrow> string \<Rightarrow> int \<Rightarrow> string \<Rightarrow> world \<Rightarrow> (error + DBField) \<times> world" where
  "createField db c fieldId now tableId w =
     (let table = getTable c tableId;
          field =
            \<lparr> f_id = fieldId,
              f_name =
                ''field_'' @
                string_of_nat ((case table of None \<Rightarrow> 0 | Some t \<Rightarrow> length (t_fields t)) + 1),
              f_type = ''bigint'', f_unique = False, f_nullable = True, f_primaryKey = False,
              f_createdAt = now \<rparr> in
      case addField db c tableId field True w of
        (Inl e, w1) \<Rightarrow> (Inl e, w1)
      | (Inr _, w1) \<Rightarrow> (Inr field, w1))"

section \<open>Mutation Engine: indexes\<close>

definition getIndex :: "render \<Rightarrow> string \<Rightarrow> string \<Rightarrow> DBIndex option" where
  "getIndex c tableId indexId =
     (case getTable c tableId of
        None \<Rightarrow> None
      | Some table \<Rightarrow> find (\<lambda>i. i_id i = indexId) (t_indexes table))"

definition addIndex ::
  "storage \<Rightarrow> render \<Rightarrow> string \<Rightarrow> DBIndex \<Rightarrow> bool \<Rightarrow> world \<Rightarrow> (error + unit) \<times> world" where
  "addIndex db c tableId index updateHistory w =
     (let w1 = w\<lparr>tables :=
                 map (\<lambda>table.
                        if t_id table = tableId
                        then table\<lparr>t_indexes := t_indexes table @ [index]\<rparr>
                        else table)
                   (tables w)\<rparr> in
      case db_getTable db (diagramId c) tableId w1 of
        (Inl e, w2) \<Rightarrow> (Inl e, w2)
      | (Inr None, w2) \<Rightarrow> (Inr (), w2)
      | (Inr (Some dbTable), w2) \<Rightarrow>
          (case db_write db
                  (UpdateTable tableId
                     (table_attributes (dbTable\<lparr>t_indexes := t_indexes dbTable @ [index]\<rparr>)))
                  w2 of
             (Inl e, w3) \<Rightarrow> (Inl e, w3)
           | (Inr _, w3) \<Rightarrow>
               if updateHistory
               then (Inr (),
                     resetRedoStack
                       (addUndoAction (Act_addIndex tableId index tableId (i_id index)) w3))
               else (Inr (), w3)))"

definition removeIndex ::
  "storage \<Rightarrow> render \<Rightarrow> string \<Rightarrow> string \<Rightarrow> bool \<Rightarrow> world \<Rightarrow> (error + unit) \<times> world" where
  "removeIndex db c tableId indexId updateHistory w =
     (let prevIndex = getIndex c tableId indexId;
          w1 = w\<lparr>tables :=
                 map (\<lambda>table.
                        if t_id table = tableId
                        then table\<lparr>t_indexes := filter (\<lambda>i. i_id i \<noteq> indexId) (t_indexes table)\<rparr>
                        else table)
                   (tables w)\<rparr> in
      case db_getTable db (diagramId c) tableId w1 of
        (Inl e, w2) \<Rightarrow> (Inl e, w2)
      | (Inr None, w2) \<Rightarrow> (Inr (), w2)
      | (Inr (Some dbTable), w2) \<Rightarrow>
          (case db_write db
                  (UpdateTable tableId
                     (table_attributes
                        (dbTable\<lparr>t_indexes :=
                                   filter (\<lambda>i. i_id i \<noteq> indexId) (t_indexes dbTable)\<rparr>)))
                  w2 of
             (Inl e, w3) \<Rightarrow> (Inl e, w3)
           | (Inr _, w3) \<Rightarrow>
               (case prevIndex of
                  Some pi \<Rightarrow>
                    if updateHistory
                    then (Inr (),
                          resetRedoStack
                            (addUndoAction (Act_removeIndex indexId tableId tableId pi) w3))
                    else (Inr (), w3)
                | None \<Rightarrow> (Inr (), w3))))"

text \<open>
  \<^verbatim>\<open>createIndex\<close>; \<open>indexId\<close> and \<open>now\<close> are the results of \<^verbatim>\<open>generateId()\<close> and
  \<^verbatim>\<open>Date.now()\<close>.
\<close>

definition createIndex ::
  "storage \<Rightarrow> render \<Rightarrow> string \<Rightarrow> int \<Rightarrow> string \<Rightarrow> world \<Rightarrow> (error + DBIndex) \<times> world" where
  "createIndex db c indexId now tableId w =
     (let table = getTable c tableId;
          index =
            \<lparr> i_id = indexId,
              i_name =
                ''index_'' @
                string_of_nat ((case table of None \<Rightarrow> 0 | Some t \<Rightarrow> length (t_indexes t)) + 1),
              i_fieldIds = [], i_unique = False, i_createdAt = now \<rparr> in
      case addIndex db c tableId index True w of
        (Inl e, w1) \<Rightarrow> (Inl e, w1)
      | (Inr _, w1) \<Rightarrow> (Inr index, w1))"

definition updateIndex ::
  "storage \<Rightarrow> render \<Rightarrow> string \<Rightarrow> string \<Rightarrow> DBIndex_partial \<Rightarrow> bool \<Rightarrow> world \<Rightarrow> (error + unit) \<times> world" where
  "updateIndex db c tableId indexId index updateHistory w =
     (let prevIndex = getIndex c tableId indexId;
          w1 = w\<lparr>tables :=
                 map (\<lambda>table.
                        if t_id table = tableId
                        then table\<lparr>t_indexes :=
                               map (\<lambda>i. if i_id i = indexId then merge_index i index else i)
                                 (t_indexes table)\<rparr>
                        else table)
                   (tables w)\<rparr> in
      case db_getTable db (diagramId c) tableId w1 of
        (Inl e, w2) \<Rightarrow> (Inl e, w2)
      | (Inr None, w2) \<Rightarrow> (Inr (), w2)
      | (Inr (Some dbTable), w2) \<Rightarrow>
          (case db_write db
                  (UpdateTable tableId
                     (table_attributes
                        (dbTable\<lparr>t_indexes :=
                                   map (\<lambda>i. if i_id i = indexId then merge_index i index else i)
                                     (t_indexes dbTable)\<rparr>)))
                  w2 of
             (Inl e, w3) \<Rightarrow> (Inl e, w3)
           | (Inr _, w3) \<Rightarrow>
               (case prevIndex of
                  Some pi \<Rightarrow>
                    if updateHistory
                    then (Inr (),
                          resetRedoStack
                            (addUndoAction
                               (Act_updateIndex tableId indexId index tableId indexId pi) w3))
                    else (Inr (), w3)
                | None \<Rightarrow> (Inr (), w3))))"

section \<open>Mutation Engine: relationships\<close>

definition addRelationship ::
  "storage \<Rightarrow> render \<Rightarrow> DBRelationship \<Rightarrow> bool \<Rightarrow> world \<Rightarrow> (error + unit) \<times> world" where
  "addRelationship db c relationship updateHistory w =
     (let w1 = w\<lparr>relationships := relationships w @ [relationship]\<rparr> in
      case db_write db (AddRelationship (diagramId c) relationship) w1 of
        (Inl e, w2) \<Rightarrow> (Inl e, w2)
      | (Inr _, w2) \<Rightarrow>
          if updateHistory
          then (Inr (),
                resetRedoStack
                  (addUndoAction (Act_addRelationship relationship (r_id relationship)) w2))
          else (Inr (), w2))"

definition addRelationships ::
  "storage \<Rightarrow> render \<Rightarrow> DBRelationship list \<Rightarrow> bool \<Rightarrow> world \<Rightarrow> (error + unit) \<times> world" where
  "addRelationships db c rels updateHistory w =
     (let w1 = w\<lparr>relationships := relationships w @ rels\<rparr> in
      case db_write_all db
             (map (\<lambda>relationship. AddRelationship (diagramId c) relationship) rels) w1 of
        (Inl e, w2) \<Rightarrow> (Inl e, w2)
      | (Inr _, w2) \<Rightarrow>
          if updateHistory
          then (Inr (),
                resetRedoStack (addUndoAction (Act_addRelationships rels (map r_id rels)) w2))
          else (Inr (), w2))"

text \<open>
  \<^verbatim>\<open>createRelationship\<close>; \<open>relationshipId\<close> and \<open>now\<close> are the results of \<^verbatim>\<open>generateId()\<close>
  and \<^verbatim>\<open>Date.now()\<close>.
\<close>

definition createRelationship ::
  "storage \<Rightarrow> render \<Rightarrow> string \<Rightarrow> int \<Rightarrow> string \<Rightarrow> string \<Rightarrow> string \<Rightarrow> string \<Rightarrow> world
     \<Rightarrow> (error + DBRelationship) \<times> world" where
  "createRelationship db c relationshipId now sourceTableId targetTableId sourceFieldId
       targetFieldId w =
     (let sourceTableName =
            (case getTable c sourceTableId of None \<Rightarrow> [] | Some t \<Rightarrow> t_name t);
          targetTableName =
            (case getTable c targetTableId of None \<Rightarrow> [] | Some t \<Rightarrow> t_name t);
          relationship =
            \<lparr> r_id = relationshipId,
              r_name = sourceTableName @ ''_'' @ targetTableName @ ''_fk'',
              r_sourceTableId = sourceTableId,
              r_targetTableId = targetTableId,
              r_sourceFieldId = sourceFieldId,
              r_targetFieldId = targetFieldId,
              r_type = ''one_to_one'',
              r_createdAt = now \<rparr> in
      case addRelationship db c relationship True w of
        (Inl e, w1) \<Rightarrow> (Inl e, w1)
      | (Inr _, w1) \<Rightarrow> (Inr relationship, w1))"

definition getRelationship :: "render \<Rightarrow> string \<Rightarrow> DBRelationship option" where
  "getRelationship c id' = find (\<lambda>relationship. r_id relationship = id') (relationships c)"

definition removeRelationship ::
  "storage \<Rightarrow> render \<Rightarrow> string \<Rightarrow> bool \<Rightarrow> world \<Rightarrow> (error + unit) \<times> world" where
  "removeRelationship db c id' updateHistory w =
     (let relationship = getRelationship c id';
          w1 = w\<lparr>relationships :=
                 filter (\<lambda>relationship. r_id relationship \<noteq> id') (relationships w)\<rparr> in
      case db_write db (DeleteRelationship (diagramId c) id') w1 of
        (Inl e, w2) \<Rightarrow> (Inl e, w2)
      | (Inr _, w2) \<Rightarrow>
          (case relationship of
             Some r \<Rightarrow>
               if updateHistory
               then (Inr (), resetRedoStack (addUndoAction (Act_removeRelationship id' r) w2))
               else (Inr (), w2)
           | None \<Rightarrow> (Inr (), w2)))"

text \<open>\<^verbatim>\<open>!ids.includes(relationship.id)\<close> is \<open>r_id relationship \<notin> set ids\<close>.\<close>

definition removeRelationships ::
  "storage \<Rightarrow> render \<Rightarrow> string list \<Rightarrow> bool \<Rightarrow> world \<Rightarrow> (error + unit) \<times> world" where
  "removeRelationships db c ids updateHistory w =
     (let prevRelationships =
            filter (\<lambda>relationship. r_id relationship \<notin> set ids) (relationships c);
          w1 = w\<lparr>relationships :=
                 filter (\<lambda>relationship. r_id relationship \<notin> set ids)
                   (relationships w)\<rparr> in
      case db_write_all db (map (\<lambda>id'. DeleteRelationship (diagramId c) id') ids) w1 of
        (Inl e, w2) \<Rightarrow> (Inl e, w2)
      | (Inr _, w2) \<Rightarrow>
          if updateHistory
          then (Inr (),
                resetRedoStack
                  (addUndoAction (Act_removeRelationships ids prevRelationships) w2))
          else (Inr (), w2))"

definition updateRelationship ::
  "storage \<Rightarrow> render \<Rightarrow> string \<Rightarrow> DBRelationship_partial \<Rightarrow> bool \<Rightarrow> world \<Rightarrow> (error + unit) \<times> world" where
  "updateRelationship db c id' relationship updateHistory w =
     (let prevRelationship = getRelationship c id';
          w1 = w\<lparr>relationships :=
                 map (\<lambda>r. if r_id r = id' then merge_relationship r relationship else r)
                   (relationships w)\<rparr> in
      case db_write db (UpdateRelationship id' relationship) w1 of
        (Inl e, w2) \<Rightarrow> (Inl e, w2)
      | (Inr _, w2) \<Rightarrow>
          (case prevRelationship of
             Some pr \<Rightarrow>
               if updateHistory
               then (Inr (),
                     resetRedoStack
                       (addUndoAction (Act_updateRelationship id' relationship id' pr) w2))
               else (Inr (), w2)
           | None \<Rightarrow> (Inr (), w2)))"

section \<open>Loading a diagram\<close>

definition loadDiagram :: "storage \<Rightarrow> string \<Rightarrow> world \<Rightarrow> (error + Diagram option) \<times> world" where
  "loadDiagram db diagramId' w =
     (case db_getDiagram db diagramId' w of
        (Inl e, w1) \<Rightarrow> (Inl e, w1)
      | (Inr None, w1) \<Rightarrow> (Inr None, w1)
      | (Inr (Some diagram), w1) \<Rightarrow>
          (Inr (Some diagram),
           w1\<lparr>diagramId := d_id diagram,
              diagramName := d_name diagram,
              databaseType := d_databaseType diagram,
              tables := (case d_tables diagram of None \<Rightarrow> [] | Some ts \<Rightarrow> ts),
              relationships := (case d_relationships diagram of None \<Rightarrow> [] | Some rs \<Rightarrow> rs)\<rparr>))"

section \<open>An example diagram\<close>

text \<open>
  A small diagram and two gateways, used to run the operations on concrete inputs:
  three tables, two relationships, an empty undo branch and one redoable Action.
\<close>

definition field_id :: DBField where
  "field_id =
     \<lparr> f_id = ''f1'', f_name = ''id'', f_type = ''bigint'', f_unique = True,
       f_nullable = False, f_primaryKey = True, f_createdAt = 1 \<rparr>"

definition field_email :: DBField where
  "field_email =
     \<lparr> f_id = ''f2'', f_name = ''email'', f_type = ''text'', f_unique = False,
       f_nullable = True, f_primaryKey = False, f_createdAt = 2 \<rparr>"

definition field_phone :: DBField where
  "field_phone =
     \<lparr> f_id = ''f3'', f_name = ''phone'', f_type = ''text'', f_unique = False,
       f_nullable = True, f_primaryKey = False, f_createdAt = 6 \<rparr>"

definition index_email :: DBIndex where
  "index_email =
     \<lparr> i_id = ''i1'', i_name = ''index_1'', i_fieldIds = [''f2''], i_unique = True,
       i_createdAt = 3 \<rparr>"

definition table_users :: DBTable where
  "table_users =
     \<lparr> t_id = ''t1'', t_name = ''users'', t_x = 0, t_y = 0,
       t_fields = [field_id, field_email], t_indexes = [index_email], t_color = ''red'',
       t_createdAt = 1, t_isView = False \<rparr>"

definition table_posts :: DBTable where
  "table_posts =
     \<lparr> t_id = ''t2'', t_name = ''posts'', t_x = 10, t_y = 0,
       t_fields = [], t_indexes = [], t_color = ''green'',
       t_createdAt = 2, t_isView = False \<rparr>"

definition table_tags :: DBTable where
  "table_tags =
     \<lparr> t_id = ''t3'', t_name = ''tags'', t_x = 20, t_y = 0,
       t_fields = [], t_indexes = [], t_color = ''blue'',
       t_createdAt = 3, t_isView = False \<rparr>"

definition rel_posts_users :: DBRelationship where
  "rel_posts_users =
     \<lparr> r_id = ''r1'', r_name = ''posts_users_fk'', r_sourceTableId = ''t2'',
       r_targetTableId = ''t1'', r_sourceFieldId = ''f9'', r_targetFieldId = ''f1'',
       r_type = ''one_to_one'', r_createdAt = 4 \<rparr>"

definition rel_tags_posts :: DBRelationship where
  "rel_tags_posts =
     \<lparr> r_id = ''r2'', r_name = ''tags_posts_fk'', r_sourceTableId = ''t3'',
       r_targetTableId = ''t2'', r_sourceFieldId = ''f8'', r_targetFieldId = ''f9'',
       r_type = ''one_to_one'', r_createdAt = 5 \<rparr>"

definition example_world :: world where
  "example_world =
     \<lparr> diagramId = ''d1'', diagramName = ''shop'', databaseType = GENERIC,
       tables = [table_users, table_posts, table_tags],
       relationships = [rel_posts_users, rel_tags_posts],
       undoStack = [],
       redoStack = [Act_updateDiagramName ''shop'' ''draft''],
       dbCalls = [] \<rparr>"

text \<open>A gateway on which every write fulfils; \<open>stored\<close> is its reply to \<^verbatim>\<open>getTable\<close>.\<close>

definition storage_fulfils :: "DBTable option \<Rightarrow> storage" where
  "storage_fulfils stored =
     \<lparr> getDiagram_reply = (\<lambda>log did. Inr None),
       getTable_reply = (\<lambda>log did tid. Inr stored),
       write_reply = (\<lambda>log call. Inr ()),
       settles_first = (\<lambda>log errs. 0) \<rparr>"

text \<open>A gateway on which every write rejects; \<open>stored\<close> is its reply to \<^verbatim>\<open>getTable\<close>.\<close>

definition storage_rejects :: "DBTable option \<Rightarrow> storage" where
  "storage_rejects stored =
     \<lparr> getDiagram_reply = (\<lambda>log did. Inr None),
       getTable_reply = (\<lambda>log did tid. Inr stored),
       write_reply = (\<lambda>log call. Inl (PersistenceFailure ''rejected'')),
       settles_first = (\<lambda>log errs. 0) \<rparr>"

text \<open>
  A transformation for \<^verbatim>\<open>updateTablesState\<close>: it renames the table \<open>t1\<close>, keeps \<open>t3\<close>,
  drops every other table, and names a table \<open>t9\<close> that the Store does not hold.
\<close>

definition no_table_attributes :: DBTable_partial where
  "no_table_attributes =
     \<lparr> tp_id = None, tp_name = None, tp_x = None, tp_y = None, tp_fields = None,
       tp_indexes = None, tp_color = None, tp_createdAt = None, tp_isView = None \<rparr>"

definition example_updateFn :: "DBTable list \<Rightarrow> DBTable_partial list" where
  "example_updateFn ts =
     [no_table_attributes\<lparr>tp_id := Some ''t9'', tp_name := Some ''ghost''\<rparr>,
      no_table_attributes\<lparr>tp_id := Some ''t3''\<rparr>,
      no_table_attributes\<lparr>tp_id := Some ''t1'', tp_name := Some ''customers''\<rparr>]"


definition no_field_attributes :: DBField_partial where
  "no_field_attributes =
     \<lparr> fp_id = None, fp_name = None, fp_type = None, fp_unique = None, fp_nullable = None,
       fp_primaryKey = None, fp_createdAt = None \<rparr>"

definition no_index_attributes :: DBIndex_partial where
  "no_index_attributes =
     \<lparr> ip_id = None, ip_name = None, ip_fieldIds = None, ip_unique = None,
       ip_createdAt = None \<rparr>"

definition no_relationship_attributes :: DBRelationship_partial where
  "no_relationship_attributes =
     \<lparr> rp_id = None, rp_name = None, rp_sourceTableId = None, rp_targetTableId = None,
       rp_sourceFieldId = None, rp_targetFieldId = None, rp_type = None, rp_createdAt = None \<rparr>"

text \<open>
  What the create operations build on the example diagram, for the generated id \<open>n1\<close>
  (and \<open>n2\<close> for the field of a new table), the colour \<open>grey\<close> and the times 7 and 8.
\<close>

definition table_created :: DBTable where
  "table_created =
     \<lparr> t_id = ''n1'', t_name = ''table_4'', t_x = 0, t_y = 0,
       t_fields =
         [\<lparr> f_id = ''n2'', f_name = ''id'', f_type = ''bigint'', f_unique = True,
            f_nullable = False, f_primaryKey = True, f_createdAt = 7 \<rparr>],
       t_indexes = [], t_color = ''grey'', t_createdAt = 8, t_isView = False \<rparr>"

definition field_created :: DBField where
  "field_created =
     \<lparr> f_id = ''n1'', f_name = ''field_3'', f_type = ''bigint'', f_unique = False,
       f_nullable = True, f_primaryKey = False, f_createdAt = 8 \<rparr>"

definition index_created :: DBIndex where
  "index_created =
     \<lparr> i_id = ''n1'', i_name = ''index_2'', i_fieldIds = [], i_unique = False,
       i_createdAt = 8 \<rparr>"

definition rel_created :: DBRelationship where
  "rel_created =
     \<lparr> r_id = ''n1'', r_name = ''users_posts_fk'', r_sourceTableId = ''t1'',
       r_targetTableId = ''t2'', r_sourceFieldId = ''f1'', r_targetFieldId = ''f9'',
       r_type = ''one_to_one'', r_createdAt = 8 \<rparr>"

section \<open>Basic facts\<close>

lemmas history_defs = addUndoAction_def resetRedoStack_def

lemmas gateway_defs = db_write_def db_getTable_def db_getDiagram_def

lemmas example_defs =
  field_id_def field_email_def index_email_def table_users_def table_posts_def table_tags_def
  rel_posts_users_def rel_tags_posts_def example_world_def storage_fulfils_def

lemma rendered_cells [simp]:
  "diagramId (rendered w) = diagramId w"
  "diagramName (rendered w) = diagramName w"
  "databaseType (rendered w) = databaseType w"
  "tables (rendered w) = tables w"
  "relationships (rendered w) = relationships w"
  by (simp_all add: rendered_def)

lemma db_issue_all_snd: "snd (db_issue_all db calls w) = w\<lparr>dbCalls := dbCalls w @ calls\<rparr>"
  by (induction calls arbitrary: w) (simp_all add: db_write_def case_prod_unfold)

lemma db_write_all_snd: "snd (db_write_all db calls w) = w\<lparr>dbCalls := dbCalls w @ calls\<rparr>"
  using db_issue_all_snd [of db calls w] by (simp add: db_write_all_def case_prod_unfold)

lemma db_write_all_world:
  "db_write_all db calls w = (r, w') \<Longrightarrow> w' = w\<lparr>dbCalls := dbCalls w @ calls\<rparr>"
  using db_write_all_snd [of db calls w] by simp

lemma find_map_keep:
  "(\<And>x. k (g x) = k x) \<Longrightarrow>
   find (\<lambda>x. k x = v) (map g xs) = map_option g (find (\<lambda>x. k x = v) xs)"
  by (induction xs) simp_all

lemma find_key: "find (\<lambda>x. k x = v) xs = Some y \<Longrightarrow> k y = v"
  by (induction xs) (auto split: if_splits)


lemma find_filter_same:
  "(\<And>x. P x \<Longrightarrow> Q x) \<Longrightarrow> find P (filter Q xs) = find P xs"
  by (induction xs) auto

lemma list_ex_filter_same:
  "(\<And>x. P x \<Longrightarrow> Q x) \<Longrightarrow> list_ex P (filter Q xs) = list_ex P xs"
  by (induction xs) auto

lemma find_distinct:
  "distinct (map k xs) \<Longrightarrow> x \<in> set xs \<Longrightarrow> find (\<lambda>y. k y = k x) xs = Some x"
  by (induction xs) (auto simp: image_iff)

section \<open>What each operation does to the Store\<close>





lemma updateTablesState_tables:
  "tables (snd (updateTablesState db c updateFn updateHistory w)) =
     updateTables updateFn (tables w)"
  by (auto simp: updateTablesState_def gateway_defs history_defs Let_def
           split: sum.splits option.splits prod.splits dest!: db_write_all_world)

lemma updateField_tables:
  "tables (snd (updateField db c tableId fieldId field updateHistory w)) =
     map (\<lambda>table. if t_id table = tableId
                   then table\<lparr>t_fields := map (\<lambda>f. if f_id f = fieldId then merge_field f field else f)
                            (t_fields table)\<rparr>
                   else table)
       (tables w)"
  by (auto simp: updateField_def gateway_defs history_defs Let_def
           split: sum.splits option.splits prod.splits dest!: db_write_all_world)

lemma removeField_tables:
  "tables (snd (removeField db c tableId fieldId updateHistory w)) =
     map (\<lambda>table. if t_id table = tableId
                   then table\<lparr>t_fields := filter (\<lambda>f. f_id f \<noteq> fieldId) (t_fields table)\<rparr>
                   else table)
       (tables w)"
  by (auto simp: removeField_def gateway_defs history_defs Let_def
           split: sum.splits option.splits prod.splits dest!: db_write_all_world)


lemma updateIndex_tables:
  "tables (snd (updateIndex db c tableId indexId index updateHistory w)) =
     map (\<lambda>table. if t_id table = tableId
                   then table\<lparr>t_indexes := map (\<lambda>i. if i_id i = indexId then merge_index i index else i)
                            (t_indexes table)\<rparr>
                   else table)
       (tables w)"
  by (auto simp: updateIndex_def gateway_defs history_defs Let_def
           split: sum.splits option.splits prod.splits dest!: db_write_all_world)

lemma removeIndex_tables:
  "tables (snd (removeIndex db c tableId indexId updateHistory w)) =
     map (\<lambda>table. if t_id table = tableId
                   then table\<lparr>t_indexes := filter (\<lambda>i. i_id i \<noteq> indexId) (t_indexes table)\<rparr>
                   else table)
       (tables w)"
  by (auto simp: removeIndex_def gateway_defs history_defs Let_def
           split: sum.splits option.splits prod.splits dest!: db_write_all_world)







section \<open>Recording history\<close>

text \<open>
  For each operation that can record: when \<open>updateHistory\<close> is set (the create operations
  always set it), the operation completes, and its recording condition holds (the prior
  entity was found in the render of the callback, for an update or a removal; the gateway
  held the owning table, for a field or index operation), the Action is pushed and the
  redo branch is empty afterwards.
\<close>

lemma updateDiagramName_records:
  "updateHistory \<Longrightarrow>
   fst (updateDiagramName db c name updateHistory w) = Inr () \<Longrightarrow>
   undoStack (snd (updateDiagramName db c name updateHistory w)) =
     Act_updateDiagramName name (diagramName c) # undoStack w
   \<and> redoStack (snd (updateDiagramName db c name updateHistory w)) = []"
  by (auto simp: updateDiagramName_def gateway_defs history_defs Let_def
           split: sum.splits option.splits prod.splits dest!: db_write_all_world)

lemma addTable_records:
  "updateHistory \<Longrightarrow>
   fst (addTable db c table updateHistory w) = Inr () \<Longrightarrow>
   undoStack (snd (addTable db c table updateHistory w)) =
     Act_addTable table (t_id table) # undoStack w
   \<and> redoStack (snd (addTable db c table updateHistory w)) = []"
  by (auto simp: addTable_def gateway_defs history_defs Let_def
           split: sum.splits option.splits prod.splits dest!: db_write_all_world)

lemma createTable_records:
  "fst (createTable db c newId newFieldId fieldNow color now w) = Inr table \<Longrightarrow>
   undoStack (snd (createTable db c newId newFieldId fieldNow color now w)) =
     Act_addTable table (t_id table) # undoStack w
   \<and> redoStack (snd (createTable db c newId newFieldId fieldNow color now w)) = []"
  by (auto simp: createTable_def addTable_def gateway_defs history_defs Let_def
           split: sum.splits option.splits prod.splits dest!: db_write_all_world)

lemma removeTable_records:
  "updateHistory \<Longrightarrow>
   fst (removeTable db c tableId updateHistory w) = Inr () \<Longrightarrow>
   getTable c tableId = Some prevTable \<Longrightarrow>
   undoStack (snd (removeTable db c tableId updateHistory w)) =
     Act_removeTable tableId prevTable # undoStack w
   \<and> redoStack (snd (removeTable db c tableId updateHistory w)) = []"
  by (auto simp: removeTable_def gateway_defs history_defs Let_def
           split: sum.splits option.splits prod.splits dest!: db_write_all_world)

lemma updateTable_records:
  "updateHistory \<Longrightarrow>
   fst (updateTable db c tableId attrs updateHistory w) = Inr () \<Longrightarrow>
   getTable c tableId = Some prevTable \<Longrightarrow>
   undoStack (snd (updateTable db c tableId attrs updateHistory w)) =
     Act_updateTable tableId attrs tableId prevTable # undoStack w
   \<and> redoStack (snd (updateTable db c tableId attrs updateHistory w)) = []"
  by (auto simp: updateTable_def gateway_defs history_defs Let_def
           split: sum.splits option.splits prod.splits dest!: db_write_all_world)

lemma updateTablesState_records:
  "updateHistory \<Longrightarrow>
   fst (updateTablesState db c updateFn updateHistory w) = Inr () \<Longrightarrow>
   undoStack (snd (updateTablesState db c updateFn updateHistory w)) =
     Act_updateTablesState (updateTables updateFn (tables c)) (tables c) # undoStack w
   \<and> redoStack (snd (updateTablesState db c updateFn updateHistory w)) = []"
  by (auto simp: updateTablesState_def gateway_defs history_defs Let_def
           split: sum.splits option.splits prod.splits dest!: db_write_all_world)

lemma updateField_records:
  "updateHistory \<Longrightarrow>
   fst (updateField db c tableId fieldId fieldAttrs updateHistory w) = Inr () \<Longrightarrow>
   getTable_reply db (dbCalls w) (diagramId c) tableId = Inr (Some stored) \<Longrightarrow>
   getField c tableId fieldId = Some prevField \<Longrightarrow>
   undoStack (snd (updateField db c tableId fieldId fieldAttrs updateHistory w)) =
     Act_updateField tableId fieldId (merge_field prevField fieldAttrs) tableId fieldId
          prevField # undoStack w
   \<and> redoStack (snd (updateField db c tableId fieldId fieldAttrs updateHistory w)) = []"
  by (auto simp: updateField_def gateway_defs history_defs Let_def
           split: sum.splits option.splits prod.splits dest!: db_write_all_world)

lemma removeField_records:
  "updateHistory \<Longrightarrow>
   fst (removeField db c tableId fieldId updateHistory w) = Inr () \<Longrightarrow>
   getTable_reply db (dbCalls w) (diagramId c) tableId = Inr (Some stored) \<Longrightarrow>
   getField c tableId fieldId = Some prevField \<Longrightarrow>
   undoStack (snd (removeField db c tableId fieldId updateHistory w)) =
     Act_removeField tableId fieldId tableId prevField # undoStack w
   \<and> redoStack (snd (removeField db c tableId fieldId updateHistory w)) = []"
  by (auto simp: removeField_def gateway_defs history_defs Let_def
           split: sum.splits option.splits prod.splits dest!: db_write_all_world)

lemma addField_records:
  "updateHistory \<Longrightarrow>
   fst (addField db c tableId field updateHistory w) = Inr () \<Longrightarrow>
   getTable_reply db (dbCalls w) (diagramId c) tableId = Inr (Some stored) \<Longrightarrow>
   undoStack (snd (addField db c tableId field updateHistory w)) =
     Act_addField tableId field tableId (f_id field) # undoStack w
   \<and> redoStack (snd (addField db c tableId field updateHistory w)) = []"
  by (auto simp: addField_def gateway_defs history_defs Let_def
           split: sum.splits option.splits prod.splits dest!: db_write_all_world)

lemma createField_records:
  "fst (createField db c newId now tableId w) = Inr field \<Longrightarrow>
   getTable_reply db (dbCalls w) (diagramId c) tableId = Inr (Some stored) \<Longrightarrow>
   undoStack (snd (createField db c newId now tableId w)) =
     Act_addField tableId field tableId (f_id field) # undoStack w
   \<and> redoStack (snd (createField db c newId now tableId w)) = []"
  by (auto simp: createField_def addField_def gateway_defs history_defs Let_def
           split: sum.splits option.splits prod.splits dest!: db_write_all_world)

lemma addIndex_records:
  "updateHistory \<Longrightarrow>
   fst (addIndex db c tableId index updateHistory w) = Inr () \<Longrightarrow>
   getTable_reply db (dbCalls w) (diagramId c) tableId = Inr (Some stored) \<Longrightarrow>
   undoStack (snd (addIndex db c tableId index updateHistory w)) =
     Act_addIndex tableId index tableId (i_id index) # undoStack w
   \<and> redoStack (snd (addIndex db c tableId index updateHistory w)) = []"
  by (auto simp: addIndex_def gateway_defs history_defs Let_def
           split: sum.splits option.splits prod.splits dest!: db_write_all_world)

lemma createIndex_records:
  "fst (createIndex db c newId now tableId w) = Inr index \<Longrightarrow>
   getTable_reply db (dbCalls w) (diagramId c) tableId = Inr (Some stored) \<Longrightarrow>
   undoStack (snd (createIndex db c newId now tableId w)) =
     Act_addIndex tableId index tableId (i_id index) # undoStack w
   \<and> redoStack (snd (createIndex db c newId now tableId w)) = []"
  by (auto simp: createIndex_def addIndex_def gateway_defs history_defs Let_def
           split: sum.splits option.splits prod.splits dest!: db_write_all_world)

lemma removeIndex_records:
  "updateHistory \<Longrightarrow>
   fst (removeIndex db c tableId indexId updateHistory w) = Inr () \<Longrightarrow>
   getTable_reply db (dbCalls w) (diagramId c) tableId = Inr (Some stored) \<Longrightarrow>
   getIndex c tableId indexId = Some prevIndex \<Longrightarrow>
   undoStack (snd (removeIndex db c tableId indexId updateHistory w)) =
     Act_removeIndex indexId tableId tableId prevIndex # undoStack w
   \<and> redoStack (snd (removeIndex db c tableId indexId updateHistory w)) = []"
  by (auto simp: removeIndex_def gateway_defs history_defs Let_def
           split: sum.splits option.splits prod.splits dest!: db_write_all_world)

lemma updateIndex_records:
  "updateHistory \<Longrightarrow>
   fst (updateIndex db c tableId indexId indexAttrs updateHistory w) = Inr () \<Longrightarrow>
   getTable_reply db (dbCalls w) (diagramId c) tableId = Inr (Some stored) \<Longrightarrow>
   getIndex c tableId indexId = Some prevIndex \<Longrightarrow>
   undoStack (snd (updateIndex db c tableId indexId indexAttrs updateHistory w)) =
     Act_updateIndex tableId indexId indexAttrs tableId indexId prevIndex # undoStack w
   \<and> redoStack (snd (updateIndex db c tableId indexId indexAttrs updateHistory w)) = []"
  by (auto simp: updateIndex_def gateway_defs history_defs Let_def
           split: sum.splits option.splits prod.splits dest!: db_write_all_world)

lemma addRelationship_records:
  "updateHistory \<Longrightarrow>
   fst (addRelationship db c relationship updateHistory w) = Inr () \<Longrightarrow>
   undoStack (snd (addRelationship db c relationship updateHistory w)) =
     Act_addRelationship relationship (r_id relationship) # undoStack w
   \<and> redoStack (snd (addRelationship db c relationship updateHistory w)) = []"
  by (auto simp: addRelationship_def gateway_defs history_defs Let_def
           split: sum.splits option.splits prod.splits dest!: db_write_all_world)

lemma createRelationship_records:
  "fst (createRelationship db c newId now sourceTableId targetTableId sourceFieldId
             targetFieldId w) = Inr relationship \<Longrightarrow>
   undoStack (snd (createRelationship db c newId now sourceTableId targetTableId sourceFieldId
             targetFieldId w)) =
     Act_addRelationship relationship (r_id relationship) # undoStack w
   \<and> redoStack (snd (createRelationship db c newId now sourceTableId targetTableId sourceFieldId
             targetFieldId w)) = []"
  by (auto simp: createRelationship_def addRelationship_def gateway_defs history_defs Let_def
           split: sum.splits option.splits prod.splits dest!: db_write_all_world)

lemma addRelationships_records:
  "updateHistory \<Longrightarrow>
   fst (addRelationships db c rels updateHistory w) = Inr () \<Longrightarrow>
   undoStack (snd (addRelationships db c rels updateHistory w)) =
     Act_addRelationships rels (map r_id rels) # undoStack w
   \<and> redoStack (snd (addRelationships db c rels updateHistory w)) = []"
  by (auto simp: addRelationships_def gateway_defs history_defs Let_def
           split: sum.splits option.splits prod.splits dest!: db_write_all_world)

lemma removeRelationship_records:
  "updateHistory \<Longrightarrow>
   fst (removeRelationship db c relationshipId updateHistory w) = Inr () \<Longrightarrow>
   getRelationship c relationshipId = Some prevRelationship \<Longrightarrow>
   undoStack (snd (removeRelationship db c relationshipId updateHistory w)) =
     Act_removeRelationship relationshipId prevRelationship # undoStack w
   \<and> redoStack (snd (removeRelationship db c relationshipId updateHistory w)) = []"
  by (auto simp: removeRelationship_def gateway_defs history_defs Let_def
           split: sum.splits option.splits prod.splits dest!: db_write_all_world)

lemma removeRelationships_records:
  "updateHistory \<Longrightarrow>
   fst (removeRelationships db c ids updateHistory w) = Inr () \<Longrightarrow>
   undoStack (snd (removeRelationships db c ids updateHistory w)) =
     Act_removeRelationships ids
          (filter (\<lambda>r. r_id r \<notin> set ids) (relationships c)) # undoStack w
   \<and> redoStack (snd (removeRelationships db c ids updateHistory w)) = []"
  by (auto simp: removeRelationships_def gateway_defs history_defs Let_def
           split: sum.splits option.splits prod.splits dest!: db_write_all_world)

lemma updateRelationship_records:
  "updateHistory \<Longrightarrow>
   fst (updateRelationship db c relationshipId relAttrs updateHistory w) = Inr () \<Longrightarrow>
   getRelationship c relationshipId = Some prevRelationship \<Longrightarrow>
   undoStack (snd (updateRelationship db c relationshipId relAttrs updateHistory w)) =
     Act_updateRelationship relationshipId relAttrs relationshipId prevRelationship # undoStack w
   \<and> redoStack (snd (updateRelationship db c relationshipId relAttrs updateHistory w)) = []"
  by (auto simp: updateRelationship_def gateway_defs history_defs Let_def
           split: sum.splits option.splits prod.splits dest!: db_write_all_world)

section \<open>Decimal numerals\<close>

lemma digit_value_digit_char: "d < 10 \<Longrightarrow> digit_value (digit_char d) = d"
proof -
  assume "d < 10"
  then consider "d = 0" | "d = 1" | "d = 2" | "d = 3" | "d = 4" | "d = 5" | "d = 6" | "d = 7"
    | "d = 8" | "d = 9"
    by atomize_elim arith
  then show ?thesis
    by cases (simp_all add: digit_value_def digit_char_def)
qed

lemma digit_char_is_digit: "d < 10 \<Longrightarrow> digit_char d \<in> set ''0123456789''"
proof -
  assume "d < 10"
  then consider "d = 0" | "d = 1" | "d = 2" | "d = 3" | "d = 4" | "d = 5" | "d = 6" | "d = 7"
    | "d = 8" | "d = 9"
    by atomize_elim arith
  then show ?thesis
    by cases (simp_all add: digit_char_def)
qed

lemma digit_char_zero: "d < 10 \<Longrightarrow> digit_char d = CHR ''0'' \<Longrightarrow> d = 0"
proof -
  assume "d < 10" and z: "digit_char d = CHR ''0''"
  then consider "d = 0" | "d = 1" | "d = 2" | "d = 3" | "d = 4" | "d = 5" | "d = 6" | "d = 7"
    | "d = 8" | "d = 9"
    by atomize_elim arith
  then show ?thesis
    using z by cases (simp_all add: digit_char_def)
qed

lemma decimal_value_snoc:
  "decimal_value (s @ [ch]) = 10 * decimal_value s + digit_value ch"
  by (simp add: decimal_value_def)

lemma decimal_value_string_of_nat: "decimal_value (string_of_nat n) = n"
proof (induction n rule: string_of_nat.induct)
  case (1 n)
  show ?case
  proof (cases "n < 10")
    case True
    then show ?thesis
      by (subst string_of_nat.simps) (simp add: decimal_value_def digit_value_digit_char)
  next
    case False
    with "1" show ?thesis
      by (subst string_of_nat.simps) (simp add: decimal_value_snoc digit_value_digit_char)
  qed
qed

lemma string_of_nat_digits: "set (string_of_nat n) \<subseteq> set ''0123456789''"
proof (induction n rule: string_of_nat.induct)
  case (1 n)
  show ?case
  proof (cases "n < 10")
    case True
    then show ?thesis
      using digit_char_is_digit [of n] by (subst string_of_nat.simps) simp
  next
    case False
    with "1" show ?thesis
      using digit_char_is_digit [of "n mod 10"] by (subst string_of_nat.simps) simp
  qed
qed

lemma string_of_nat_not_empty: "string_of_nat n \<noteq> []"
  by (subst string_of_nat.simps) simp

lemma string_of_nat_no_leading_zero: "0 < n \<Longrightarrow> hd (string_of_nat n) \<noteq> CHR ''0''"
proof (induction n rule: string_of_nat.induct)
  case (1 n)
  show ?case
  proof (cases "n < 10")
    case True
    then show ?thesis
      using "1.prems" digit_char_zero [of n] by (subst string_of_nat.simps) auto
  next
    case False
    then have "0 < n div 10" by simp
    with "1.IH" False have "hd (string_of_nat (n div 10)) \<noteq> CHR ''0''" by simp
    then show ?thesis
      using False string_of_nat_not_empty [of "n div 10"]
      by (subst string_of_nat.simps) simp
  qed
qed

lemma string_of_nat_example: "string_of_nat 12 = ''12''"
  by (simp add: string_of_nat.simps digit_char_def)

section \<open>loadDiagram\<close>

text \<open>
  C10. When the gateway answers \<^verbatim>\<open>getDiagram\<close> with not-found, \<^verbatim>\<open>loadDiagram\<close> returns
  not-found and leaves the diagram id, the name, the database type, the tables and the
  relationships of the Store (and the History Log) unchanged.
\<close>

theorem loadDiagram_not_found:
  "getDiagram_reply db (dbCalls w) diagramId' = Inr None \<Longrightarrow>
   fst (loadDiagram db diagramId' w) = Inr None
   \<and> diagramId (snd (loadDiagram db diagramId' w)) = diagramId w
   \<and> diagramName (snd (loadDiagram db diagramId' w)) = diagramName w
   \<and> databaseType (snd (loadDiagram db diagramId' w)) = databaseType w
   \<and> tables (snd (loadDiagram db diagramId' w)) = tables w
   \<and> relationships (snd (loadDiagram db diagramId' w)) = relationships w
   \<and> undoStack (snd (loadDiagram db diagramId' w)) = undoStack w
   \<and> redoStack (snd (loadDiagram db diagramId' w)) = redoStack w"
  by (simp add: loadDiagram_def db_getDiagram_def)

theorem loadDiagram_not_found_witness:
  "getDiagram_reply (storage_fulfils None) (dbCalls example_world) ''d7'' = Inr None
   \<and> fst (loadDiagram (storage_fulfils None) ''d7'' example_world) = Inr None
   \<and> diagramId (snd (loadDiagram (storage_fulfils None) ''d7'' example_world)) = ''d1''
   \<and> diagramName (snd (loadDiagram (storage_fulfils None) ''d7'' example_world)) = ''shop''
   \<and> databaseType (snd (loadDiagram (storage_fulfils None) ''d7'' example_world)) = GENERIC
   \<and> tables (snd (loadDiagram (storage_fulfils None) ''d7'' example_world)) =
       [table_users, table_posts, table_tags]
   \<and> relationships (snd (loadDiagram (storage_fulfils None) ''d7'' example_world)) =
       [rel_posts_users, rel_tags_posts]"
proof -
  have nf: "getDiagram_reply (storage_fulfils None) (dbCalls example_world) ''d7'' = Inr None"
    by (simp add: storage_fulfils_def)
  show ?thesis
    using nf loadDiagram_not_found [OF nf] by (simp add: example_world_def)
qed

section \<open>removeRelationships\<close>

text \<open>
  C3 asks that the Action of \<^verbatim>\<open>removeRelationships(ids)\<close> hold the removed relationships
  as its \<open>undoData\<close>. The provider computes \<open>prevRelationships\<close> with the same negated
  filter as the new Store sequence. Removing \<open>r1\<close> from the example diagram, by a callback
  of the current render, records the survivor \<open>r2\<close>, not the removed \<open>r1\<close>.
\<close>

theorem removeRelationships_undoData_survivors:
  "fst (removeRelationships (storage_fulfils None) (rendered example_world) [''r1''] True
          example_world) = Inr ()
   \<and> relationships (snd (removeRelationships (storage_fulfils None) (rendered example_world)
          [''r1''] True example_world)) = [rel_tags_posts]
   \<and> undoStack (snd (removeRelationships (storage_fulfils None) (rendered example_world)
          [''r1''] True example_world)) = [Act_removeRelationships [''r1''] [rel_tags_posts]]"
  by (simp add: removeRelationships_def db_write_all_def gateway_defs history_defs Let_def
        example_defs)

section \<open>Diagram metadata and the History Log\<close>

text \<open>
  C8, as the spec states it: \<^verbatim>\<open>updateDatabaseType\<close> and \<^verbatim>\<open>updateDiagramId\<close> append an
  Action to the History Log and clear the redo branch. On the example diagram, with a
  gateway that fulfils and callbacks of the current render, both leave the undo branch
  empty and the redoable Action in place.
\<close>

theorem metadata_updates_history_counterexample:
  "fst (updateDatabaseType (storage_fulfils None) (rendered example_world)
          (OtherDatabase ''postgresql'') example_world) = Inr ()
   \<and> undoStack (snd (updateDatabaseType (storage_fulfils None) (rendered example_world)
          (OtherDatabase ''postgresql'') example_world)) = []
   \<and> redoStack (snd (updateDatabaseType (storage_fulfils None) (rendered example_world)
          (OtherDatabase ''postgresql'') example_world)) = [Act_updateDiagramName ''shop'' ''draft'']
   \<and> fst (updateDiagramId (storage_fulfils None) (rendered example_world) ''d2'' example_world) =
       Inr ()
   \<and> undoStack (snd (updateDiagramId (storage_fulfils None) (rendered example_world) ''d2''
          example_world)) = []
   \<and> redoStack (snd (updateDiagramId (storage_fulfils None) (rendered example_world) ''d2''
          example_world)) = [Act_updateDiagramName ''shop'' ''draft'']"
  by (simp add: updateDatabaseType_def updateDiagramId_def db_write_def Let_def example_defs)

text \<open>
  C8, amended: \<^verbatim>\<open>updateDatabaseType\<close> and \<^verbatim>\<open>updateDiagramId\<close> take no \<open>updateHistory\<close>
  flag. Each sets its cell of the Store, then issues one \<^verbatim>\<open>updateDiagram\<close> call keyed by
  the diagram id of the render that created the callback (the id the Store held before the
  operation when the callback is of the current render), completes as that call does, and
  leaves every other cell of the Store and both branches of the History Log as they were.
\<close>

theorem metadata_updates_leave_history:
  "snd (updateDatabaseType db c databaseType' w) =
     w\<lparr>databaseType := databaseType',
       dbCalls := dbCalls w @
         [UpdateDiagram (diagramId c) (no_attributes\<lparr>dp_databaseType := Some databaseType'\<rparr>)]\<rparr>
   \<and> fst (updateDatabaseType db c databaseType' w) =
       write_reply db (dbCalls w)
         (UpdateDiagram (diagramId c) (no_attributes\<lparr>dp_databaseType := Some databaseType'\<rparr>))
   \<and> undoStack (snd (updateDatabaseType db c databaseType' w)) = undoStack w
   \<and> redoStack (snd (updateDatabaseType db c databaseType' w)) = redoStack w
   \<and> snd (updateDiagramId db c id' w) =
     w\<lparr>diagramId := id',
       dbCalls := dbCalls w @
         [UpdateDiagram (diagramId c) (no_attributes\<lparr>dp_id := Some id'\<rparr>)]\<rparr>
   \<and> fst (updateDiagramId db c id' w) =
       write_reply db (dbCalls w) (UpdateDiagram (diagramId c) (no_attributes\<lparr>dp_id := Some id'\<rparr>))
   \<and> undoStack (snd (updateDiagramId db c id' w)) = undoStack w
   \<and> redoStack (snd (updateDiagramId db c id' w)) = redoStack w
   \<and> dbCalls (snd (updateDatabaseType db (rendered w) databaseType' w)) =
       dbCalls w @
       [UpdateDiagram (diagramId w) (no_attributes\<lparr>dp_databaseType := Some databaseType'\<rparr>)]
   \<and> dbCalls (snd (updateDiagramId db (rendered w) id' w)) =
       dbCalls w @ [UpdateDiagram (diagramId w) (no_attributes\<lparr>dp_id := Some id'\<rparr>)]"
  by (simp add: updateDatabaseType_def updateDiagramId_def db_write_def Let_def)

text \<open>
  Two calls from one render: after \<^verbatim>\<open>updateDiagramId\<close> has set the Store's id to \<open>d2\<close>,
  \<^verbatim>\<open>updateDatabaseType\<close> of the same render still keys its call by \<open>d1\<close>.
\<close>

lemma metadata_update_older_render:
  "diagramId (snd (updateDiagramId (storage_fulfils None) (rendered example_world) ''d2''
      example_world)) = ''d2''
   \<and> dbCalls (snd (updateDatabaseType (storage_fulfils None) (rendered example_world)
        (OtherDatabase ''postgresql'')
        (snd (updateDiagramId (storage_fulfils None) (rendered example_world) ''d2''
           example_world)))) =
       [UpdateDiagram ''d1'' (no_attributes\<lparr>dp_id := Some ''d2''\<rparr>),
        UpdateDiagram ''d1'' (no_attributes\<lparr>dp_databaseType := Some (OtherDatabase ''postgresql'')\<rparr>)]"
  by (simp add: updateDatabaseType_def updateDiagramId_def db_write_def Let_def example_defs)

section \<open>createTable\<close>

lemma createTable_tables:
  "tables (snd (createTable db c tableId fieldId fieldNow color tableNow w)) =
     tables w @ [new_table tableId fieldId fieldNow color tableNow (tables c)]"
  by (simp add: createTable_def addTable_def db_write_def history_defs Let_def
        split: sum.splits prod.splits)

lemma createTable_completion:
  "fst (createTable db c tableId fieldId fieldNow color tableNow w) =
     (case write_reply db (dbCalls w)
             (AddTable (diagramId c) (new_table tableId fieldId fieldNow color tableNow (tables c))) of
        Inl e \<Rightarrow> Inl e
      | Inr u \<Rightarrow> Inr (new_table tableId fieldId fieldNow color tableNow (tables c)))"
  by (simp add: createTable_def addTable_def db_write_def history_defs Let_def
        split: sum.splits prod.splits)

lemma new_table_name:
  "take 6 (t_name (new_table tableId fieldId fieldNow color tableNow tabs)) = ''table_''
   \<and> decimal_value (drop 6 (t_name (new_table tableId fieldId fieldNow color tableNow tabs))) =
       length tabs + 1
   \<and> set (drop 6 (t_name (new_table tableId fieldId fieldNow color tableNow tabs))) \<subseteq>
       set ''0123456789''
   \<and> hd (drop 6 (t_name (new_table tableId fieldId fieldNow color tableNow tabs))) \<noteq> CHR ''0''"
  using string_of_nat_digits [of "length tabs + 1"]
    string_of_nat_no_leading_zero [of "length tabs + 1"]
  by (simp add: new_table_def decimal_value_string_of_nat)

lemma new_table_attributes:
  "t_id (new_table tableId fieldId fieldNow color tableNow tabs) = tableId
   \<and> t_fields (new_table tableId fieldId fieldNow color tableNow tabs) =
       [\<lparr> f_id = fieldId, f_name = ''id'', f_type = ''bigint'', f_unique = True,
          f_nullable = False, f_primaryKey = True, f_createdAt = fieldNow \<rparr>]
   \<and> t_indexes (new_table tableId fieldId fieldNow color tableNow tabs) = []
   \<and> t_color (new_table tableId fieldId fieldNow color tableNow tabs) = color"
  by (simp add: new_table_def)

text \<open>
  C7, as the spec states it: the table that \<^verbatim>\<open>createTable\<close> adds is named
  \<open>table_<n+1>\<close>, where \<open>n\<close> is the current number of tables in the Store. The callback
  reads \<^verbatim>\<open>tables.length\<close> from the render that created it. Two calls of the callback of
  one render, on the example diagram of three tables: the second call finds four tables
  in the Store, and names its table \<open>table_4\<close> as the first call did, not \<open>table_5\<close>.
\<close>

theorem createTable_name_counterexample:
  "fst (createTable (storage_fulfils None) (rendered example_world) ''n1'' ''n2'' 7 ''grey'' 8
          example_world) = Inr table_created
   \<and> length (tables (snd (createTable (storage_fulfils None) (rendered example_world)
          ''n1'' ''n2'' 7 ''grey'' 8 example_world))) = 4
   \<and> map t_name (tables (snd (createTable (storage_fulfils None) (rendered example_world)
          ''m1'' ''m2'' 9 ''blue'' 10
          (snd (createTable (storage_fulfils None) (rendered example_world)
             ''n1'' ''n2'' 7 ''grey'' 8 example_world))))) =
       [''users'', ''posts'', ''tags'', ''table_4'', ''table_4'']"
  by (simp add: createTable_def addTable_def new_table_def db_write_def history_defs Let_def
        example_defs table_created_def string_of_nat.simps digit_char_def)

text \<open>
  C7, amended: every call to \<^verbatim>\<open>createTable\<close> appends one table to the Store's table
  sequence. The table has the generated id; the name \<open>table_\<close> followed by the decimal
  numeral, without leading zero, of \<open>n + 1\<close>, where \<open>n\<close> is the number of tables in the
  render that created the callback, which is the number of tables in the Store when the
  callback is of the current render; exactly one field, named \<open>id\<close>, of type \<open>bigint\<close>,
  unique, not nullable, with \<open>primaryKey\<close> set; an empty index sequence; and the generated
  colour. The call completes with the appended table, unless \<^verbatim>\<open>db.addTable\<close> rejects:
  then it completes with that rejection, and the table stays in the Store.
\<close>

theorem createTable_defaults:
  "tables (snd (createTable db c tableId fieldId fieldNow color tableNow w)) =
     tables w @ [new_table tableId fieldId fieldNow color tableNow (tables c)]
   \<and> fst (createTable db c tableId fieldId fieldNow color tableNow w) =
       (case write_reply db (dbCalls w)
               (AddTable (diagramId c)
                  (new_table tableId fieldId fieldNow color tableNow (tables c))) of
          Inl e \<Rightarrow> Inl e
        | Inr u \<Rightarrow> Inr (new_table tableId fieldId fieldNow color tableNow (tables c)))
   \<and> t_id (new_table tableId fieldId fieldNow color tableNow (tables c)) = tableId
   \<and> take 6 (t_name (new_table tableId fieldId fieldNow color tableNow (tables c))) = ''table_''
   \<and> decimal_value (drop 6 (t_name (new_table tableId fieldId fieldNow color tableNow (tables c)))) =
       length (tables c) + 1
   \<and> set (drop 6 (t_name (new_table tableId fieldId fieldNow color tableNow (tables c)))) \<subseteq>
       set ''0123456789''
   \<and> hd (drop 6 (t_name (new_table tableId fieldId fieldNow color tableNow (tables c)))) \<noteq>
       CHR ''0''
   \<and> (tables c = tables w \<longrightarrow>
        decimal_value
          (drop 6 (t_name (new_table tableId fieldId fieldNow color tableNow (tables c)))) =
        length (tables w) + 1)
   \<and> t_fields (new_table tableId fieldId fieldNow color tableNow (tables c)) =
       [\<lparr> f_id = fieldId, f_name = ''id'', f_type = ''bigint'', f_unique = True,
          f_nullable = False, f_primaryKey = True, f_createdAt = fieldNow \<rparr>]
   \<and> t_indexes (new_table tableId fieldId fieldNow color tableNow (tables c)) = []
   \<and> t_color (new_table tableId fieldId fieldNow color tableNow (tables c)) = color"
proof -
  note name = new_table_name [of tableId fieldId fieldNow color tableNow "tables c"]
  note attrs = new_table_attributes [of tableId fieldId fieldNow color tableNow "tables c"]
  have current: "tables c = tables w \<longrightarrow>
        decimal_value
          (drop 6 (t_name (new_table tableId fieldId fieldNow color tableNow (tables c)))) =
        length (tables w) + 1"
  proof
    assume eq: "tables c = tables w"
    have "decimal_value
          (drop 6 (t_name (new_table tableId fieldId fieldNow color tableNow (tables c)))) =
        length (tables c) + 1"
      by (rule name [THEN conjunct2, THEN conjunct1])
    also have "\<dots> = length (tables w) + 1"
      by (simp only: eq)
    finally show "decimal_value
          (drop 6 (t_name (new_table tableId fieldId fieldNow color tableNow (tables c)))) =
        length (tables w) + 1" .
  qed
  show ?thesis
    by (intro conjI; (rule createTable_tables | rule createTable_completion
          | rule name [THEN conjunct1] | rule name [THEN conjunct2, THEN conjunct1]
          | rule name [THEN conjunct2, THEN conjunct2, THEN conjunct1]
          | rule name [THEN conjunct2, THEN conjunct2, THEN conjunct2]
          | rule current
          | rule attrs [THEN conjunct1] | rule attrs [THEN conjunct2, THEN conjunct1]
          | rule attrs [THEN conjunct2, THEN conjunct2, THEN conjunct1]
          | rule attrs [THEN conjunct2, THEN conjunct2, THEN conjunct2]))
qed

theorem createTable_defaults_witness:
  "tables (rendered example_world) = tables example_world
   \<and> decimal_value (drop 6 (t_name (new_table ''n1'' ''n2'' 7 ''grey'' 8
        (tables (rendered example_world))))) = length (tables example_world) + 1
   \<and> new_table ''n1'' ''n2'' 7 ''grey'' 8 (tables (rendered example_world)) = table_created
   \<and> t_name table_created = ''table_4''
   \<and> fst (createTable (storage_fulfils None) (rendered example_world) ''n1'' ''n2'' 7 ''grey'' 8
        example_world) = Inr table_created
   \<and> tables (snd (createTable (storage_fulfils None) (rendered example_world) ''n1'' ''n2'' 7
        ''grey'' 8 example_world)) = [table_users, table_posts, table_tags, table_created]
   \<and> fst (createTable (storage_rejects None) (rendered example_world) ''n1'' ''n2'' 7 ''grey'' 8
        example_world) = Inl (PersistenceFailure ''rejected'')
   \<and> tables (snd (createTable (storage_rejects None) (rendered example_world) ''n1'' ''n2'' 7
        ''grey'' 8 example_world)) = [table_users, table_posts, table_tags, table_created]"
proof -
  note T = createTable_defaults [where c = "rendered example_world" and w = example_world
      and tableId = "''n1''" and fieldId = "''n2''" and fieldNow = 7 and color = "''grey''"
      and tableNow = 8 and db = "storage_fulfils None"]
  note R = createTable_defaults [where c = "rendered example_world" and w = example_world
      and tableId = "''n1''" and fieldId = "''n2''" and fieldNow = 7 and color = "''grey''"
      and tableNow = 8 and db = "storage_rejects None"]
  have same: "tables (rendered example_world) = tables example_world"
    by simp
  have tab: "new_table ''n1'' ''n2'' 7 ''grey'' 8 (tables (rendered example_world)) = table_created"
    by (simp add: new_table_def table_created_def example_defs string_of_nat.simps digit_char_def)
  note numeral = T [THEN conjunct2, THEN conjunct2, THEN conjunct2, THEN conjunct2,
      THEN conjunct2, THEN conjunct2, THEN conjunct2, THEN conjunct1, THEN mp, OF same]
  have f1: "fst (createTable (storage_fulfils None) (rendered example_world) ''n1'' ''n2'' 7
      ''grey'' 8 example_world) = Inr table_created"
    unfolding T [THEN conjunct2, THEN conjunct1] tab
    by (simp add: storage_fulfils_def)
  have f2: "tables (snd (createTable (storage_fulfils None) (rendered example_world) ''n1'' ''n2'' 7
        ''grey'' 8 example_world)) = [table_users, table_posts, table_tags, table_created]"
    unfolding T [THEN conjunct1] tab
    by (simp add: example_defs)
  have f3: "fst (createTable (storage_rejects None) (rendered example_world) ''n1'' ''n2'' 7
      ''grey'' 8 example_world) = Inl (PersistenceFailure ''rejected'')"
    unfolding R [THEN conjunct2, THEN conjunct1] tab
    by (simp add: storage_rejects_def)
  have f4: "tables (snd (createTable (storage_rejects None) (rendered example_world) ''n1'' ''n2'' 7
        ''grey'' 8 example_world)) = [table_users, table_posts, table_tags, table_created]"
    unfolding R [THEN conjunct1] tab
    by (simp add: example_defs)
  have f5: "t_name table_created = ''table_4''"
    by (simp add: table_created_def)
  show ?thesis
    by (intro conjI; (rule same | rule numeral | rule tab | rule f1 | rule f2 | rule f3 | rule f4
          | rule f5))
qed

section \<open>Field updates\<close>

lemma updateField_rejected:
  "getTable_reply db (dbCalls w) (diagramId c) tableId = Inr (Some stored) \<Longrightarrow>
   write_reply db (dbCalls w @ [GetTable (diagramId c) tableId])
     (UpdateTable tableId
        (table_attributes
           (stored\<lparr>t_fields := map (\<lambda>f. if f_id f = fieldId then merge_field f field else f)
                                 (t_fields stored)\<rparr>))) = Inl e \<Longrightarrow>
   fst (updateField db c tableId fieldId field updateHistory w) = Inl e
   \<and> undoStack (snd (updateField db c tableId fieldId field updateHistory w)) = undoStack w
   \<and> redoStack (snd (updateField db c tableId fieldId field updateHistory w)) = redoStack w"
  by (simp add: updateField_def gateway_defs Let_def)

lemma merge_field_id:
  "fp_id p = None \<or> fp_id p = Some (f_id f) \<Longrightarrow> f_id (merge_field f p) = f_id f"
  by (auto simp: merge_field_def spread_def)

lemma updateField_getField:
  assumes pf: "getField (rendered w) tableId fieldId = Some pf"
    and keep: "fp_id field = None \<or> fp_id field = Some fieldId"
  shows "getField (rendered (snd (updateField db c tableId fieldId field updateHistory w)))
           tableId fieldId = Some (merge_field pf field)"
proof -
  let ?F = "\<lambda>f. if f_id f = fieldId then merge_field f field else f"
  let ?G = "\<lambda>table. if t_id table = tableId
                     then table\<lparr>t_fields := map ?F (t_fields table)\<rparr> else table"
  from pf obtain t where t: "find (\<lambda>table. t_id table = tableId) (tables w) = Some t"
    and f: "find (\<lambda>f. f_id f = fieldId) (t_fields t) = Some pf"
    by (auto simp: getField_def getTable_def split: option.splits)
  have tid: "t_id t = tableId" using t by (rule find_key)
  have fid: "f_id pf = fieldId" using f by (rule find_key)
  have G: "\<And>x. t_id (?G x) = t_id x" by simp
  have F: "\<And>x. f_id (?F x) = f_id x" using keep by (auto simp: merge_field_id)
  have "find (\<lambda>table. t_id table = tableId) (map ?G (tables w)) = Some (?G t)"
    using find_map_keep [of t_id ?G tableId "tables w", OF G] t by simp
  moreover have "find (\<lambda>f. f_id f = fieldId) (map ?F (t_fields t)) = Some (?F pf)"
    using find_map_keep [of f_id ?F fieldId "t_fields t", OF F] f by simp
  ultimately show ?thesis
    using tid fid by (simp add: getField_def getTable_def updateField_tables)
qed

section \<open>Bulk table reconciliation\<close>

lemma merged_id:
  "find (\<lambda>u. tp_id u = Some (t_id t)) us = Some u \<Longrightarrow> t_id (merge_table t u) = t_id t"
  by (drule find_key) (simp add: merge_table_def spread_def)

lemma reconciled_id:
  "t_id (case find (\<lambda>u. tp_id u = Some (t_id t)) us of
           Some u \<Rightarrow> merge_table t u | None \<Rightarrow> t) = t_id t"
  by (auto simp: merged_id split: option.splits)

lemma in_ids_iff: "list_ex (\<lambda>u. tp_id u = Some i) us = (Some i \<in> set (map tp_id us))"
  by (induction us) auto

lemma updateTables_eq:
  "updateTables f ts =
     map (\<lambda>t. case find (\<lambda>u. tp_id u = Some (t_id t)) (f ts) of
                Some u \<Rightarrow> merge_table t u | None \<Rightarrow> t)
       (filter (\<lambda>t. Some (t_id t) \<in> set (map tp_id (f ts))) ts)"
  by (simp add: updateTables_def Let_def filter_map comp_def reconciled_id in_ids_iff)

lemma updateTables_ids:
  "map t_id (updateTables f ts) = filter (\<lambda>i. Some i \<in> set (map tp_id (f ts))) (map t_id ts)"
  by (simp add: updateTables_eq filter_map comp_def reconciled_id)

lemma updateTablesState_unrecorded:
  "\<not> (h \<and> fst (updateTablesState db c f h w) = Inr ()) \<Longrightarrow>
   undoStack (snd (updateTablesState db c f h w)) = undoStack w
   \<and> redoStack (snd (updateTablesState db c f h w)) = redoStack w"
  by (auto simp: updateTablesState_def history_defs Let_def split: sum.splits prod.splits
           dest!: db_write_all_world)

lemma updateTablesState_calls:
  "dbCalls (snd (updateTablesState db c f h w)) =
     dbCalls w
     @ map (\<lambda>t. UpdateTable (t_id t) (table_attributes t)) (updateTables f (tables c))
     @ map (\<lambda>t. DeleteTable (diagramId c) (t_id t))
         (filter (\<lambda>t. \<not> list_ex (\<lambda>u. t_id u = t_id t) (updateTables f (tables c))) (tables c))"
  by (auto simp: updateTablesState_def history_defs Let_def split: sum.splits prod.splits
           dest!: db_write_all_world)

lemma updateTables_ignores_unmatched:
  "updateTables (\<lambda>ts. filter (\<lambda>u. list_ex (\<lambda>t. tp_id u = Some (t_id t)) ts) (f ts)) ts =
   updateTables f ts"
proof -
  let ?us = "filter (\<lambda>u. list_ex (\<lambda>t. tp_id u = Some (t_id t)) ts) (f ts)"
  have a: "\<And>t. t \<in> set ts \<Longrightarrow>
      find (\<lambda>u. tp_id u = Some (t_id t)) ?us = find (\<lambda>u. tp_id u = Some (t_id t)) (f ts)"
    by (rule find_filter_same) (auto simp: list_ex_iff)
  have b: "\<And>t. t \<in> set ts \<Longrightarrow>
      list_ex (\<lambda>u. tp_id u = Some (t_id t)) ?us = list_ex (\<lambda>u. tp_id u = Some (t_id t)) (f ts)"
    by (rule list_ex_filter_same) (auto simp: list_ex_iff)
  have "map (\<lambda>t. case find (\<lambda>u. tp_id u = Some (t_id t)) ?us of
                    Some u \<Rightarrow> merge_table t u | None \<Rightarrow> t) ts =
        map (\<lambda>t. case find (\<lambda>u. tp_id u = Some (t_id t)) (f ts) of
                    Some u \<Rightarrow> merge_table t u | None \<Rightarrow> t) ts"
    by (rule map_cong) (simp_all add: a)
  moreover have "filter (\<lambda>t. list_ex (\<lambda>u. tp_id u = Some (t_id t)) ?us) ts =
        filter (\<lambda>t. list_ex (\<lambda>u. tp_id u = Some (t_id t)) (f ts)) ts"
    by (rule filter_cong) (simp_all add: b)
  ultimately show ?thesis
    by (simp add: updateTables_eq in_ids_iff [symmetric] del: set_map)
qed

section \<open>Optimistic update of a field\<close>

text \<open>
  C5. \<^verbatim>\<open>updateField\<close> applies the field update to the Store before it calls the gateway:
  whatever the gateway replies, the table sequence of the Store is the updated one, and
  the field, when the Store held it and the update keeps its id, reads back merged. When
  the gateway holds the table and rejects \<^verbatim>\<open>updateTable\<close>, the completion of the operation
  is that rejection, the update stays in the Store, and no Action is recorded. This holds
  for the callback of every render \<open>c\<close>, the current one included.
\<close>

theorem updateField_optimistic:
  "tables (snd (updateField db c tableId fieldId field updateHistory w)) =
     map (\<lambda>table. if t_id table = tableId
                   then table\<lparr>t_fields := map (\<lambda>f. if f_id f = fieldId then merge_field f field else f)
                                            (t_fields table)\<rparr>
                   else table)
       (tables w)
   \<and> (getField (rendered w) tableId fieldId = Some pf
        \<and> (fp_id field = None \<or> fp_id field = Some fieldId) \<longrightarrow>
        getField (rendered (snd (updateField db c tableId fieldId field updateHistory w)))
          tableId fieldId = Some (merge_field pf field))
   \<and> (getTable_reply db (dbCalls w) (diagramId c) tableId = Inr (Some stored) \<and>
      write_reply db (dbCalls w @ [GetTable (diagramId c) tableId])
        (UpdateTable tableId
           (table_attributes
              (stored\<lparr>t_fields := map (\<lambda>f. if f_id f = fieldId then merge_field f field else f)
                                    (t_fields stored)\<rparr>))) = Inl e \<longrightarrow>
        fst (updateField db c tableId fieldId field updateHistory w) = Inl e
        \<and> undoStack (snd (updateField db c tableId fieldId field updateHistory w)) = undoStack w
        \<and> redoStack (snd (updateField db c tableId fieldId field updateHistory w)) = redoStack w)"
  using updateField_tables [of db c tableId fieldId field updateHistory w]
    updateField_getField [of w tableId fieldId pf field db c updateHistory]
    updateField_rejected [of db w c tableId stored fieldId field e updateHistory]
  by blast

theorem updateField_optimistic_witness:
  "getField (rendered example_world) ''t1'' ''f2'' = Some field_email
   \<and> getTable_reply (storage_rejects (Some table_users)) (dbCalls example_world)
       (diagramId (rendered example_world)) ''t1'' = Inr (Some table_users)
   \<and> fst (updateField (storage_rejects (Some table_users)) (rendered example_world) ''t1'' ''f2''
            (no_field_attributes\<lparr>fp_name := Some ''mail''\<rparr>) True example_world) =
       Inl (PersistenceFailure ''rejected'')
   \<and> tables (snd (updateField (storage_rejects (Some table_users)) (rendered example_world)
            ''t1'' ''f2'' (no_field_attributes\<lparr>fp_name := Some ''mail''\<rparr>) True example_world)) =
       [table_users\<lparr>t_fields := [field_id, field_email\<lparr>f_name := ''mail''\<rparr>]\<rparr>,
        table_posts, table_tags]
   \<and> getField (rendered (snd (updateField (storage_rejects (Some table_users))
            (rendered example_world) ''t1'' ''f2''
            (no_field_attributes\<lparr>fp_name := Some ''mail''\<rparr>) True example_world))) ''t1'' ''f2'' =
       Some (field_email\<lparr>f_name := ''mail''\<rparr>)
   \<and> undoStack (snd (updateField (storage_rejects (Some table_users)) (rendered example_world)
            ''t1'' ''f2'' (no_field_attributes\<lparr>fp_name := Some ''mail''\<rparr>) True example_world)) = []"
proof -
  note T = updateField_optimistic [where db = "storage_rejects (Some table_users)"
      and c = "rendered example_world" and tableId = "''t1''" and fieldId = "''f2''"
      and field = "no_field_attributes\<lparr>fp_name := Some ''mail''\<rparr>" and updateHistory = True
      and w = example_world and pf = field_email and stored = table_users
      and e = "PersistenceFailure ''rejected''"]
  have found: "getField (rendered example_world) ''t1'' ''f2'' = Some field_email"
    by (simp add: example_defs storage_rejects_def no_field_attributes_def getField_def getTable_def)
  have keep: "fp_id (no_field_attributes\<lparr>fp_name := Some ''mail''\<rparr>) = None"
    by (simp add: no_field_attributes_def)
  have stored: "getTable_reply (storage_rejects (Some table_users)) (dbCalls example_world)
       (diagramId (rendered example_world)) ''t1'' = Inr (Some table_users)"
    by (simp add: storage_rejects_def)
  have rejects: "write_reply (storage_rejects (Some table_users)) cs call =
      Inl (PersistenceFailure ''rejected'')" for cs call
    by (simp add: storage_rejects_def)
  have merged: "merge_field field_email (no_field_attributes\<lparr>fp_name := Some ''mail''\<rparr>) =
      field_email\<lparr>f_name := ''mail''\<rparr>"
    by (simp add: merge_field_def spread_def no_field_attributes_def field_email_def)
  from T found keep stored rejects
  have a: "tables (snd (updateField (storage_rejects (Some table_users)) (rendered example_world)
            ''t1'' ''f2'' (no_field_attributes\<lparr>fp_name := Some ''mail''\<rparr>) True example_world)) =
       map (\<lambda>table. if t_id table = ''t1''
                   then table\<lparr>t_fields := map (\<lambda>f. if f_id f = ''f2''
                       then merge_field f (no_field_attributes\<lparr>fp_name := Some ''mail''\<rparr>) else f)
                                            (t_fields table)\<rparr>
                   else table)
       (tables example_world)"
    and b: "getField (rendered (snd (updateField (storage_rejects (Some table_users))
            (rendered example_world) ''t1'' ''f2''
            (no_field_attributes\<lparr>fp_name := Some ''mail''\<rparr>) True example_world))) ''t1'' ''f2'' =
       Some (field_email\<lparr>f_name := ''mail''\<rparr>)"
    and c: "fst (updateField (storage_rejects (Some table_users)) (rendered example_world)
            ''t1'' ''f2'' (no_field_attributes\<lparr>fp_name := Some ''mail''\<rparr>) True example_world) =
       Inl (PersistenceFailure ''rejected'')"
    and d: "undoStack (snd (updateField (storage_rejects (Some table_users))
            (rendered example_world) ''t1'' ''f2''
            (no_field_attributes\<lparr>fp_name := Some ''mail''\<rparr>) True example_world)) =
         undoStack example_world"
    unfolding merged [symmetric] by blast+
  have a': "map (\<lambda>table. if t_id table = ''t1''
                   then table\<lparr>t_fields := map (\<lambda>f. if f_id f = ''f2''
                       then merge_field f (no_field_attributes\<lparr>fp_name := Some ''mail''\<rparr>) else f)
                                            (t_fields table)\<rparr>
                   else table)
       (tables example_world) = [table_users\<lparr>t_fields := [field_id, field_email\<lparr>f_name := ''mail''\<rparr>]\<rparr>,
        table_posts, table_tags]"
    by (simp add: example_defs storage_rejects_def no_field_attributes_def merge_field_def spread_def)
  show ?thesis
    unfolding a b c d a' using found stored by (simp add: example_world_def)
qed

section \<open>updateTablesState\<close>

text \<open>
  C2, as the spec states it: whenever \<open>updateHistory\<close> is true, \<^verbatim>\<open>updateTablesState\<close>
  records exactly one Action. The provider records after \<^verbatim>\<open>await Promise.all(promises)\<close>.
  On the example diagram, with a gateway that rejects its writes and the callback of the
  current render, the Store holds the reconciled tables and the operation completes with
  the rejection, and no Action is recorded although \<open>updateHistory\<close> is true.
\<close>

theorem updateTablesState_rejected_counterexample:
  "fst (updateTablesState (storage_rejects None) (rendered example_world) example_updateFn True
          example_world) = Inl (PersistenceFailure ''rejected'')
   \<and> tables (snd (updateTablesState (storage_rejects None) (rendered example_world)
          example_updateFn True example_world)) =
       [table_users\<lparr>t_name := ''customers''\<rparr>, table_tags]
   \<and> undoStack (snd (updateTablesState (storage_rejects None) (rendered example_world)
          example_updateFn True example_world)) = []
   \<and> redoStack (snd (updateTablesState (storage_rejects None) (rendered example_world)
          example_updateFn True example_world)) = [Act_updateDiagramName ''shop'' ''draft'']"
  by (simp add: updateTablesState_def updateTables_def db_write_all_def gateway_defs history_defs
        Let_def example_defs no_table_attributes_def example_updateFn_def storage_rejects_def
        merge_table_def spread_def table_attributes_def)

text \<open>
  C2, amended. The reconciliation of a table sequence with a transformation keeps the
  tables whose id appears in the result of the transformation applied to that sequence,
  each merged with the first entry of the result that carries its id, and drops the
  others. After \<^verbatim>\<open>updateTablesState\<close> the table sequence of the Store is the reconciliation
  of the Store's prior sequence. The persistence calls, and the Action, are computed from
  the table sequence of the render that created the callback: one \<^verbatim>\<open>updateTable\<close> for each
  table of that sequence's reconciliation, then one \<^verbatim>\<open>deleteTable\<close> for each table it drops.
  When \<open>updateHistory\<close> is set and the operation completes (the join of its persistence
  calls fulfils), exactly one Action is pushed: its \<open>undoData\<close> is the render's table
  sequence, its \<open>redoData\<close> the reconciliation of it, and the redo branch is empty; for the
  callback of the current render these are the Store's prior and updated table sequences.
  Otherwise (the flag is not set, or a persistence call rejects) the History Log is left
  as it was.
\<close>

theorem updateTablesState_reconciles:
  "updateTables updateFn ts =
     map (\<lambda>t. case find (\<lambda>u. tp_id u = Some (t_id t)) (updateFn ts) of
                Some u \<Rightarrow> merge_table t u | None \<Rightarrow> t)
       (filter (\<lambda>t. Some (t_id t) \<in> set (map tp_id (updateFn ts))) ts)
   \<and> tables (snd (updateTablesState db c updateFn updateHistory w)) =
       updateTables updateFn (tables w)
   \<and> dbCalls (snd (updateTablesState db c updateFn updateHistory w)) =
       dbCalls w
       @ map (\<lambda>t. UpdateTable (t_id t) (table_attributes t)) (updateTables updateFn (tables c))
       @ map (\<lambda>t. DeleteTable (diagramId c) (t_id t))
           (filter (\<lambda>t. \<not> list_ex (\<lambda>u. t_id u = t_id t) (updateTables updateFn (tables c)))
              (tables c))
   \<and> (updateHistory \<and> fst (updateTablesState db c updateFn updateHistory w) = Inr () \<longrightarrow>
        undoStack (snd (updateTablesState db c updateFn updateHistory w)) =
          Act_updateTablesState (updateTables updateFn (tables c)) (tables c) # undoStack w
        \<and> redoStack (snd (updateTablesState db c updateFn updateHistory w)) = [])
   \<and> (updateHistory \<and> fst (updateTablesState db (rendered w) updateFn updateHistory w) = Inr () \<longrightarrow>
        undoStack (snd (updateTablesState db (rendered w) updateFn updateHistory w)) =
          Act_updateTablesState
            (tables (snd (updateTablesState db (rendered w) updateFn updateHistory w)))
            (tables w) # undoStack w
        \<and> redoStack (snd (updateTablesState db (rendered w) updateFn updateHistory w)) = [])
   \<and> (\<not> (updateHistory \<and> fst (updateTablesState db c updateFn updateHistory w) = Inr ()) \<longrightarrow>
        undoStack (snd (updateTablesState db c updateFn updateHistory w)) = undoStack w
        \<and> redoStack (snd (updateTablesState db c updateFn updateHistory w)) = redoStack w)"
proof -
  have history: "updateHistory \<and> fst (updateTablesState db c updateFn updateHistory w) = Inr () \<longrightarrow>
        undoStack (snd (updateTablesState db c updateFn updateHistory w)) =
          Act_updateTablesState (updateTables updateFn (tables c)) (tables c) # undoStack w
        \<and> redoStack (snd (updateTablesState db c updateFn updateHistory w)) = []" for c
    using updateTablesState_records [of updateHistory db c updateFn w] by blast
  have current:
    "updateHistory \<and> fst (updateTablesState db (rendered w) updateFn updateHistory w) = Inr () \<longrightarrow>
        undoStack (snd (updateTablesState db (rendered w) updateFn updateHistory w)) =
          Act_updateTablesState
            (tables (snd (updateTablesState db (rendered w) updateFn updateHistory w)))
            (tables w) # undoStack w
        \<and> redoStack (snd (updateTablesState db (rendered w) updateFn updateHistory w)) = []"
    using history [of "rendered w"] by (simp add: updateTablesState_tables)
  have otherwise:
    "\<not> (updateHistory \<and> fst (updateTablesState db c updateFn updateHistory w) = Inr ()) \<longrightarrow>
        undoStack (snd (updateTablesState db c updateFn updateHistory w)) = undoStack w
        \<and> redoStack (snd (updateTablesState db c updateFn updateHistory w)) = redoStack w"
    using updateTablesState_unrecorded [of updateHistory db c updateFn w] by blast
  show ?thesis
    by (intro conjI; (rule updateTables_eq | rule updateTablesState_tables
          | rule updateTablesState_calls | rule history | rule current | rule otherwise))
qed

theorem updateTablesState_reconciles_witness:
  "fst (updateTablesState (storage_fulfils None) (rendered example_world) example_updateFn True
        example_world) = Inr ()
   \<and> tables (snd (updateTablesState (storage_fulfils None) (rendered example_world)
        example_updateFn True example_world)) = [table_users\<lparr>t_name := ''customers''\<rparr>, table_tags]
   \<and> undoStack (snd (updateTablesState (storage_fulfils None) (rendered example_world)
        example_updateFn True example_world)) =
       [Act_updateTablesState [table_users\<lparr>t_name := ''customers''\<rparr>, table_tags]
          [table_users, table_posts, table_tags]]
   \<and> redoStack (snd (updateTablesState (storage_fulfils None) (rendered example_world)
        example_updateFn True example_world)) = []
   \<and> fst (updateTablesState (storage_rejects None) (rendered example_world) example_updateFn True
        example_world) = Inl (PersistenceFailure ''rejected'')
   \<and> tables (snd (updateTablesState (storage_rejects None) (rendered example_world)
        example_updateFn True example_world)) = [table_users\<lparr>t_name := ''customers''\<rparr>, table_tags]
   \<and> undoStack (snd (updateTablesState (storage_rejects None) (rendered example_world)
        example_updateFn True example_world)) = []
   \<and> redoStack (snd (updateTablesState (storage_rejects None) (rendered example_world)
        example_updateFn True example_world)) = [Act_updateDiagramName ''shop'' ''draft'']"
proof -
  note examples = example_defs no_table_attributes_def example_updateFn_def
  note T = updateTablesState_reconciles [where db = "storage_fulfils None"
      and c = "rendered example_world" and updateFn = example_updateFn and updateHistory = True
      and w = example_world and ts = "tables example_world"]
  note R = updateTablesState_reconciles [where db = "storage_rejects None"
      and c = "rendered example_world" and updateFn = example_updateFn and updateHistory = True
      and w = example_world and ts = "tables example_world"]
  have ok: "fst (updateTablesState (storage_fulfils None) (rendered example_world)
      example_updateFn True example_world) = Inr ()"
    by (simp add: updateTablesState_def updateTables_def db_write_all_def gateway_defs
          history_defs Let_def examples merge_table_def spread_def table_attributes_def)
  have rejected: "fst (updateTablesState (storage_rejects None) (rendered example_world)
      example_updateFn True example_world) = Inl (PersistenceFailure ''rejected'')"
    by (simp add: updateTablesState_def updateTables_def db_write_all_def gateway_defs
          history_defs Let_def examples storage_rejects_def merge_table_def spread_def
          table_attributes_def)
  have ts: "updateTables example_updateFn (tables example_world) =
      [table_users\<lparr>t_name := ''customers''\<rparr>, table_tags]"
    unfolding T [THEN conjunct1] by (simp add: examples merge_table_def spread_def)
  have a: "tables (snd (updateTablesState (storage_fulfils None) (rendered example_world)
      example_updateFn True example_world)) = [table_users\<lparr>t_name := ''customers''\<rparr>, table_tags]"
    unfolding T [THEN conjunct2, THEN conjunct1] by (rule ts)
  note h = T [THEN conjunct2, THEN conjunct2, THEN conjunct2, THEN conjunct2, THEN conjunct1,
      THEN mp, OF conjI [OF TrueI ok]]
  have b: "undoStack (snd (updateTablesState (storage_fulfils None) (rendered example_world)
      example_updateFn True example_world)) =
       [Act_updateTablesState [table_users\<lparr>t_name := ''customers''\<rparr>, table_tags]
          [table_users, table_posts, table_tags]]"
    unfolding h [THEN conjunct1] a by (simp add: example_world_def)
  have c: "redoStack (snd (updateTablesState (storage_fulfils None) (rendered example_world)
      example_updateFn True example_world)) = []"
    by (rule h [THEN conjunct2])
  have d: "tables (snd (updateTablesState (storage_rejects None) (rendered example_world)
      example_updateFn True example_world)) = [table_users\<lparr>t_name := ''customers''\<rparr>, table_tags]"
    unfolding R [THEN conjunct2, THEN conjunct1] by (rule ts)
  have "\<not> (True \<and> fst (updateTablesState (storage_rejects None) (rendered example_world)
      example_updateFn True example_world) = Inr ())"
    unfolding rejected by simp
  note k = R [THEN conjunct2, THEN conjunct2, THEN conjunct2, THEN conjunct2, THEN conjunct2,
      THEN mp, OF this]
  have e: "undoStack (snd (updateTablesState (storage_rejects None) (rendered example_world)
      example_updateFn True example_world)) = []"
    unfolding k [THEN conjunct1] by (simp add: example_world_def)
  have f: "redoStack (snd (updateTablesState (storage_rejects None) (rendered example_world)
      example_updateFn True example_world)) = [Act_updateDiagramName ''shop'' ''draft'']"
    unfolding k [THEN conjunct2] by (simp add: example_world_def)
  show ?thesis
    by (intro conjI; (rule ok | rule a | rule b | rule c | rule rejected | rule d | rule e | rule f))
qed

text \<open>
  The callback of an older render: after \<^verbatim>\<open>removeTable\<close> has dropped \<open>t1\<close> from the Store,
  \<^verbatim>\<open>updateTablesState\<close> of the render before it reconciles the Store's two tables, and
  records the three tables of its own render as \<open>undoData\<close>.
\<close>

lemma updateTablesState_older_render:
  "tables (snd (removeTable (storage_fulfils None) (rendered example_world) ''t1'' False
      example_world)) = [table_posts, table_tags]
   \<and> tables (snd (updateTablesState (storage_fulfils None) (rendered example_world)
        example_updateFn True
        (snd (removeTable (storage_fulfils None) (rendered example_world) ''t1'' False
           example_world)))) = [table_tags]
   \<and> undoStack (snd (updateTablesState (storage_fulfils None) (rendered example_world)
        example_updateFn True
        (snd (removeTable (storage_fulfils None) (rendered example_world) ''t1'' False
           example_world)))) =
       [Act_updateTablesState [table_users\<lparr>t_name := ''customers''\<rparr>, table_tags]
          [table_users, table_posts, table_tags]]"
  by (simp add: updateTablesState_def updateTables_def removeTable_def getTable_def
        db_write_all_def gateway_defs history_defs Let_def example_defs no_table_attributes_def
        example_updateFn_def merge_table_def spread_def table_attributes_def)

text \<open>
  C9. \<^verbatim>\<open>updateTablesState\<close> never adds a table. The ids of the Store's tables afterwards
  are the prior ids that occur in the result of the transformation, in their prior order
  (a subsequence of the prior ids); an entry of the result whose id matches no table
  changes nothing; and two results with the same ids, in whatever order, leave the same
  sequence of ids. This holds for the callback of every render \<open>c\<close>.
\<close>

theorem updateTablesState_never_adds:
  "map t_id (tables (snd (updateTablesState db c updateFn updateHistory w))) =
     filter (\<lambda>i. Some i \<in> set (map tp_id (updateFn (tables w)))) (map t_id (tables w))
   \<and> subseq (map t_id (tables (snd (updateTablesState db c updateFn updateHistory w))))
       (map t_id (tables w))
   \<and> updateTables
       (\<lambda>ts. filter (\<lambda>u. list_ex (\<lambda>t. tp_id u = Some (t_id t)) ts) (updateFn ts)) (tables w) =
     updateTables updateFn (tables w)
   \<and> (set (map tp_id (updateFn' (tables w))) = set (map tp_id (updateFn (tables w))) \<longrightarrow>
        map t_id (tables (snd (updateTablesState db c updateFn' updateHistory w))) =
        map t_id (tables (snd (updateTablesState db c updateFn updateHistory w))))"
proof -
  have ids: "\<And>f. map t_id (tables (snd (updateTablesState db c f updateHistory w))) =
     filter (\<lambda>i. Some i \<in> set (map tp_id (f (tables w)))) (map t_id (tables w))"
    by (simp only: updateTablesState_tables updateTables_ids)
  have sub: "subseq (map t_id (tables (snd (updateTablesState db c updateFn updateHistory w))))
       (map t_id (tables w))"
    unfolding ids by (rule subseq_filter_left)
  show ?thesis
    using sub updateTables_ignores_unmatched [of updateFn "tables w"]
    by (simp only: ids) simp
qed

theorem updateTablesState_never_adds_witness:
  "set (map tp_id (rev (example_updateFn (tables example_world)))) =
     set (map tp_id (example_updateFn (tables example_world)))
   \<and> map t_id (tables (snd (updateTablesState (storage_fulfils None) (rendered example_world)
            example_updateFn True example_world))) = [''t1'', ''t3'']
   \<and> map t_id (tables (snd (updateTablesState (storage_fulfils None) (rendered example_world)
            (\<lambda>ts. rev (example_updateFn ts)) True example_world))) = [''t1'', ''t3'']
   \<and> subseq [''t1'', ''t3''] (map t_id (tables example_world))"
proof -
  note T = updateTablesState_never_adds [where db = "storage_fulfils None"
      and c = "rendered example_world" and updateFn = example_updateFn and updateHistory = True
      and w = example_world and updateFn' = "\<lambda>ts. rev (example_updateFn ts)"]
  have same: "set (map tp_id (rev (example_updateFn (tables example_world)))) =
     set (map tp_id (example_updateFn (tables example_world)))"
    by simp
  have flt: "filter (\<lambda>i. Some i \<in> set (map tp_id (example_updateFn (tables example_world))))
      (map t_id (tables example_world)) = [''t1'', ''t3'']"
    by (simp add: example_defs no_table_attributes_def example_updateFn_def)
  from T same have a: "map t_id (tables (snd (updateTablesState (storage_fulfils None)
            (rendered example_world) example_updateFn True example_world))) = [''t1'', ''t3'']"
    and b: "map t_id (tables (snd (updateTablesState (storage_fulfils None)
            (rendered example_world) (\<lambda>ts. rev (example_updateFn ts)) True example_world))) =
          map t_id (tables (snd (updateTablesState (storage_fulfils None)
            (rendered example_world) example_updateFn True example_world)))"
    and c: "subseq (map t_id (tables (snd (updateTablesState (storage_fulfils None)
            (rendered example_world) example_updateFn True example_world))))
            (map t_id (tables example_world))"
    unfolding flt by blast+
  show ?thesis
    using same c unfolding b a by simp
qed

section \<open>Redo-branch invalidation\<close>

text \<open>
  C4. Every operation that records an Action leaves the redo branch empty: the Action is
  pushed on the undo branch and the whole redo branch is discarded. An operation records
  when \<open>updateHistory\<close> is set (the create operations always set it), its persistence
  calls fulfil, and its own condition holds: the prior entity was found, in the render
  \<open>c\<close> that created the callback, for an update or a removal, and the gateway held
  the owning table for a field or index operation. The conjuncts are, in order: diagram
  name; table add, create, remove, update and bulk reconciliation; field update, remove,
  add and create; index add, create, remove and update; relationship add, create, bulk
  add, remove, bulk remove and update.
\<close>

theorem recorded_mutation_clears_redo:
  "(updateHistory
        \<and> fst (updateDiagramName db c name updateHistory w) = Inr () \<longrightarrow>
      undoStack (snd (updateDiagramName db c name updateHistory w)) =
        Act_updateDiagramName name (diagramName c) # undoStack w
      \<and> redoStack (snd (updateDiagramName db c name updateHistory w)) = [])
   \<and> (updateHistory
        \<and> fst (addTable db c table updateHistory w) = Inr () \<longrightarrow>
      undoStack (snd (addTable db c table updateHistory w)) =
        Act_addTable table (t_id table) # undoStack w
      \<and> redoStack (snd (addTable db c table updateHistory w)) = [])
   \<and> (fst (createTable db c newId newFieldId fieldNow color now w) = Inr table \<longrightarrow>
      undoStack (snd (createTable db c newId newFieldId fieldNow color now w)) =
        Act_addTable table (t_id table) # undoStack w
      \<and> redoStack (snd (createTable db c newId newFieldId fieldNow color now w)) = [])
   \<and> (updateHistory
        \<and> fst (removeTable db c tableId updateHistory w) = Inr ()
        \<and> getTable c tableId = Some prevTable \<longrightarrow>
      undoStack (snd (removeTable db c tableId updateHistory w)) =
        Act_removeTable tableId prevTable # undoStack w
      \<and> redoStack (snd (removeTable db c tableId updateHistory w)) = [])
   \<and> (updateHistory
        \<and> fst (updateTable db c tableId attrs updateHistory w) = Inr ()
        \<and> getTable c tableId = Some prevTable \<longrightarrow>
      undoStack (snd (updateTable db c tableId attrs updateHistory w)) =
        Act_updateTable tableId attrs tableId prevTable # undoStack w
      \<and> redoStack (snd (updateTable db c tableId attrs updateHistory w)) = [])
   \<and> (updateHistory
        \<and> fst (updateTablesState db c updateFn updateHistory w) = Inr () \<longrightarrow>
      undoStack (snd (updateTablesState db c updateFn updateHistory w)) =
        Act_updateTablesState (updateTables updateFn (tables c)) (tables c) # undoStack w
      \<and> redoStack (snd (updateTablesState db c updateFn updateHistory w)) = [])
   \<and> (updateHistory
        \<and> fst (updateField db c tableId fieldId fieldAttrs updateHistory w) = Inr ()
        \<and> getTable_reply db (dbCalls w) (diagramId c) tableId = Inr (Some stored)
        \<and> getField c tableId fieldId = Some prevField \<longrightarrow>
      undoStack (snd (updateField db c tableId fieldId fieldAttrs updateHistory w)) =
        Act_updateField tableId fieldId (merge_field prevField fieldAttrs) tableId fieldId
          prevField # undoStack w
      \<and> redoStack (snd (updateField db c tableId fieldId fieldAttrs updateHistory w)) = [])
   \<and> (updateHistory
        \<and> fst (removeField db c tableId fieldId updateHistory w) = Inr ()
        \<and> getTable_reply db (dbCalls w) (diagramId c) tableId = Inr (Some stored)
        \<and> getField c tableId fieldId = Some prevField \<longrightarrow>
      undoStack (snd (removeField db c tableId fieldId updateHistory w)) =
        Act_removeField tableId fieldId tableId prevField # undoStack w
      \<and> redoStack (snd (removeField db c tableId fieldId updateHistory w)) = [])
   \<and> (updateHistory
        \<and> fst (addField db c tableId field updateHistory w) = Inr ()
        \<and> getTable_reply db (dbCalls w) (diagramId c) tableId = Inr (Some stored) \<longrightarrow>
      undoStack (snd (addField db c tableId field updateHistory w)) =
        Act_addField tableId field tableId (f_id field) # undoStack w
      \<and> redoStack (snd (addField db c tableId field updateHistory w)) = [])
   \<and> (fst (createField db c newId now tableId w) = Inr field
        \<and> getTable_reply db (dbCalls w) (diagramId c) tableId = Inr (Some stored) \<longrightarrow>
      undoStack (snd (createField db c newId now tableId w)) =
        Act_addField tableId field tableId (f_id field) # undoStack w
      \<and> redoStack (snd (createField db c newId now tableId w)) = [])
   \<and> (updateHistory
        \<and> fst (addIndex db c tableId index updateHistory w) = Inr ()
        \<and> getTable_reply db (dbCalls w) (diagramId c) tableId = Inr (Some stored) \<longrightarrow>
      undoStack (snd (addIndex db c tableId index updateHistory w)) =
        Act_addIndex tableId index tableId (i_id index) # undoStack w
      \<and> redoStack (snd (addIndex db c tableId index updateHistory w)) = [])
   \<and> (fst (createIndex db c newId now tableId w) = Inr index
        \<and> getTable_reply db (dbCalls w) (diagramId c) tableId = Inr (Some stored) \<longrightarrow>
      undoStack (snd (createIndex db c newId now tableId w)) =
        Act_addIndex tableId index tableId (i_id index) # undoStack w
      \<and> redoStack (snd (createIndex db c newId now tableId w)) = [])
   \<and> (updateHistory
        \<and> fst (removeIndex db c tableId indexId updateHistory w) = Inr ()
        \<and> getTable_reply db (dbCalls w) (diagramId c) tableId = Inr (Some stored)
        \<and> getIndex c tableId indexId = Some prevIndex \<longrightarrow>
      undoStack (snd (removeIndex db c tableId indexId updateHistory w)) =
        Act_removeIndex indexId tableId tableId prevIndex # undoStack w
      \<and> redoStack (snd (removeIndex db c tableId indexId updateHistory w)) = [])
   \<and> (updateHistory
        \<and> fst (updateIndex db c tableId indexId indexAttrs updateHistory w) = Inr ()
        \<and> getTable_reply db (dbCalls w) (diagramId c) tableId = Inr (Some stored)
        \<and> getIndex c tableId indexId = Some prevIndex \<longrightarrow>
      undoStack (snd (updateIndex db c tableId indexId indexAttrs updateHistory w)) =
        Act_updateIndex tableId indexId indexAttrs tableId indexId prevIndex # undoStack w
      \<and> redoStack (snd (updateIndex db c tableId indexId indexAttrs updateHistory w)) = [])
   \<and> (updateHistory
        \<and> fst (addRelationship db c relationship updateHistory w) = Inr () \<longrightarrow>
      undoStack (snd (addRelationship db c relationship updateHistory w)) =
        Act_addRelationship relationship (r_id relationship) # undoStack w
      \<and> redoStack (snd (addRelationship db c relationship updateHistory w)) = [])
   \<and> (fst (createRelationship db c newId now sourceTableId targetTableId sourceFieldId
             targetFieldId w) = Inr relationship \<longrightarrow>
      undoStack (snd (createRelationship db c newId now sourceTableId targetTableId sourceFieldId
             targetFieldId w)) =
        Act_addRelationship relationship (r_id relationship) # undoStack w
      \<and> redoStack (snd (createRelationship db c newId now sourceTableId targetTableId sourceFieldId
             targetFieldId w)) = [])
   \<and> (updateHistory
        \<and> fst (addRelationships db c rels updateHistory w) = Inr () \<longrightarrow>
      undoStack (snd (addRelationships db c rels updateHistory w)) =
        Act_addRelationships rels (map r_id rels) # undoStack w
      \<and> redoStack (snd (addRelationships db c rels updateHistory w)) = [])
   \<and> (updateHistory
        \<and> fst (removeRelationship db c relationshipId updateHistory w) = Inr ()
        \<and> getRelationship c relationshipId = Some prevRelationship \<longrightarrow>
      undoStack (snd (removeRelationship db c relationshipId updateHistory w)) =
        Act_removeRelationship relationshipId prevRelationship # undoStack w
      \<and> redoStack (snd (removeRelationship db c relationshipId updateHistory w)) = [])
   \<and> (updateHistory
        \<and> fst (removeRelationships db c ids updateHistory w) = Inr () \<longrightarrow>
      undoStack (snd (removeRelationships db c ids updateHistory w)) =
        Act_removeRelationships ids
          (filter (\<lambda>r. r_id r \<notin> set ids) (relationships c)) # undoStack w
      \<and> redoStack (snd (removeRelationships db c ids updateHistory w)) = [])
   \<and> (updateHistory
        \<and> fst (updateRelationship db c relationshipId relAttrs updateHistory w) = Inr ()
        \<and> getRelationship c relationshipId = Some prevRelationship \<longrightarrow>
      undoStack (snd (updateRelationship db c relationshipId relAttrs updateHistory w)) =
        Act_updateRelationship relationshipId relAttrs relationshipId prevRelationship # undoStack w
      \<and> redoStack (snd (updateRelationship db c relationshipId relAttrs updateHistory w)) = [])"
  by (intro conjI; rule impI; (elim conjE)?;
      (rule updateDiagramName_records
       | rule addTable_records
       | rule createTable_records
       | rule removeTable_records
       | rule updateTable_records
       | rule updateTablesState_records
       | rule updateField_records
       | rule removeField_records
       | rule addField_records
       | rule createField_records
       | rule addIndex_records
       | rule createIndex_records
       | rule removeIndex_records
       | rule updateIndex_records
       | rule addRelationship_records
       | rule createRelationship_records
       | rule addRelationships_records
       | rule removeRelationship_records
       | rule removeRelationships_records
       | rule updateRelationship_records);
      assumption)

theorem recorded_mutation_clears_redo_witness:
  "redoStack example_world = [Act_updateDiagramName ''shop'' ''draft'']
   \<and> undoStack (snd (updateDiagramName (storage_fulfils (Some table_users)) (rendered
       example_world) ''store'' True example_world)) = [Act_updateDiagramName ''store'' ''shop'']
   \<and> redoStack (snd (updateDiagramName (storage_fulfils (Some table_users)) (rendered
       example_world) ''store'' True example_world)) = []
   \<and> undoStack (snd (addTable (storage_fulfils (Some table_users)) (rendered example_world)
       table_created True example_world)) = [Act_addTable table_created ''n1'']
   \<and> redoStack (snd (addTable (storage_fulfils (Some table_users)) (rendered example_world)
       table_created True example_world)) = []
   \<and> undoStack (snd (createTable (storage_fulfils (Some table_users)) (rendered example_world)
       ''n1'' ''n2'' 7 ''grey'' 8 example_world)) = [Act_addTable table_created ''n1'']
   \<and> redoStack (snd (createTable (storage_fulfils (Some table_users)) (rendered example_world)
       ''n1'' ''n2'' 7 ''grey'' 8 example_world)) = []
   \<and> undoStack (snd (removeTable (storage_fulfils (Some table_users)) (rendered example_world)
       ''t1'' True example_world)) = [Act_removeTable ''t1'' table_users]
   \<and> redoStack (snd (removeTable (storage_fulfils (Some table_users)) (rendered example_world)
       ''t1'' True example_world)) = []
   \<and> undoStack (snd (updateTable (storage_fulfils (Some table_users)) (rendered example_world)
       ''t1'' (no_table_attributes\<lparr>tp_name := Some ''customers''\<rparr>) True
       example_world)) = [Act_updateTable ''t1'' (no_table_attributes\<lparr>tp_name := Some
       ''customers''\<rparr>) ''t1'' table_users]
   \<and> redoStack (snd (updateTable (storage_fulfils (Some table_users)) (rendered example_world)
       ''t1'' (no_table_attributes\<lparr>tp_name := Some ''customers''\<rparr>) True
       example_world)) = []
   \<and> undoStack (snd (updateTablesState (storage_fulfils (Some table_users)) (rendered
       example_world) example_updateFn True example_world)) = [Act_updateTablesState
       [table_users\<lparr>t_name := ''customers''\<rparr>, table_tags] [table_users, table_posts,
       table_tags]]
   \<and> redoStack (snd (updateTablesState (storage_fulfils (Some table_users)) (rendered
       example_world) example_updateFn True example_world)) = []
   \<and> undoStack (snd (updateField (storage_fulfils (Some table_users)) (rendered example_world)
       ''t1'' ''f2'' (no_field_attributes\<lparr>fp_name := Some ''mail''\<rparr>) True
       example_world)) = [Act_updateField ''t1'' ''f2'' (field_email\<lparr>f_name :=
       ''mail''\<rparr>) ''t1'' ''f2'' field_email]
   \<and> redoStack (snd (updateField (storage_fulfils (Some table_users)) (rendered example_world)
       ''t1'' ''f2'' (no_field_attributes\<lparr>fp_name := Some ''mail''\<rparr>) True
       example_world)) = []
   \<and> undoStack (snd (removeField (storage_fulfils (Some table_users)) (rendered example_world)
       ''t1'' ''f2'' True example_world)) = [Act_removeField ''t1'' ''f2'' ''t1'' field_email]
   \<and> redoStack (snd (removeField (storage_fulfils (Some table_users)) (rendered example_world)
       ''t1'' ''f2'' True example_world)) = []
   \<and> undoStack (snd (addField (storage_fulfils (Some table_users)) (rendered example_world) ''t1''
       field_created True example_world)) = [Act_addField ''t1'' field_created ''t1'' ''n1'']
   \<and> redoStack (snd (addField (storage_fulfils (Some table_users)) (rendered example_world) ''t1''
       field_created True example_world)) = []
   \<and> undoStack (snd (createField (storage_fulfils (Some table_users)) (rendered example_world)
       ''n1'' 8 ''t1'' example_world)) = [Act_addField ''t1'' field_created ''t1'' ''n1'']
   \<and> redoStack (snd (createField (storage_fulfils (Some table_users)) (rendered example_world)
       ''n1'' 8 ''t1'' example_world)) = []
   \<and> undoStack (snd (addIndex (storage_fulfils (Some table_users)) (rendered example_world) ''t1''
       index_created True example_world)) = [Act_addIndex ''t1'' index_created ''t1'' ''n1'']
   \<and> redoStack (snd (addIndex (storage_fulfils (Some table_users)) (rendered example_world) ''t1''
       index_created True example_world)) = []
   \<and> undoStack (snd (createIndex (storage_fulfils (Some table_users)) (rendered example_world)
       ''n1'' 8 ''t1'' example_world)) = [Act_addIndex ''t1'' index_created ''t1'' ''n1'']
   \<and> redoStack (snd (createIndex (storage_fulfils (Some table_users)) (rendered example_world)
       ''n1'' 8 ''t1'' example_world)) = []
   \<and> undoStack (snd (removeIndex (storage_fulfils (Some table_users)) (rendered example_world)
       ''t1'' ''i1'' True example_world)) = [Act_removeIndex ''i1'' ''t1'' ''t1'' index_email]
   \<and> redoStack (snd (removeIndex (storage_fulfils (Some table_users)) (rendered example_world)
       ''t1'' ''i1'' True example_world)) = []
   \<and> undoStack (snd (updateIndex (storage_fulfils (Some table_users)) (rendered example_world)
       ''t1'' ''i1'' (no_index_attributes\<lparr>ip_unique := Some False\<rparr>) True
       example_world)) = [Act_updateIndex ''t1'' ''i1'' (no_index_attributes\<lparr>ip_unique :=
       Some False\<rparr>) ''t1'' ''i1'' index_email]
   \<and> redoStack (snd (updateIndex (storage_fulfils (Some table_users)) (rendered example_world)
       ''t1'' ''i1'' (no_index_attributes\<lparr>ip_unique := Some False\<rparr>) True
       example_world)) = []
   \<and> undoStack (snd (addRelationship (storage_fulfils (Some table_users)) (rendered example_world)
       rel_created True example_world)) = [Act_addRelationship rel_created ''n1'']
   \<and> redoStack (snd (addRelationship (storage_fulfils (Some table_users)) (rendered example_world)
       rel_created True example_world)) = []
   \<and> undoStack (snd (createRelationship (storage_fulfils (Some table_users)) (rendered
       example_world) ''n1'' 8 ''t1'' ''t2'' ''f1'' ''f9'' example_world)) = [Act_addRelationship
       rel_created ''n1'']
   \<and> redoStack (snd (createRelationship (storage_fulfils (Some table_users)) (rendered
       example_world) ''n1'' 8 ''t1'' ''t2'' ''f1'' ''f9'' example_world)) = []
   \<and> undoStack (snd (addRelationships (storage_fulfils (Some table_users)) (rendered
       example_world) [rel_created] True example_world)) = [Act_addRelationships [rel_created]
       [''n1'']]
   \<and> redoStack (snd (addRelationships (storage_fulfils (Some table_users)) (rendered
       example_world) [rel_created] True example_world)) = []
   \<and> undoStack (snd (removeRelationship (storage_fulfils (Some table_users)) (rendered
       example_world) ''r1'' True example_world)) = [Act_removeRelationship ''r1''
       rel_posts_users]
   \<and> redoStack (snd (removeRelationship (storage_fulfils (Some table_users)) (rendered
       example_world) ''r1'' True example_world)) = []
   \<and> undoStack (snd (removeRelationships (storage_fulfils (Some table_users)) (rendered
       example_world) [''r1''] True example_world)) = [Act_removeRelationships [''r1'']
       [rel_tags_posts]]
   \<and> redoStack (snd (removeRelationships (storage_fulfils (Some table_users)) (rendered
       example_world) [''r1''] True example_world)) = []
   \<and> undoStack (snd (updateRelationship (storage_fulfils (Some table_users)) (rendered
       example_world) ''r1'' (no_relationship_attributes\<lparr>rp_name := Some
       ''author''\<rparr>) True example_world)) = [Act_updateRelationship ''r1''
       (no_relationship_attributes\<lparr>rp_name := Some ''author''\<rparr>) ''r1''
       rel_posts_users]
   \<and> redoStack (snd (updateRelationship (storage_fulfils (Some table_users)) (rendered
       example_world) ''r1'' (no_relationship_attributes\<lparr>rp_name := Some
       ''author''\<rparr>) True example_world)) = []"
proof -
  note T = recorded_mutation_clears_redo [where updateHistory = "True" and db = "storage_fulfils
    (Some table_users)" and c = "rendered example_world" and w = "example_world" and name =
    "''store''" and table = "table_created" and newId = "''n1''" and newFieldId = "''n2''" and
    fieldNow = "7" and color = "''grey''" and now = "8" and tableId = "''t1''" and prevTable =
    "table_users" and attrs = "no_table_attributes\<lparr>tp_name := Some ''customers''\<rparr>"
    and updateFn = "example_updateFn" and fieldId = "''f2''" and fieldAttrs =
    "no_field_attributes\<lparr>fp_name := Some ''mail''\<rparr>" and stored = "table_users" and
    prevField = "field_email" and field = "field_created" and index = "index_created" and indexId
    = "''i1''" and prevIndex = "index_email" and indexAttrs =
    "no_index_attributes\<lparr>ip_unique := Some False\<rparr>" and relationship = "rel_created"
    and sourceTableId = "''t1''" and targetTableId = "''t2''" and sourceFieldId = "''f1''" and
    targetFieldId = "''f9''" and rels = "[rel_created]" and relationshipId = "''r1''" and
    prevRelationship = "rel_posts_users" and ids = "[''r1'']" and relAttrs =
    "no_relationship_attributes\<lparr>rp_name := Some ''author''\<rparr>"]
  note examples = example_defs no_table_attributes_def example_updateFn_def
      no_field_attributes_def no_index_attributes_def no_relationship_attributes_def
      table_created_def field_created_def index_created_def rel_created_def
  have redo: "redoStack example_world = [Act_updateDiagramName ''shop'' ''draft'']"
    by (simp add: example_world_def)
  have held: "getTable_reply (storage_fulfils (Some table_users)) (dbCalls example_world)
      (diagramId (rendered example_world)) ''t1'' = Inr (Some table_users)"
    by (simp add: storage_fulfils_def)
  have users: "getTable (rendered example_world) ''t1'' = Some table_users"
    by (simp add: getTable_def example_defs)
  have email: "getField (rendered example_world) ''t1'' ''f2'' = Some field_email"
    by (simp add: getField_def getTable_def example_defs)
  have idx: "getIndex (rendered example_world) ''t1'' ''i1'' = Some index_email"
    by (simp add: getIndex_def getTable_def example_defs)
  have rel: "getRelationship (rendered example_world) ''r1'' = Some rel_posts_users"
    by (simp add: getRelationship_def example_defs)
  have ok_updateDiagramName: "fst (updateDiagramName (storage_fulfils (Some table_users))
    (rendered example_world) ''store'' True example_world) = Inr ()"
    by (simp add: updateDiagramName_def  gateway_defs history_defs Let_def examples
          split: option.splits)
  note c_updateDiagramName = T [THEN conjunct1, THEN mp, OF conjI [OF TrueI ok_updateDiagramName]]
  have u_updateDiagramName: "undoStack (snd (updateDiagramName (storage_fulfils (Some
    table_users)) (rendered example_world) ''store'' True example_world)) = [Act_updateDiagramName
    ''store'' ''shop'']"
    unfolding c_updateDiagramName [THEN conjunct1]
    by (simp add: examples updateTables_def merge_table_def merge_field_def spread_def)
  have r_updateDiagramName: "redoStack (snd (updateDiagramName (storage_fulfils (Some
    table_users)) (rendered example_world) ''store'' True example_world)) = []"
    by (rule c_updateDiagramName [THEN conjunct2])
  have ok_addTable: "fst (addTable (storage_fulfils (Some table_users)) (rendered example_world)
    table_created True example_world) = Inr ()"
    by (simp add: addTable_def  gateway_defs history_defs Let_def examples
          split: option.splits)
  note c_addTable = T [THEN conjunct2, THEN conjunct1, THEN mp, OF conjI [OF TrueI ok_addTable]]
  have u_addTable: "undoStack (snd (addTable (storage_fulfils (Some table_users)) (rendered
    example_world) table_created True example_world)) = [Act_addTable table_created ''n1'']"
    unfolding c_addTable [THEN conjunct1]
    by (simp add: examples updateTables_def merge_table_def merge_field_def spread_def)
  have r_addTable: "redoStack (snd (addTable (storage_fulfils (Some table_users)) (rendered
    example_world) table_created True example_world)) = []"
    by (rule c_addTable [THEN conjunct2])
  have ok_createTable: "fst (createTable (storage_fulfils (Some table_users)) (rendered
    example_world) ''n1'' ''n2'' 7 ''grey'' 8 example_world) = Inr table_created"
    by (simp add: createTable_def addTable_def new_table_def string_of_nat.simps digit_char_def gateway_defs history_defs Let_def examples
          split: option.splits)
  note c_createTable = T [THEN conjunct2, THEN conjunct2, THEN conjunct1, THEN mp, OF
    ok_createTable]
  have u_createTable: "undoStack (snd (createTable (storage_fulfils (Some table_users)) (rendered
    example_world) ''n1'' ''n2'' 7 ''grey'' 8 example_world)) = [Act_addTable table_created
    ''n1'']"
    unfolding c_createTable [THEN conjunct1]
    by (simp add: examples updateTables_def merge_table_def merge_field_def spread_def)
  have r_createTable: "redoStack (snd (createTable (storage_fulfils (Some table_users)) (rendered
    example_world) ''n1'' ''n2'' 7 ''grey'' 8 example_world)) = []"
    by (rule c_createTable [THEN conjunct2])
  have ok_removeTable: "fst (removeTable (storage_fulfils (Some table_users)) (rendered
    example_world) ''t1'' True example_world) = Inr ()"
    by (simp add: removeTable_def  gateway_defs history_defs Let_def examples
          split: option.splits)
  note c_removeTable = T [THEN conjunct2, THEN conjunct2, THEN conjunct2, THEN conjunct1, THEN mp,
    OF conjI [OF TrueI conjI [OF ok_removeTable users]]]
  have u_removeTable: "undoStack (snd (removeTable (storage_fulfils (Some table_users)) (rendered
    example_world) ''t1'' True example_world)) = [Act_removeTable ''t1'' table_users]"
    unfolding c_removeTable [THEN conjunct1]
    by (simp add: examples updateTables_def merge_table_def merge_field_def spread_def)
  have r_removeTable: "redoStack (snd (removeTable (storage_fulfils (Some table_users)) (rendered
    example_world) ''t1'' True example_world)) = []"
    by (rule c_removeTable [THEN conjunct2])
  have ok_updateTable: "fst (updateTable (storage_fulfils (Some table_users)) (rendered
    example_world) ''t1'' (no_table_attributes\<lparr>tp_name := Some ''customers''\<rparr>) True
    example_world) = Inr ()"
    by (simp add: updateTable_def  gateway_defs history_defs Let_def examples
          split: option.splits)
  note c_updateTable = T [THEN conjunct2, THEN conjunct2, THEN conjunct2, THEN conjunct2, THEN
    conjunct1, THEN mp, OF conjI [OF TrueI conjI [OF ok_updateTable users]]]
  have u_updateTable: "undoStack (snd (updateTable (storage_fulfils (Some table_users)) (rendered
    example_world) ''t1'' (no_table_attributes\<lparr>tp_name := Some ''customers''\<rparr>) True
    example_world)) = [Act_updateTable ''t1'' (no_table_attributes\<lparr>tp_name := Some
    ''customers''\<rparr>) ''t1'' table_users]"
    unfolding c_updateTable [THEN conjunct1]
    by (simp add: examples updateTables_def merge_table_def merge_field_def spread_def)
  have r_updateTable: "redoStack (snd (updateTable (storage_fulfils (Some table_users)) (rendered
    example_world) ''t1'' (no_table_attributes\<lparr>tp_name := Some ''customers''\<rparr>) True
    example_world)) = []"
    by (rule c_updateTable [THEN conjunct2])
  have ok_updateTablesState: "fst (updateTablesState (storage_fulfils (Some table_users))
    (rendered example_world) example_updateFn True example_world) = Inr ()"
    by (simp add: updateTablesState_def updateTables_def merge_table_def spread_def table_attributes_def db_write_all_def gateway_defs history_defs Let_def examples
          split: option.splits)
  note c_updateTablesState = T [THEN conjunct2, THEN conjunct2, THEN conjunct2, THEN conjunct2,
    THEN conjunct2, THEN conjunct1, THEN mp, OF conjI [OF TrueI ok_updateTablesState]]
  have u_updateTablesState: "undoStack (snd (updateTablesState (storage_fulfils (Some
    table_users)) (rendered example_world) example_updateFn True example_world)) =
    [Act_updateTablesState [table_users\<lparr>t_name := ''customers''\<rparr>, table_tags]
    [table_users, table_posts, table_tags]]"
    unfolding c_updateTablesState [THEN conjunct1]
    by (simp add: examples updateTables_def merge_table_def merge_field_def spread_def)
  have r_updateTablesState: "redoStack (snd (updateTablesState (storage_fulfils (Some
    table_users)) (rendered example_world) example_updateFn True example_world)) = []"
    by (rule c_updateTablesState [THEN conjunct2])
  have ok_updateField: "fst (updateField (storage_fulfils (Some table_users)) (rendered
    example_world) ''t1'' ''f2'' (no_field_attributes\<lparr>fp_name := Some ''mail''\<rparr>)
    True example_world) = Inr ()"
    by (simp add: updateField_def  gateway_defs history_defs Let_def examples
          split: option.splits)
  note c_updateField = T [THEN conjunct2, THEN conjunct2, THEN conjunct2, THEN conjunct2, THEN
    conjunct2, THEN conjunct2, THEN conjunct1, THEN mp, OF conjI [OF TrueI conjI [OF
    ok_updateField conjI [OF held email]]]]
  have u_updateField: "undoStack (snd (updateField (storage_fulfils (Some table_users)) (rendered
    example_world) ''t1'' ''f2'' (no_field_attributes\<lparr>fp_name := Some ''mail''\<rparr>)
    True example_world)) = [Act_updateField ''t1'' ''f2'' (field_email\<lparr>f_name :=
    ''mail''\<rparr>) ''t1'' ''f2'' field_email]"
    unfolding c_updateField [THEN conjunct1]
    by (simp add: examples updateTables_def merge_table_def merge_field_def spread_def)
  have r_updateField: "redoStack (snd (updateField (storage_fulfils (Some table_users)) (rendered
    example_world) ''t1'' ''f2'' (no_field_attributes\<lparr>fp_name := Some ''mail''\<rparr>)
    True example_world)) = []"
    by (rule c_updateField [THEN conjunct2])
  have ok_removeField: "fst (removeField (storage_fulfils (Some table_users)) (rendered
    example_world) ''t1'' ''f2'' True example_world) = Inr ()"
    by (simp add: removeField_def  gateway_defs history_defs Let_def examples
          split: option.splits)
  note c_removeField = T [THEN conjunct2, THEN conjunct2, THEN conjunct2, THEN conjunct2, THEN
    conjunct2, THEN conjunct2, THEN conjunct2, THEN conjunct1, THEN mp, OF conjI [OF TrueI conjI
    [OF ok_removeField conjI [OF held email]]]]
  have u_removeField: "undoStack (snd (removeField (storage_fulfils (Some table_users)) (rendered
    example_world) ''t1'' ''f2'' True example_world)) = [Act_removeField ''t1'' ''f2'' ''t1''
    field_email]"
    unfolding c_removeField [THEN conjunct1]
    by (simp add: examples updateTables_def merge_table_def merge_field_def spread_def)
  have r_removeField: "redoStack (snd (removeField (storage_fulfils (Some table_users)) (rendered
    example_world) ''t1'' ''f2'' True example_world)) = []"
    by (rule c_removeField [THEN conjunct2])
  have ok_addField: "fst (addField (storage_fulfils (Some table_users)) (rendered example_world)
    ''t1'' field_created True example_world) = Inr ()"
    by (simp add: addField_def  gateway_defs history_defs Let_def examples
          split: option.splits)
  note c_addField = T [THEN conjunct2, THEN conjunct2, THEN conjunct2, THEN conjunct2, THEN
    conjunct2, THEN conjunct2, THEN conjunct2, THEN conjunct2, THEN conjunct1, THEN mp, OF conjI
    [OF TrueI conjI [OF ok_addField held]]]
  have u_addField: "undoStack (snd (addField (storage_fulfils (Some table_users)) (rendered
    example_world) ''t1'' field_created True example_world)) = [Act_addField ''t1'' field_created
    ''t1'' ''n1'']"
    unfolding c_addField [THEN conjunct1]
    by (simp add: examples updateTables_def merge_table_def merge_field_def spread_def)
  have r_addField: "redoStack (snd (addField (storage_fulfils (Some table_users)) (rendered
    example_world) ''t1'' field_created True example_world)) = []"
    by (rule c_addField [THEN conjunct2])
  have ok_createField: "fst (createField (storage_fulfils (Some table_users)) (rendered
    example_world) ''n1'' 8 ''t1'' example_world) = Inr field_created"
    by (simp add: createField_def addField_def getTable_def string_of_nat.simps digit_char_def gateway_defs history_defs Let_def examples
          split: option.splits)
  note c_createField = T [THEN conjunct2, THEN conjunct2, THEN conjunct2, THEN conjunct2, THEN
    conjunct2, THEN conjunct2, THEN conjunct2, THEN conjunct2, THEN conjunct2, THEN conjunct1,
    THEN mp, OF conjI [OF ok_createField held]]
  have u_createField: "undoStack (snd (createField (storage_fulfils (Some table_users)) (rendered
    example_world) ''n1'' 8 ''t1'' example_world)) = [Act_addField ''t1'' field_created ''t1''
    ''n1'']"
    unfolding c_createField [THEN conjunct1]
    by (simp add: examples updateTables_def merge_table_def merge_field_def spread_def)
  have r_createField: "redoStack (snd (createField (storage_fulfils (Some table_users)) (rendered
    example_world) ''n1'' 8 ''t1'' example_world)) = []"
    by (rule c_createField [THEN conjunct2])
  have ok_addIndex: "fst (addIndex (storage_fulfils (Some table_users)) (rendered example_world)
    ''t1'' index_created True example_world) = Inr ()"
    by (simp add: addIndex_def  gateway_defs history_defs Let_def examples
          split: option.splits)
  note c_addIndex = T [THEN conjunct2, THEN conjunct2, THEN conjunct2, THEN conjunct2, THEN
    conjunct2, THEN conjunct2, THEN conjunct2, THEN conjunct2, THEN conjunct2, THEN conjunct2,
    THEN conjunct1, THEN mp, OF conjI [OF TrueI conjI [OF ok_addIndex held]]]
  have u_addIndex: "undoStack (snd (addIndex (storage_fulfils (Some table_users)) (rendered
    example_world) ''t1'' index_created True example_world)) = [Act_addIndex ''t1'' index_created
    ''t1'' ''n1'']"
    unfolding c_addIndex [THEN conjunct1]
    by (simp add: examples updateTables_def merge_table_def merge_field_def spread_def)
  have r_addIndex: "redoStack (snd (addIndex (storage_fulfils (Some table_users)) (rendered
    example_world) ''t1'' index_created True example_world)) = []"
    by (rule c_addIndex [THEN conjunct2])
  have ok_createIndex: "fst (createIndex (storage_fulfils (Some table_users)) (rendered
    example_world) ''n1'' 8 ''t1'' example_world) = Inr index_created"
    by (simp add: createIndex_def addIndex_def getTable_def string_of_nat.simps digit_char_def gateway_defs history_defs Let_def examples
          split: option.splits)
  note c_createIndex = T [THEN conjunct2, THEN conjunct2, THEN conjunct2, THEN conjunct2, THEN
    conjunct2, THEN conjunct2, THEN conjunct2, THEN conjunct2, THEN conjunct2, THEN conjunct2,
    THEN conjunct2, THEN conjunct1, THEN mp, OF conjI [OF ok_createIndex held]]
  have u_createIndex: "undoStack (snd (createIndex (storage_fulfils (Some table_users)) (rendered
    example_world) ''n1'' 8 ''t1'' example_world)) = [Act_addIndex ''t1'' index_created ''t1''
    ''n1'']"
    unfolding c_createIndex [THEN conjunct1]
    by (simp add: examples updateTables_def merge_table_def merge_field_def spread_def)
  have r_createIndex: "redoStack (snd (createIndex (storage_fulfils (Some table_users)) (rendered
    example_world) ''n1'' 8 ''t1'' example_world)) = []"
    by (rule c_createIndex [THEN conjunct2])
  have ok_removeIndex: "fst (removeIndex (storage_fulfils (Some table_users)) (rendered
    example_world) ''t1'' ''i1'' True example_world) = Inr ()"
    by (simp add: removeIndex_def  gateway_defs history_defs Let_def examples
          split: option.splits)
  note c_removeIndex = T [THEN conjunct2, THEN conjunct2, THEN conjunct2, THEN conjunct2, THEN
    conjunct2, THEN conjunct2, THEN conjunct2, THEN conjunct2, THEN conjunct2, THEN conjunct2,
    THEN conjunct2, THEN conjunct2, THEN conjunct1, THEN mp, OF conjI [OF TrueI conjI [OF
    ok_removeIndex conjI [OF held idx]]]]
  have u_removeIndex: "undoStack (snd (removeIndex (storage_fulfils (Some table_users)) (rendered
    example_world) ''t1'' ''i1'' True example_world)) = [Act_removeIndex ''i1'' ''t1'' ''t1''
    index_email]"
    unfolding c_removeIndex [THEN conjunct1]
    by (simp add: examples updateTables_def merge_table_def merge_field_def spread_def)
  have r_removeIndex: "redoStack (snd (removeIndex (storage_fulfils (Some table_users)) (rendered
    example_world) ''t1'' ''i1'' True example_world)) = []"
    by (rule c_removeIndex [THEN conjunct2])
  have ok_updateIndex: "fst (updateIndex (storage_fulfils (Some table_users)) (rendered
    example_world) ''t1'' ''i1'' (no_index_attributes\<lparr>ip_unique := Some False\<rparr>) True
    example_world) = Inr ()"
    by (simp add: updateIndex_def  gateway_defs history_defs Let_def examples
          split: option.splits)
  note c_updateIndex = T [THEN conjunct2, THEN conjunct2, THEN conjunct2, THEN conjunct2, THEN
    conjunct2, THEN conjunct2, THEN conjunct2, THEN conjunct2, THEN conjunct2, THEN conjunct2,
    THEN conjunct2, THEN conjunct2, THEN conjunct2, THEN conjunct1, THEN mp, OF conjI [OF TrueI
    conjI [OF ok_updateIndex conjI [OF held idx]]]]
  have u_updateIndex: "undoStack (snd (updateIndex (storage_fulfils (Some table_users)) (rendered
    example_world) ''t1'' ''i1'' (no_index_attributes\<lparr>ip_unique := Some False\<rparr>) True
    example_world)) = [Act_updateIndex ''t1'' ''i1'' (no_index_attributes\<lparr>ip_unique := Some
    False\<rparr>) ''t1'' ''i1'' index_email]"
    unfolding c_updateIndex [THEN conjunct1]
    by (simp add: examples updateTables_def merge_table_def merge_field_def spread_def)
  have r_updateIndex: "redoStack (snd (updateIndex (storage_fulfils (Some table_users)) (rendered
    example_world) ''t1'' ''i1'' (no_index_attributes\<lparr>ip_unique := Some False\<rparr>) True
    example_world)) = []"
    by (rule c_updateIndex [THEN conjunct2])
  have ok_addRelationship: "fst (addRelationship (storage_fulfils (Some table_users)) (rendered
    example_world) rel_created True example_world) = Inr ()"
    by (simp add: addRelationship_def  gateway_defs history_defs Let_def examples
          split: option.splits)
  note c_addRelationship = T [THEN conjunct2, THEN conjunct2, THEN conjunct2, THEN conjunct2, THEN
    conjunct2, THEN conjunct2, THEN conjunct2, THEN conjunct2, THEN conjunct2, THEN conjunct2,
    THEN conjunct2, THEN conjunct2, THEN conjunct2, THEN conjunct2, THEN conjunct1, THEN mp, OF
    conjI [OF TrueI ok_addRelationship]]
  have u_addRelationship: "undoStack (snd (addRelationship (storage_fulfils (Some table_users))
    (rendered example_world) rel_created True example_world)) = [Act_addRelationship rel_created
    ''n1'']"
    unfolding c_addRelationship [THEN conjunct1]
    by (simp add: examples updateTables_def merge_table_def merge_field_def spread_def)
  have r_addRelationship: "redoStack (snd (addRelationship (storage_fulfils (Some table_users))
    (rendered example_world) rel_created True example_world)) = []"
    by (rule c_addRelationship [THEN conjunct2])
  have ok_createRelationship: "fst (createRelationship (storage_fulfils (Some table_users))
    (rendered example_world) ''n1'' 8 ''t1'' ''t2'' ''f1'' ''f9'' example_world) = Inr
    rel_created"
    by (simp add: createRelationship_def addRelationship_def getTable_def gateway_defs history_defs Let_def examples
          split: option.splits)
  note c_createRelationship = T [THEN conjunct2, THEN conjunct2, THEN conjunct2, THEN conjunct2,
    THEN conjunct2, THEN conjunct2, THEN conjunct2, THEN conjunct2, THEN conjunct2, THEN
    conjunct2, THEN conjunct2, THEN conjunct2, THEN conjunct2, THEN conjunct2, THEN conjunct2,
    THEN conjunct1, THEN mp, OF ok_createRelationship]
  have u_createRelationship: "undoStack (snd (createRelationship (storage_fulfils (Some
    table_users)) (rendered example_world) ''n1'' 8 ''t1'' ''t2'' ''f1'' ''f9'' example_world)) =
    [Act_addRelationship rel_created ''n1'']"
    unfolding c_createRelationship [THEN conjunct1]
    by (simp add: examples updateTables_def merge_table_def merge_field_def spread_def)
  have r_createRelationship: "redoStack (snd (createRelationship (storage_fulfils (Some
    table_users)) (rendered example_world) ''n1'' 8 ''t1'' ''t2'' ''f1'' ''f9'' example_world)) =
    []"
    by (rule c_createRelationship [THEN conjunct2])
  have ok_addRelationships: "fst (addRelationships (storage_fulfils (Some table_users)) (rendered
    example_world) [rel_created] True example_world) = Inr ()"
    by (simp add: addRelationships_def db_write_all_def gateway_defs history_defs Let_def examples
          split: option.splits)
  note c_addRelationships = T [THEN conjunct2, THEN conjunct2, THEN conjunct2, THEN conjunct2,
    THEN conjunct2, THEN conjunct2, THEN conjunct2, THEN conjunct2, THEN conjunct2, THEN
    conjunct2, THEN conjunct2, THEN conjunct2, THEN conjunct2, THEN conjunct2, THEN conjunct2,
    THEN conjunct2, THEN conjunct1, THEN mp, OF conjI [OF TrueI ok_addRelationships]]
  have u_addRelationships: "undoStack (snd (addRelationships (storage_fulfils (Some table_users))
    (rendered example_world) [rel_created] True example_world)) = [Act_addRelationships
    [rel_created] [''n1'']]"
    unfolding c_addRelationships [THEN conjunct1]
    by (simp add: examples updateTables_def merge_table_def merge_field_def spread_def)
  have r_addRelationships: "redoStack (snd (addRelationships (storage_fulfils (Some table_users))
    (rendered example_world) [rel_created] True example_world)) = []"
    by (rule c_addRelationships [THEN conjunct2])
  have ok_removeRelationship: "fst (removeRelationship (storage_fulfils (Some table_users))
    (rendered example_world) ''r1'' True example_world) = Inr ()"
    by (simp add: removeRelationship_def  gateway_defs history_defs Let_def examples
          split: option.splits)
  note c_removeRelationship = T [THEN conjunct2, THEN conjunct2, THEN conjunct2, THEN conjunct2,
    THEN conjunct2, THEN conjunct2, THEN conjunct2, THEN conjunct2, THEN conjunct2, THEN
    conjunct2, THEN conjunct2, THEN conjunct2, THEN conjunct2, THEN conjunct2, THEN conjunct2,
    THEN conjunct2, THEN conjunct2, THEN conjunct1, THEN mp, OF conjI [OF TrueI conjI [OF
    ok_removeRelationship rel]]]
  have u_removeRelationship: "undoStack (snd (removeRelationship (storage_fulfils (Some
    table_users)) (rendered example_world) ''r1'' True example_world)) = [Act_removeRelationship
    ''r1'' rel_posts_users]"
    unfolding c_removeRelationship [THEN conjunct1]
    by (simp add: examples updateTables_def merge_table_def merge_field_def spread_def)
  have r_removeRelationship: "redoStack (snd (removeRelationship (storage_fulfils (Some
    table_users)) (rendered example_world) ''r1'' True example_world)) = []"
    by (rule c_removeRelationship [THEN conjunct2])
  have ok_removeRelationships: "fst (removeRelationships (storage_fulfils (Some table_users))
    (rendered example_world) [''r1''] True example_world) = Inr ()"
    by (simp add: removeRelationships_def db_write_all_def gateway_defs history_defs Let_def examples
          split: option.splits)
  note c_removeRelationships = T [THEN conjunct2, THEN conjunct2, THEN conjunct2, THEN conjunct2,
    THEN conjunct2, THEN conjunct2, THEN conjunct2, THEN conjunct2, THEN conjunct2, THEN
    conjunct2, THEN conjunct2, THEN conjunct2, THEN conjunct2, THEN conjunct2, THEN conjunct2,
    THEN conjunct2, THEN conjunct2, THEN conjunct2, THEN conjunct1, THEN mp, OF conjI [OF TrueI
    ok_removeRelationships]]
  have u_removeRelationships: "undoStack (snd (removeRelationships (storage_fulfils (Some
    table_users)) (rendered example_world) [''r1''] True example_world)) =
    [Act_removeRelationships [''r1''] [rel_tags_posts]]"
    unfolding c_removeRelationships [THEN conjunct1]
    by (simp add: examples updateTables_def merge_table_def merge_field_def spread_def)
  have r_removeRelationships: "redoStack (snd (removeRelationships (storage_fulfils (Some
    table_users)) (rendered example_world) [''r1''] True example_world)) = []"
    by (rule c_removeRelationships [THEN conjunct2])
  have ok_updateRelationship: "fst (updateRelationship (storage_fulfils (Some table_users))
    (rendered example_world) ''r1'' (no_relationship_attributes\<lparr>rp_name := Some
    ''author''\<rparr>) True example_world) = Inr ()"
    by (simp add: updateRelationship_def  gateway_defs history_defs Let_def examples
          split: option.splits)
  note c_updateRelationship = T [THEN conjunct2, THEN conjunct2, THEN conjunct2, THEN conjunct2,
    THEN conjunct2, THEN conjunct2, THEN conjunct2, THEN conjunct2, THEN conjunct2, THEN
    conjunct2, THEN conjunct2, THEN conjunct2, THEN conjunct2, THEN conjunct2, THEN conjunct2,
    THEN conjunct2, THEN conjunct2, THEN conjunct2, THEN conjunct2, THEN mp, OF conjI [OF TrueI
    conjI [OF ok_updateRelationship rel]]]
  have u_updateRelationship: "undoStack (snd (updateRelationship (storage_fulfils (Some
    table_users)) (rendered example_world) ''r1'' (no_relationship_attributes\<lparr>rp_name :=
    Some ''author''\<rparr>) True example_world)) = [Act_updateRelationship ''r1''
    (no_relationship_attributes\<lparr>rp_name := Some ''author''\<rparr>) ''r1''
    rel_posts_users]"
    unfolding c_updateRelationship [THEN conjunct1]
    by (simp add: examples updateTables_def merge_table_def merge_field_def spread_def)
  have r_updateRelationship: "redoStack (snd (updateRelationship (storage_fulfils (Some
    table_users)) (rendered example_world) ''r1'' (no_relationship_attributes\<lparr>rp_name :=
    Some ''author''\<rparr>) True example_world)) = []"
    by (rule c_updateRelationship [THEN conjunct2])
  show ?thesis
    by (intro conjI; (rule redo | rule u_updateDiagramName | rule r_updateDiagramName | rule
      u_addTable | rule r_addTable | rule u_createTable | rule r_createTable | rule u_removeTable
      | rule r_removeTable | rule u_updateTable | rule r_updateTable | rule u_updateTablesState |
      rule r_updateTablesState | rule u_updateField | rule r_updateField | rule u_removeField |
      rule r_removeField | rule u_addField | rule r_addField | rule u_createField | rule
      r_createField | rule u_addIndex | rule r_addIndex | rule u_createIndex | rule r_createIndex
      | rule u_removeIndex | rule r_removeIndex | rule u_updateIndex | rule r_updateIndex | rule
      u_addRelationship | rule r_addRelationship | rule u_createRelationship | rule
      r_createRelationship | rule u_addRelationships | rule r_addRelationships | rule
      u_removeRelationship | rule r_removeRelationship | rule u_removeRelationships | rule
      r_removeRelationships | rule u_updateRelationship | rule r_updateRelationship))
qed

section \<open>Lookups that find nothing\<close>

lemma getField_miss:
  assumes "getField c tableId fieldId = None" and "distinct (map t_id (tables c))"
    and "t \<in> set (tables c)" and "t_id t = tableId" and "f \<in> set (t_fields t)"
  shows "f_id f \<noteq> fieldId"
proof -
  have "getTable c tableId = Some t"
    using find_distinct [of t_id "tables c" t] assms(2,3,4) by (simp add: getTable_def)
  with assms(1) have "find (\<lambda>f. f_id f = fieldId) (t_fields t) = None"
    by (simp add: getField_def)
  with assms(5) show ?thesis by (auto simp: find_None_iff)
qed

lemma getIndex_miss:
  assumes "getIndex c tableId indexId = None" and "distinct (map t_id (tables c))"
    and "t \<in> set (tables c)" and "t_id t = tableId" and "i \<in> set (t_indexes t)"
  shows "i_id i \<noteq> indexId"
proof -
  have "getTable c tableId = Some t"
    using find_distinct [of t_id "tables c" t] assms(2,3,4) by (simp add: getTable_def)
  with assms(1) have "find (\<lambda>i. i_id i = indexId) (t_indexes t) = None"
    by (simp add: getIndex_def)
  with assms(5) show ?thesis by (auto simp: find_None_iff)
qed

lemma updateField_miss_noop:
  assumes "getField (rendered w) tableId fieldId = None" and "distinct (map t_id (tables w))"
  shows "tables (snd (updateField db c tableId fieldId fieldAttrs updateHistory w)) = tables w"
proof -
  have "map (\<lambda>f. if f_id f = fieldId then merge_field f fieldAttrs else f) (t_fields t) = t_fields t"
    if "t \<in> set (tables w)" "t_id t = tableId" for t
    using getField_miss [of "rendered w" tableId fieldId t] assms that by (intro map_idI) auto
  then show ?thesis
    unfolding updateField_tables by (intro map_idI) auto
qed

lemma updateField_miss_history:
  "getField c tableId fieldId = None \<Longrightarrow>
   undoStack (snd (updateField db c tableId fieldId fieldAttrs updateHistory w)) = undoStack w
   \<and> redoStack (snd (updateField db c tableId fieldId fieldAttrs updateHistory w)) = redoStack w"
  by (auto simp: updateField_def gateway_defs history_defs Let_def
           split: sum.splits option.splits)

lemma removeField_miss_noop:
  assumes "getField (rendered w) tableId fieldId = None" and "distinct (map t_id (tables w))"
  shows "tables (snd (removeField db c tableId fieldId updateHistory w)) = tables w"
proof -
  have "filter (\<lambda>f. f_id f \<noteq> fieldId) (t_fields t) = t_fields t"
    if "t \<in> set (tables w)" "t_id t = tableId" for t
    using getField_miss [of "rendered w" tableId fieldId t] assms that by (simp add: filter_id_conv)
  then show ?thesis
    unfolding removeField_tables by (intro map_idI) auto
qed

lemma removeField_miss_history:
  "getField c tableId fieldId = None \<Longrightarrow>
   undoStack (snd (removeField db c tableId fieldId updateHistory w)) = undoStack w
   \<and> redoStack (snd (removeField db c tableId fieldId updateHistory w)) = redoStack w"
  by (auto simp: removeField_def gateway_defs history_defs Let_def
           split: sum.splits option.splits)

lemma updateIndex_miss_noop:
  assumes "getIndex (rendered w) tableId indexId = None" and "distinct (map t_id (tables w))"
  shows "tables (snd (updateIndex db c tableId indexId indexAttrs updateHistory w)) = tables w"
proof -
  have "map (\<lambda>i. if i_id i = indexId then merge_index i indexAttrs else i) (t_indexes t) = t_indexes t"
    if "t \<in> set (tables w)" "t_id t = tableId" for t
    using getIndex_miss [of "rendered w" tableId indexId t] assms that by (intro map_idI) auto
  then show ?thesis
    unfolding updateIndex_tables by (intro map_idI) auto
qed

lemma updateIndex_miss_history:
  "getIndex c tableId indexId = None \<Longrightarrow>
   undoStack (snd (updateIndex db c tableId indexId indexAttrs updateHistory w)) = undoStack w
   \<and> redoStack (snd (updateIndex db c tableId indexId indexAttrs updateHistory w)) = redoStack w"
  by (auto simp: updateIndex_def gateway_defs history_defs Let_def
           split: sum.splits option.splits)

lemma removeIndex_miss_noop:
  assumes "getIndex (rendered w) tableId indexId = None" and "distinct (map t_id (tables w))"
  shows "tables (snd (removeIndex db c tableId indexId updateHistory w)) = tables w"
proof -
  have "filter (\<lambda>i. i_id i \<noteq> indexId) (t_indexes t) = t_indexes t"
    if "t \<in> set (tables w)" "t_id t = tableId" for t
    using getIndex_miss [of "rendered w" tableId indexId t] assms that by (simp add: filter_id_conv)
  then show ?thesis
    unfolding removeIndex_tables by (intro map_idI) auto
qed

lemma removeIndex_miss_history:
  "getIndex c tableId indexId = None \<Longrightarrow>
   undoStack (snd (removeIndex db c tableId indexId updateHistory w)) = undoStack w
   \<and> redoStack (snd (removeIndex db c tableId indexId updateHistory w)) = redoStack w"
  by (auto simp: removeIndex_def gateway_defs history_defs Let_def
           split: sum.splits option.splits)

section \<open>Field and index operations: what a failed lookup short-circuits\<close>

text \<open>
  A field or index operation makes up to two lookups. \<^verbatim>\<open>getField\<close> or \<^verbatim>\<open>getIndex\<close> reads the
  tables of the render that created the callback, before the mutation (the add operations
  make no such lookup); \<^verbatim>\<open>db.getTable\<close> asks the gateway for the owning table after the
  mutation.
\<close>

lemma updateField_not_stored:
  "getTable_reply db (dbCalls w) (diagramId c) tableId = Inr None \<Longrightarrow>
   fst (updateField db c tableId fieldId fieldAttrs updateHistory w) = Inr ()
      \<and> snd (updateField db c tableId fieldId fieldAttrs updateHistory w) =
          w\<lparr>tables :=
              map (\<lambda>table. if t_id table = tableId
                 then table\<lparr>t_fields := map (\<lambda>f. if f_id f = fieldId then merge_field f fieldAttrs else f) (t_fields table)\<rparr>
                 else table)
                (tables w),
            dbCalls := dbCalls w @ [GetTable (diagramId c) tableId]\<rparr>"
  by (simp add: updateField_def gateway_defs Let_def)

lemma updateField_calls:
  "getTable_reply db (dbCalls w) (diagramId c) tableId = Inr (Some stored) \<Longrightarrow>
   dbCalls (snd (updateField db c tableId fieldId fieldAttrs updateHistory w)) =
        dbCalls w @
        [GetTable (diagramId c) tableId,
         UpdateTable tableId
           (table_attributes
              (stored\<lparr>t_fields := map (\<lambda>f. if f_id f = fieldId then merge_field f fieldAttrs else f) (t_fields stored)\<rparr>))]"
  by (auto simp: updateField_def gateway_defs history_defs Let_def
           split: sum.splits option.splits)

lemma removeField_not_stored:
  "getTable_reply db (dbCalls w) (diagramId c) tableId = Inr None \<Longrightarrow>
   fst (removeField db c tableId fieldId updateHistory w) = Inr ()
      \<and> snd (removeField db c tableId fieldId updateHistory w) =
          w\<lparr>tables :=
              map (\<lambda>table. if t_id table = tableId
                 then table\<lparr>t_fields := filter (\<lambda>f. f_id f \<noteq> fieldId) (t_fields table)\<rparr>
                 else table)
                (tables w),
            dbCalls := dbCalls w @ [GetTable (diagramId c) tableId]\<rparr>"
  by (simp add: removeField_def gateway_defs Let_def)

lemma removeField_calls:
  "getTable_reply db (dbCalls w) (diagramId c) tableId = Inr (Some stored) \<Longrightarrow>
   dbCalls (snd (removeField db c tableId fieldId updateHistory w)) =
        dbCalls w @
        [GetTable (diagramId c) tableId,
         UpdateTable tableId
           (table_attributes
              (stored\<lparr>t_fields := filter (\<lambda>f. f_id f \<noteq> fieldId) (t_fields stored)\<rparr>))]"
  by (auto simp: removeField_def gateway_defs history_defs Let_def
           split: sum.splits option.splits)

lemma addField_not_stored:
  "getTable_reply db (dbCalls w) (diagramId c) tableId = Inr None \<Longrightarrow>
   fst (addField db c tableId field updateHistory w) = Inr ()
      \<and> snd (addField db c tableId field updateHistory w) =
          w\<lparr>tables :=
              map (\<lambda>table. if t_id table = tableId
                 then table\<lparr>t_fields := t_fields table @ [field]\<rparr>
                 else table)
                (tables w),
            dbCalls := dbCalls w @ [GetTable (diagramId c) tableId]\<rparr>"
  by (simp add: addField_def gateway_defs Let_def)

lemma addField_calls:
  "getTable_reply db (dbCalls w) (diagramId c) tableId = Inr (Some stored) \<Longrightarrow>
   dbCalls (snd (addField db c tableId field updateHistory w)) =
        dbCalls w @
        [GetTable (diagramId c) tableId,
         UpdateTable tableId
           (table_attributes
              (stored\<lparr>t_fields := t_fields stored @ [field]\<rparr>))]"
  by (auto simp: addField_def gateway_defs history_defs Let_def
           split: sum.splits option.splits)

lemma addIndex_not_stored:
  "getTable_reply db (dbCalls w) (diagramId c) tableId = Inr None \<Longrightarrow>
   fst (addIndex db c tableId index updateHistory w) = Inr ()
      \<and> snd (addIndex db c tableId index updateHistory w) =
          w\<lparr>tables :=
              map (\<lambda>table. if t_id table = tableId
                 then table\<lparr>t_indexes := t_indexes table @ [index]\<rparr>
                 else table)
                (tables w),
            dbCalls := dbCalls w @ [GetTable (diagramId c) tableId]\<rparr>"
  by (simp add: addIndex_def gateway_defs Let_def)

lemma addIndex_calls:
  "getTable_reply db (dbCalls w) (diagramId c) tableId = Inr (Some stored) \<Longrightarrow>
   dbCalls (snd (addIndex db c tableId index updateHistory w)) =
        dbCalls w @
        [GetTable (diagramId c) tableId,
         UpdateTable tableId
           (table_attributes
              (stored\<lparr>t_indexes := t_indexes stored @ [index]\<rparr>))]"
  by (auto simp: addIndex_def gateway_defs history_defs Let_def
           split: sum.splits option.splits)

lemma updateIndex_not_stored:
  "getTable_reply db (dbCalls w) (diagramId c) tableId = Inr None \<Longrightarrow>
   fst (updateIndex db c tableId indexId indexAttrs updateHistory w) = Inr ()
      \<and> snd (updateIndex db c tableId indexId indexAttrs updateHistory w) =
          w\<lparr>tables :=
              map (\<lambda>table. if t_id table = tableId
                 then table\<lparr>t_indexes := map (\<lambda>i. if i_id i = indexId then merge_index i indexAttrs else i) (t_indexes table)\<rparr>
                 else table)
                (tables w),
            dbCalls := dbCalls w @ [GetTable (diagramId c) tableId]\<rparr>"
  by (simp add: updateIndex_def gateway_defs Let_def)

lemma updateIndex_calls:
  "getTable_reply db (dbCalls w) (diagramId c) tableId = Inr (Some stored) \<Longrightarrow>
   dbCalls (snd (updateIndex db c tableId indexId indexAttrs updateHistory w)) =
        dbCalls w @
        [GetTable (diagramId c) tableId,
         UpdateTable tableId
           (table_attributes
              (stored\<lparr>t_indexes := map (\<lambda>i. if i_id i = indexId then merge_index i indexAttrs else i) (t_indexes stored)\<rparr>))]"
  by (auto simp: updateIndex_def gateway_defs history_defs Let_def
           split: sum.splits option.splits)

lemma removeIndex_not_stored:
  "getTable_reply db (dbCalls w) (diagramId c) tableId = Inr None \<Longrightarrow>
   fst (removeIndex db c tableId indexId updateHistory w) = Inr ()
      \<and> snd (removeIndex db c tableId indexId updateHistory w) =
          w\<lparr>tables :=
              map (\<lambda>table. if t_id table = tableId
                 then table\<lparr>t_indexes := filter (\<lambda>i. i_id i \<noteq> indexId) (t_indexes table)\<rparr>
                 else table)
                (tables w),
            dbCalls := dbCalls w @ [GetTable (diagramId c) tableId]\<rparr>"
  by (simp add: removeIndex_def gateway_defs Let_def)

lemma removeIndex_calls:
  "getTable_reply db (dbCalls w) (diagramId c) tableId = Inr (Some stored) \<Longrightarrow>
   dbCalls (snd (removeIndex db c tableId indexId updateHistory w)) =
        dbCalls w @
        [GetTable (diagramId c) tableId,
         UpdateTable tableId
           (table_attributes
              (stored\<lparr>t_indexes := filter (\<lambda>i. i_id i \<noteq> indexId) (t_indexes stored)\<rparr>))]"
  by (auto simp: removeIndex_def gateway_defs history_defs Let_def
           split: sum.splits option.splits)

text \<open>
  C6, as the spec states it: when the lookup of the entity finds nothing, the operation
  aborts before it issues persistence calls. On the example diagram \<^verbatim>\<open>updateField\<close>, called
  through the callback of the current render for a field id that the table \<open>t1\<close> does
  not hold, finds no field, and still writes the table back through \<^verbatim>\<open>db.updateTable\<close>,
  because the gateway holds the table.
\<close>

theorem lookup_miss_counterexample:
  "getField (rendered example_world) ''t1'' ''f9'' = None
   \<and> fst (updateField (storage_fulfils (Some table_users)) (rendered example_world) ''t1'' ''f9''
            (no_field_attributes\<lparr>fp_name := Some ''mail''\<rparr>) True example_world) = Inr ()
   \<and> dbCalls (snd (updateField (storage_fulfils (Some table_users)) (rendered example_world)
            ''t1'' ''f9'' (no_field_attributes\<lparr>fp_name := Some ''mail''\<rparr>) True
            example_world)) =
       [GetTable ''d1'' ''t1'', UpdateTable ''t1'' (table_attributes table_users)]"
  by (simp add: updateField_def getField_def getTable_def gateway_defs history_defs Let_def
        example_defs no_field_attributes_def)

text \<open>
  C6, amended. For \<^verbatim>\<open>updateField\<close>, \<^verbatim>\<open>removeField\<close>, \<^verbatim>\<open>addField\<close>, \<^verbatim>\<open>addIndex\<close>,
  \<^verbatim>\<open>updateIndex\<close> and \<^verbatim>\<open>removeIndex\<close>, called through the callback of a render \<open>c\<close>:
  \<^item> when the gateway answers \<^verbatim>\<open>db.getTable\<close>, keyed by the diagram id of \<open>c\<close>, with
    not-found, the operation completes with the in-memory mutation applied to the Store,
    \<^verbatim>\<open>getTable\<close> as its only gateway call (no \<^verbatim>\<open>updateTable\<close>) and the History Log
    unchanged;
  \<^item> when the gateway holds the table, the operation issues \<^verbatim>\<open>getTable\<close> and then
    \<^verbatim>\<open>updateTable\<close> with the whole table, whether or not the field or index was found;
  \<^item> for the update and remove operations, when \<^verbatim>\<open>getField\<close> or \<^verbatim>\<open>getIndex\<close> finds nothing
    in the tables of \<open>c\<close>, no Action is recorded;
  \<^item> for the update and remove operations, when the Store holds no field or index of that
    id in that table and the table ids of the Store are distinct, the in-memory mutation
    changes nothing.

  For the callback of the current render the last two lookups are one and the same.
\<close>

theorem lookup_miss_short_circuit:
  "(getTable_reply db (dbCalls w) (diagramId c) tableId = Inr None \<longrightarrow>
      fst (updateField db c tableId fieldId fieldAttrs updateHistory w) = Inr ()
      \<and> snd (updateField db c tableId fieldId fieldAttrs updateHistory w) =
          w\<lparr>tables :=
              map (\<lambda>table. if t_id table = tableId
                 then table\<lparr>t_fields := map (\<lambda>f. if f_id f = fieldId then merge_field f fieldAttrs else f) (t_fields table)\<rparr>
                 else table)
                (tables w),
            dbCalls := dbCalls w @ [GetTable (diagramId c) tableId]\<rparr>)
   \<and> (getTable_reply db (dbCalls w) (diagramId c) tableId = Inr (Some stored) \<longrightarrow>
      dbCalls (snd (updateField db c tableId fieldId fieldAttrs updateHistory w)) =
        dbCalls w @
        [GetTable (diagramId c) tableId,
         UpdateTable tableId
           (table_attributes
              (stored\<lparr>t_fields := map (\<lambda>f. if f_id f = fieldId then merge_field f fieldAttrs else f) (t_fields stored)\<rparr>))])
   \<and> (getField c tableId fieldId = None \<longrightarrow>
      undoStack (snd (updateField db c tableId fieldId fieldAttrs updateHistory w)) = undoStack w
      \<and> redoStack (snd (updateField db c tableId fieldId fieldAttrs updateHistory w)) = redoStack w)
   \<and> (getField (rendered w) tableId fieldId = None \<and> distinct (map t_id (tables w)) \<longrightarrow>
      tables (snd (updateField db c tableId fieldId fieldAttrs updateHistory w)) = tables w)
   \<and> (getTable_reply db (dbCalls w) (diagramId c) tableId = Inr None \<longrightarrow>
      fst (removeField db c tableId fieldId updateHistory w) = Inr ()
      \<and> snd (removeField db c tableId fieldId updateHistory w) =
          w\<lparr>tables :=
              map (\<lambda>table. if t_id table = tableId
                 then table\<lparr>t_fields := filter (\<lambda>f. f_id f \<noteq> fieldId) (t_fields table)\<rparr>
                 else table)
                (tables w),
            dbCalls := dbCalls w @ [GetTable (diagramId c) tableId]\<rparr>)
   \<and> (getTable_reply db (dbCalls w) (diagramId c) tableId = Inr (Some stored) \<longrightarrow>
      dbCalls (snd (removeField db c tableId fieldId updateHistory w)) =
        dbCalls w @
        [GetTable (diagramId c) tableId,
         UpdateTable tableId
           (table_attributes
              (stored\<lparr>t_fields := filter (\<lambda>f. f_id f \<noteq> fieldId) (t_fields stored)\<rparr>))])
   \<and> (getField c tableId fieldId = None \<longrightarrow>
      undoStack (snd (removeField db c tableId fieldId updateHistory w)) = undoStack w
      \<and> redoStack (snd (removeField db c tableId fieldId updateHistory w)) = redoStack w)
   \<and> (getField (rendered w) tableId fieldId = None \<and> distinct (map t_id (tables w)) \<longrightarrow>
      tables (snd (removeField db c tableId fieldId updateHistory w)) = tables w)
   \<and> (getTable_reply db (dbCalls w) (diagramId c) tableId = Inr None \<longrightarrow>
      fst (addField db c tableId field updateHistory w) = Inr ()
      \<and> snd (addField db c tableId field updateHistory w) =
          w\<lparr>tables :=
              map (\<lambda>table. if t_id table = tableId
                 then table\<lparr>t_fields := t_fields table @ [field]\<rparr>
                 else table)
                (tables w),
            dbCalls := dbCalls w @ [GetTable (diagramId c) tableId]\<rparr>)
   \<and> (getTable_reply db (dbCalls w) (diagramId c) tableId = Inr (Some stored) \<longrightarrow>
      dbCalls (snd (addField db c tableId field updateHistory w)) =
        dbCalls w @
        [GetTable (diagramId c) tableId,
         UpdateTable tableId
           (table_attributes
              (stored\<lparr>t_fields := t_fields stored @ [field]\<rparr>))])
   \<and> (getTable_reply db (dbCalls w) (diagramId c) tableId = Inr None \<longrightarrow>
      fst (addIndex db c tableId index updateHistory w) = Inr ()
      \<and> snd (addIndex db c tableId index updateHistory w) =
          w\<lparr>tables :=
              map (\<lambda>table. if t_id table = tableId
                 then table\<lparr>t_indexes := t_indexes table @ [index]\<rparr>
                 else table)
                (tables w),
            dbCalls := dbCalls w @ [GetTable (diagramId c) tableId]\<rparr>)
   \<and> (getTable_reply db (dbCalls w) (diagramId c) tableId = Inr (Some stored) \<longrightarrow>
      dbCalls (snd (addIndex db c tableId index updateHistory w)) =
        dbCalls w @
        [GetTable (diagramId c) tableId,
         UpdateTable tableId
           (table_attributes
              (stored\<lparr>t_indexes := t_indexes stored @ [index]\<rparr>))])
   \<and> (getTable_reply db (dbCalls w) (diagramId c) tableId = Inr None \<longrightarrow>
      fst (updateIndex db c tableId indexId indexAttrs updateHistory w) = Inr ()
      \<and> snd (updateIndex db c tableId indexId indexAttrs updateHistory w) =
          w\<lparr>tables :=
              map (\<lambda>table. if t_id table = tableId
                 then table\<lparr>t_indexes := map (\<lambda>i. if i_id i = indexId then merge_index i indexAttrs else i) (t_indexes table)\<rparr>
                 else table)
                (tables w),
            dbCalls := dbCalls w @ [GetTable (diagramId c) tableId]\<rparr>)
   \<and> (getTable_reply db (dbCalls w) (diagramId c) tableId = Inr (Some stored) \<longrightarrow>
      dbCalls (snd (updateIndex db c tableId indexId indexAttrs updateHistory w)) =
        dbCalls w @
        [GetTable (diagramId c) tableId,
         UpdateTable tableId
           (table_attributes
              (stored\<lparr>t_indexes := map (\<lambda>i. if i_id i = indexId then merge_index i indexAttrs else i) (t_indexes stored)\<rparr>))])
   \<and> (getIndex c tableId indexId = None \<longrightarrow>
      undoStack (snd (updateIndex db c tableId indexId indexAttrs updateHistory w)) = undoStack w
      \<and> redoStack (snd (updateIndex db c tableId indexId indexAttrs updateHistory w)) = redoStack w)
   \<and> (getIndex (rendered w) tableId indexId = None \<and> distinct (map t_id (tables w)) \<longrightarrow>
      tables (snd (updateIndex db c tableId indexId indexAttrs updateHistory w)) = tables w)
   \<and> (getTable_reply db (dbCalls w) (diagramId c) tableId = Inr None \<longrightarrow>
      fst (removeIndex db c tableId indexId updateHistory w) = Inr ()
      \<and> snd (removeIndex db c tableId indexId updateHistory w) =
          w\<lparr>tables :=
              map (\<lambda>table. if t_id table = tableId
                 then table\<lparr>t_indexes := filter (\<lambda>i. i_id i \<noteq> indexId) (t_indexes table)\<rparr>
                 else table)
                (tables w),
            dbCalls := dbCalls w @ [GetTable (diagramId c) tableId]\<rparr>)
   \<and> (getTable_reply db (dbCalls w) (diagramId c) tableId = Inr (Some stored) \<longrightarrow>
      dbCalls (snd (removeIndex db c tableId indexId updateHistory w)) =
        dbCalls w @
        [GetTable (diagramId c) tableId,
         UpdateTable tableId
           (table_attributes
              (stored\<lparr>t_indexes := filter (\<lambda>i. i_id i \<noteq> indexId) (t_indexes stored)\<rparr>))])
   \<and> (getIndex c tableId indexId = None \<longrightarrow>
      undoStack (snd (removeIndex db c tableId indexId updateHistory w)) = undoStack w
      \<and> redoStack (snd (removeIndex db c tableId indexId updateHistory w)) = redoStack w)
   \<and> (getIndex (rendered w) tableId indexId = None \<and> distinct (map t_id (tables w)) \<longrightarrow>
      tables (snd (removeIndex db c tableId indexId updateHistory w)) = tables w)"
  by (intro conjI; rule impI; (elim conjE)?;
      (rule updateField_not_stored
       | rule updateField_calls
       | rule updateField_miss_history
       | rule updateField_miss_noop
       | rule removeField_not_stored
       | rule removeField_calls
       | rule removeField_miss_history
       | rule removeField_miss_noop
       | rule addField_not_stored
       | rule addField_calls
       | rule addIndex_not_stored
       | rule addIndex_calls
       | rule updateIndex_not_stored
       | rule updateIndex_calls
       | rule updateIndex_miss_history
       | rule updateIndex_miss_noop
       | rule removeIndex_not_stored
       | rule removeIndex_calls
       | rule removeIndex_miss_history
       | rule removeIndex_miss_noop);
      assumption)

theorem lookup_miss_short_circuit_witness:
  "getTable_reply (storage_fulfils None) (dbCalls example_world) (diagramId (rendered
       example_world)) ''t1'' = Inr None
   \<and> getTable_reply (storage_fulfils (Some table_users)) (dbCalls example_world) (diagramId
       (rendered example_world)) ''t1'' = Inr (Some table_users)
   \<and> getField (rendered example_world) ''t1'' ''f9'' = None
   \<and> getIndex (rendered example_world) ''t1'' ''i9'' = None
   \<and> distinct (map t_id (tables example_world))
   \<and> fst (updateField (storage_fulfils None) (rendered example_world) ''t1'' ''f1''
       (no_field_attributes\<lparr>fp_name := Some ''mail''\<rparr>) True example_world) = Inr ()
   \<and> dbCalls (snd (updateField (storage_fulfils None) (rendered example_world) ''t1'' ''f1''
       (no_field_attributes\<lparr>fp_name := Some ''mail''\<rparr>) True example_world)) =
       [GetTable ''d1'' ''t1'']
   \<and> undoStack (snd (updateField (storage_fulfils None) (rendered example_world) ''t1'' ''f1''
       (no_field_attributes\<lparr>fp_name := Some ''mail''\<rparr>) True example_world)) = []
   \<and> tables (snd (updateField (storage_fulfils None) (rendered example_world) ''t1'' ''f1''
       (no_field_attributes\<lparr>fp_name := Some ''mail''\<rparr>) True example_world)) =
       [table_users\<lparr>t_fields := [field_id\<lparr>f_name := ''mail''\<rparr>,
       field_email]\<rparr>, table_posts, table_tags]
   \<and> dbCalls (snd (updateField (storage_fulfils (Some table_users)) (rendered example_world)
       ''t1'' ''f9'' (no_field_attributes\<lparr>fp_name := Some ''mail''\<rparr>) True
       example_world)) = [GetTable ''d1'' ''t1'', UpdateTable ''t1'' (table_attributes
       table_users)]
   \<and> undoStack (snd (updateField (storage_fulfils (Some table_users)) (rendered example_world)
       ''t1'' ''f9'' (no_field_attributes\<lparr>fp_name := Some ''mail''\<rparr>) True
       example_world)) = []
   \<and> redoStack (snd (updateField (storage_fulfils (Some table_users)) (rendered example_world)
       ''t1'' ''f9'' (no_field_attributes\<lparr>fp_name := Some ''mail''\<rparr>) True
       example_world)) = [Act_updateDiagramName ''shop'' ''draft'']
   \<and> tables (snd (updateField (storage_fulfils (Some table_users)) (rendered example_world) ''t1''
       ''f9'' (no_field_attributes\<lparr>fp_name := Some ''mail''\<rparr>) True example_world)) =
       [table_users, table_posts, table_tags]
   \<and> fst (removeField (storage_fulfils None) (rendered example_world) ''t1'' ''f1'' True
       example_world) = Inr ()
   \<and> dbCalls (snd (removeField (storage_fulfils None) (rendered example_world) ''t1'' ''f1'' True
       example_world)) = [GetTable ''d1'' ''t1'']
   \<and> undoStack (snd (removeField (storage_fulfils None) (rendered example_world) ''t1'' ''f1''
       True example_world)) = []
   \<and> tables (snd (removeField (storage_fulfils None) (rendered example_world) ''t1'' ''f1'' True
       example_world)) = [table_users\<lparr>t_fields := [field_email]\<rparr>, table_posts,
       table_tags]
   \<and> dbCalls (snd (removeField (storage_fulfils (Some table_users)) (rendered example_world)
       ''t1'' ''f9'' True example_world)) = [GetTable ''d1'' ''t1'', UpdateTable ''t1''
       (table_attributes table_users)]
   \<and> undoStack (snd (removeField (storage_fulfils (Some table_users)) (rendered example_world)
       ''t1'' ''f9'' True example_world)) = []
   \<and> redoStack (snd (removeField (storage_fulfils (Some table_users)) (rendered example_world)
       ''t1'' ''f9'' True example_world)) = [Act_updateDiagramName ''shop'' ''draft'']
   \<and> tables (snd (removeField (storage_fulfils (Some table_users)) (rendered example_world) ''t1''
       ''f9'' True example_world)) = [table_users, table_posts, table_tags]
   \<and> fst (addField (storage_fulfils None) (rendered example_world) ''t1'' (field_email\<lparr>f_id
       := ''f3''\<rparr>) True example_world) = Inr ()
   \<and> dbCalls (snd (addField (storage_fulfils None) (rendered example_world) ''t1''
       (field_email\<lparr>f_id := ''f3''\<rparr>) True example_world)) = [GetTable ''d1'' ''t1'']
   \<and> undoStack (snd (addField (storage_fulfils None) (rendered example_world) ''t1''
       (field_email\<lparr>f_id := ''f3''\<rparr>) True example_world)) = []
   \<and> tables (snd (addField (storage_fulfils None) (rendered example_world) ''t1''
       (field_email\<lparr>f_id := ''f3''\<rparr>) True example_world)) =
       [table_users\<lparr>t_fields := [field_id, field_email, field_email\<lparr>f_id :=
       ''f3''\<rparr>]\<rparr>, table_posts, table_tags]
   \<and> dbCalls (snd (addField (storage_fulfils (Some table_users)) (rendered example_world) ''t1''
       (field_email\<lparr>f_id := ''f3''\<rparr>) True example_world)) = [GetTable ''d1'' ''t1'',
       UpdateTable ''t1'' (table_attributes (table_users\<lparr>t_fields := [field_id,
       field_email, field_email\<lparr>f_id := ''f3''\<rparr>]\<rparr>))]
   \<and> fst (addIndex (storage_fulfils None) (rendered example_world) ''t1'' (index_email\<lparr>i_id
       := ''i2''\<rparr>) True example_world) = Inr ()
   \<and> dbCalls (snd (addIndex (storage_fulfils None) (rendered example_world) ''t1''
       (index_email\<lparr>i_id := ''i2''\<rparr>) True example_world)) = [GetTable ''d1'' ''t1'']
   \<and> undoStack (snd (addIndex (storage_fulfils None) (rendered example_world) ''t1''
       (index_email\<lparr>i_id := ''i2''\<rparr>) True example_world)) = []
   \<and> tables (snd (addIndex (storage_fulfils None) (rendered example_world) ''t1''
       (index_email\<lparr>i_id := ''i2''\<rparr>) True example_world)) =
       [table_users\<lparr>t_indexes := [index_email, index_email\<lparr>i_id :=
       ''i2''\<rparr>]\<rparr>, table_posts, table_tags]
   \<and> dbCalls (snd (addIndex (storage_fulfils (Some table_users)) (rendered example_world) ''t1''
       (index_email\<lparr>i_id := ''i2''\<rparr>) True example_world)) = [GetTable ''d1'' ''t1'',
       UpdateTable ''t1'' (table_attributes (table_users\<lparr>t_indexes := [index_email,
       index_email\<lparr>i_id := ''i2''\<rparr>]\<rparr>))]
   \<and> fst (updateIndex (storage_fulfils None) (rendered example_world) ''t1'' ''i1''
       (no_index_attributes\<lparr>ip_unique := Some False\<rparr>) True example_world) = Inr ()
   \<and> dbCalls (snd (updateIndex (storage_fulfils None) (rendered example_world) ''t1'' ''i1''
       (no_index_attributes\<lparr>ip_unique := Some False\<rparr>) True example_world)) =
       [GetTable ''d1'' ''t1'']
   \<and> undoStack (snd (updateIndex (storage_fulfils None) (rendered example_world) ''t1'' ''i1''
       (no_index_attributes\<lparr>ip_unique := Some False\<rparr>) True example_world)) = []
   \<and> tables (snd (updateIndex (storage_fulfils None) (rendered example_world) ''t1'' ''i1''
       (no_index_attributes\<lparr>ip_unique := Some False\<rparr>) True example_world)) =
       [table_users\<lparr>t_indexes := [index_email\<lparr>i_unique := False\<rparr>]\<rparr>,
       table_posts, table_tags]
   \<and> dbCalls (snd (updateIndex (storage_fulfils (Some table_users)) (rendered example_world)
       ''t1'' ''i9'' (no_index_attributes\<lparr>ip_unique := Some False\<rparr>) True
       example_world)) = [GetTable ''d1'' ''t1'', UpdateTable ''t1'' (table_attributes
       table_users)]
   \<and> undoStack (snd (updateIndex (storage_fulfils (Some table_users)) (rendered example_world)
       ''t1'' ''i9'' (no_index_attributes\<lparr>ip_unique := Some False\<rparr>) True
       example_world)) = []
   \<and> redoStack (snd (updateIndex (storage_fulfils (Some table_users)) (rendered example_world)
       ''t1'' ''i9'' (no_index_attributes\<lparr>ip_unique := Some False\<rparr>) True
       example_world)) = [Act_updateDiagramName ''shop'' ''draft'']
   \<and> tables (snd (updateIndex (storage_fulfils (Some table_users)) (rendered example_world) ''t1''
       ''i9'' (no_index_attributes\<lparr>ip_unique := Some False\<rparr>) True example_world)) =
       [table_users, table_posts, table_tags]
   \<and> fst (removeIndex (storage_fulfils None) (rendered example_world) ''t1'' ''i1'' True
       example_world) = Inr ()
   \<and> dbCalls (snd (removeIndex (storage_fulfils None) (rendered example_world) ''t1'' ''i1'' True
       example_world)) = [GetTable ''d1'' ''t1'']
   \<and> undoStack (snd (removeIndex (storage_fulfils None) (rendered example_world) ''t1'' ''i1''
       True example_world)) = []
   \<and> tables (snd (removeIndex (storage_fulfils None) (rendered example_world) ''t1'' ''i1'' True
       example_world)) = [table_users\<lparr>t_indexes := []\<rparr>, table_posts, table_tags]
   \<and> dbCalls (snd (removeIndex (storage_fulfils (Some table_users)) (rendered example_world)
       ''t1'' ''i9'' True example_world)) = [GetTable ''d1'' ''t1'', UpdateTable ''t1''
       (table_attributes table_users)]
   \<and> undoStack (snd (removeIndex (storage_fulfils (Some table_users)) (rendered example_world)
       ''t1'' ''i9'' True example_world)) = []
   \<and> redoStack (snd (removeIndex (storage_fulfils (Some table_users)) (rendered example_world)
       ''t1'' ''i9'' True example_world)) = [Act_updateDiagramName ''shop'' ''draft'']
   \<and> tables (snd (removeIndex (storage_fulfils (Some table_users)) (rendered example_world) ''t1''
       ''i9'' True example_world)) = [table_users, table_posts, table_tags]"
proof -
  note examples = example_defs no_field_attributes_def no_index_attributes_def
  note T_none = lookup_miss_short_circuit [where db = "storage_fulfils None" and c = "rendered
    example_world" and w = "example_world" and updateHistory = "True" and tableId = "''t1''" and
    fieldId = "''f1''" and fieldAttrs = "no_field_attributes\<lparr>fp_name := Some
    ''mail''\<rparr>" and field = "field_email\<lparr>f_id := ''f3''\<rparr>" and index =
    "index_email\<lparr>i_id := ''i2''\<rparr>" and indexId = "''i1''" and indexAttrs =
    "no_index_attributes\<lparr>ip_unique := Some False\<rparr>" and stored = "table_users"]
  note T_some = lookup_miss_short_circuit [where db = "storage_fulfils (Some table_users)" and c =
    "rendered example_world" and w = "example_world" and updateHistory = "True" and tableId =
    "''t1''" and fieldId = "''f9''" and fieldAttrs = "no_field_attributes\<lparr>fp_name := Some
    ''mail''\<rparr>" and field = "field_email\<lparr>f_id := ''f3''\<rparr>" and index =
    "index_email\<lparr>i_id := ''i2''\<rparr>" and indexId = "''i9''" and indexAttrs =
    "no_index_attributes\<lparr>ip_unique := Some False\<rparr>" and stored = "table_users"]
  have absent: "getTable_reply (storage_fulfils None) (dbCalls example_world)
    (diagramId (rendered example_world)) ''t1'' = Inr None"
    by (simp add: storage_fulfils_def)
  have held: "getTable_reply (storage_fulfils (Some table_users)) (dbCalls example_world)
    (diagramId (rendered example_world)) ''t1'' = Inr (Some table_users)"
    by (simp add: storage_fulfils_def)
  have no_field: "getField (rendered example_world) ''t1'' ''f9'' = None"
    by (simp add: getField_def getTable_def examples)
  have no_index: "getIndex (rendered example_world) ''t1'' ''i9'' = None"
    by (simp add: getIndex_def getTable_def examples)
  have dist: "distinct (map t_id (tables example_world))"
    by (simp add: examples)
  note a_updateField = T_none [THEN conjunct1, THEN mp, OF absent]
  have a1_updateField: "fst (updateField (storage_fulfils None) (rendered example_world) ''t1''
    ''f1'' (no_field_attributes\<lparr>fp_name := Some ''mail''\<rparr>) True example_world) = Inr
    ()"
    by (rule a_updateField [THEN conjunct1])
  have a2_updateField: "dbCalls (snd (updateField (storage_fulfils None) (rendered example_world)
    ''t1'' ''f1'' (no_field_attributes\<lparr>fp_name := Some ''mail''\<rparr>) True
    example_world)) = [GetTable ''d1'' ''t1'']"
    unfolding a_updateField [THEN conjunct2]
    by (simp add: examples merge_field_def merge_index_def spread_def)
  have a3_updateField: "undoStack (snd (updateField (storage_fulfils None) (rendered
    example_world) ''t1'' ''f1'' (no_field_attributes\<lparr>fp_name := Some ''mail''\<rparr>)
    True example_world)) = []"
    unfolding a_updateField [THEN conjunct2]
    by (simp add: examples merge_field_def merge_index_def spread_def)
  have a4_updateField: "tables (snd (updateField (storage_fulfils None) (rendered example_world)
    ''t1'' ''f1'' (no_field_attributes\<lparr>fp_name := Some ''mail''\<rparr>) True
    example_world)) = [table_users\<lparr>t_fields := [field_id\<lparr>f_name := ''mail''\<rparr>,
    field_email]\<rparr>, table_posts, table_tags]"
    unfolding a_updateField [THEN conjunct2]
    by (simp add: examples merge_field_def merge_index_def spread_def)
  note c_updateField = T_some [THEN conjunct2, THEN conjunct1, THEN mp, OF held]
  have c1_updateField: "dbCalls (snd (updateField (storage_fulfils (Some table_users)) (rendered
    example_world) ''t1'' ''f9'' (no_field_attributes\<lparr>fp_name := Some ''mail''\<rparr>)
    True example_world)) = [GetTable ''d1'' ''t1'', UpdateTable ''t1'' (table_attributes
    table_users)]"
    unfolding c_updateField
    by (simp add: examples merge_field_def merge_index_def spread_def)
  note h_updateField = T_some [THEN conjunct2, THEN conjunct2, THEN conjunct1, THEN mp, OF
    no_field]
  have h1_updateField: "undoStack (snd (updateField (storage_fulfils (Some table_users)) (rendered
    example_world) ''t1'' ''f9'' (no_field_attributes\<lparr>fp_name := Some ''mail''\<rparr>)
    True example_world)) = []"
    unfolding h_updateField [THEN conjunct1]
    by (simp add: examples merge_field_def merge_index_def spread_def)
  have h2_updateField: "redoStack (snd (updateField (storage_fulfils (Some table_users)) (rendered
    example_world) ''t1'' ''f9'' (no_field_attributes\<lparr>fp_name := Some ''mail''\<rparr>)
    True example_world)) = [Act_updateDiagramName ''shop'' ''draft'']"
    unfolding h_updateField [THEN conjunct2]
    by (simp add: examples merge_field_def merge_index_def spread_def)
  note n_updateField = T_some [THEN conjunct2, THEN conjunct2, THEN conjunct2, THEN conjunct1,
    THEN mp, OF conjI [OF no_field dist]]
  have n1_updateField: "tables (snd (updateField (storage_fulfils (Some table_users)) (rendered
    example_world) ''t1'' ''f9'' (no_field_attributes\<lparr>fp_name := Some ''mail''\<rparr>)
    True example_world)) = [table_users, table_posts, table_tags]"
    unfolding n_updateField
    by (simp add: examples merge_field_def merge_index_def spread_def)
  note a_removeField = T_none [THEN conjunct2, THEN conjunct2, THEN conjunct2, THEN conjunct2,
    THEN conjunct1, THEN mp, OF absent]
  have a1_removeField: "fst (removeField (storage_fulfils None) (rendered example_world) ''t1''
    ''f1'' True example_world) = Inr ()"
    by (rule a_removeField [THEN conjunct1])
  have a2_removeField: "dbCalls (snd (removeField (storage_fulfils None) (rendered example_world)
    ''t1'' ''f1'' True example_world)) = [GetTable ''d1'' ''t1'']"
    unfolding a_removeField [THEN conjunct2]
    by (simp add: examples merge_field_def merge_index_def spread_def)
  have a3_removeField: "undoStack (snd (removeField (storage_fulfils None) (rendered
    example_world) ''t1'' ''f1'' True example_world)) = []"
    unfolding a_removeField [THEN conjunct2]
    by (simp add: examples merge_field_def merge_index_def spread_def)
  have a4_removeField: "tables (snd (removeField (storage_fulfils None) (rendered example_world)
    ''t1'' ''f1'' True example_world)) = [table_users\<lparr>t_fields := [field_email]\<rparr>,
    table_posts, table_tags]"
    unfolding a_removeField [THEN conjunct2]
    by (simp add: examples merge_field_def merge_index_def spread_def)
  note c_removeField = T_some [THEN conjunct2, THEN conjunct2, THEN conjunct2, THEN conjunct2,
    THEN conjunct2, THEN conjunct1, THEN mp, OF held]
  have c1_removeField: "dbCalls (snd (removeField (storage_fulfils (Some table_users)) (rendered
    example_world) ''t1'' ''f9'' True example_world)) = [GetTable ''d1'' ''t1'', UpdateTable
    ''t1'' (table_attributes table_users)]"
    unfolding c_removeField
    by (simp add: examples merge_field_def merge_index_def spread_def)
  note h_removeField = T_some [THEN conjunct2, THEN conjunct2, THEN conjunct2, THEN conjunct2,
    THEN conjunct2, THEN conjunct2, THEN conjunct1, THEN mp, OF no_field]
  have h1_removeField: "undoStack (snd (removeField (storage_fulfils (Some table_users)) (rendered
    example_world) ''t1'' ''f9'' True example_world)) = []"
    unfolding h_removeField [THEN conjunct1]
    by (simp add: examples merge_field_def merge_index_def spread_def)
  have h2_removeField: "redoStack (snd (removeField (storage_fulfils (Some table_users)) (rendered
    example_world) ''t1'' ''f9'' True example_world)) = [Act_updateDiagramName ''shop''
    ''draft'']"
    unfolding h_removeField [THEN conjunct2]
    by (simp add: examples merge_field_def merge_index_def spread_def)
  note n_removeField = T_some [THEN conjunct2, THEN conjunct2, THEN conjunct2, THEN conjunct2,
    THEN conjunct2, THEN conjunct2, THEN conjunct2, THEN conjunct1, THEN mp, OF conjI [OF no_field
    dist]]
  have n1_removeField: "tables (snd (removeField (storage_fulfils (Some table_users)) (rendered
    example_world) ''t1'' ''f9'' True example_world)) = [table_users, table_posts, table_tags]"
    unfolding n_removeField
    by (simp add: examples merge_field_def merge_index_def spread_def)
  note a_addField = T_none [THEN conjunct2, THEN conjunct2, THEN conjunct2, THEN conjunct2, THEN
    conjunct2, THEN conjunct2, THEN conjunct2, THEN conjunct2, THEN conjunct1, THEN mp, OF absent]
  have a1_addField: "fst (addField (storage_fulfils None) (rendered example_world) ''t1''
    (field_email\<lparr>f_id := ''f3''\<rparr>) True example_world) = Inr ()"
    by (rule a_addField [THEN conjunct1])
  have a2_addField: "dbCalls (snd (addField (storage_fulfils None) (rendered example_world) ''t1''
    (field_email\<lparr>f_id := ''f3''\<rparr>) True example_world)) = [GetTable ''d1'' ''t1'']"
    unfolding a_addField [THEN conjunct2]
    by (simp add: examples merge_field_def merge_index_def spread_def)
  have a3_addField: "undoStack (snd (addField (storage_fulfils None) (rendered example_world)
    ''t1'' (field_email\<lparr>f_id := ''f3''\<rparr>) True example_world)) = []"
    unfolding a_addField [THEN conjunct2]
    by (simp add: examples merge_field_def merge_index_def spread_def)
  have a4_addField: "tables (snd (addField (storage_fulfils None) (rendered example_world) ''t1''
    (field_email\<lparr>f_id := ''f3''\<rparr>) True example_world)) =
    [table_users\<lparr>t_fields := [field_id, field_email, field_email\<lparr>f_id :=
    ''f3''\<rparr>]\<rparr>, table_posts, table_tags]"
    unfolding a_addField [THEN conjunct2]
    by (simp add: examples merge_field_def merge_index_def spread_def)
  note c_addField = T_some [THEN conjunct2, THEN conjunct2, THEN conjunct2, THEN conjunct2, THEN
    conjunct2, THEN conjunct2, THEN conjunct2, THEN conjunct2, THEN conjunct2, THEN conjunct1,
    THEN mp, OF held]
  have c1_addField: "dbCalls (snd (addField (storage_fulfils (Some table_users)) (rendered
    example_world) ''t1'' (field_email\<lparr>f_id := ''f3''\<rparr>) True example_world)) =
    [GetTable ''d1'' ''t1'', UpdateTable ''t1'' (table_attributes (table_users\<lparr>t_fields :=
    [field_id, field_email, field_email\<lparr>f_id := ''f3''\<rparr>]\<rparr>))]"
    unfolding c_addField
    by (simp add: examples merge_field_def merge_index_def spread_def)
  note a_addIndex = T_none [THEN conjunct2, THEN conjunct2, THEN conjunct2, THEN conjunct2, THEN
    conjunct2, THEN conjunct2, THEN conjunct2, THEN conjunct2, THEN conjunct2, THEN conjunct2,
    THEN conjunct1, THEN mp, OF absent]
  have a1_addIndex: "fst (addIndex (storage_fulfils None) (rendered example_world) ''t1''
    (index_email\<lparr>i_id := ''i2''\<rparr>) True example_world) = Inr ()"
    by (rule a_addIndex [THEN conjunct1])
  have a2_addIndex: "dbCalls (snd (addIndex (storage_fulfils None) (rendered example_world) ''t1''
    (index_email\<lparr>i_id := ''i2''\<rparr>) True example_world)) = [GetTable ''d1'' ''t1'']"
    unfolding a_addIndex [THEN conjunct2]
    by (simp add: examples merge_field_def merge_index_def spread_def)
  have a3_addIndex: "undoStack (snd (addIndex (storage_fulfils None) (rendered example_world)
    ''t1'' (index_email\<lparr>i_id := ''i2''\<rparr>) True example_world)) = []"
    unfolding a_addIndex [THEN conjunct2]
    by (simp add: examples merge_field_def merge_index_def spread_def)
  have a4_addIndex: "tables (snd (addIndex (storage_fulfils None) (rendered example_world) ''t1''
    (index_email\<lparr>i_id := ''i2''\<rparr>) True example_world)) =
    [table_users\<lparr>t_indexes := [index_email, index_email\<lparr>i_id :=
    ''i2''\<rparr>]\<rparr>, table_posts, table_tags]"
    unfolding a_addIndex [THEN conjunct2]
    by (simp add: examples merge_field_def merge_index_def spread_def)
  note c_addIndex = T_some [THEN conjunct2, THEN conjunct2, THEN conjunct2, THEN conjunct2, THEN
    conjunct2, THEN conjunct2, THEN conjunct2, THEN conjunct2, THEN conjunct2, THEN conjunct2,
    THEN conjunct2, THEN conjunct1, THEN mp, OF held]
  have c1_addIndex: "dbCalls (snd (addIndex (storage_fulfils (Some table_users)) (rendered
    example_world) ''t1'' (index_email\<lparr>i_id := ''i2''\<rparr>) True example_world)) =
    [GetTable ''d1'' ''t1'', UpdateTable ''t1'' (table_attributes (table_users\<lparr>t_indexes :=
    [index_email, index_email\<lparr>i_id := ''i2''\<rparr>]\<rparr>))]"
    unfolding c_addIndex
    by (simp add: examples merge_field_def merge_index_def spread_def)
  note a_updateIndex = T_none [THEN conjunct2, THEN conjunct2, THEN conjunct2, THEN conjunct2,
    THEN conjunct2, THEN conjunct2, THEN conjunct2, THEN conjunct2, THEN conjunct2, THEN
    conjunct2, THEN conjunct2, THEN conjunct2, THEN conjunct1, THEN mp, OF absent]
  have a1_updateIndex: "fst (updateIndex (storage_fulfils None) (rendered example_world) ''t1''
    ''i1'' (no_index_attributes\<lparr>ip_unique := Some False\<rparr>) True example_world) = Inr
    ()"
    by (rule a_updateIndex [THEN conjunct1])
  have a2_updateIndex: "dbCalls (snd (updateIndex (storage_fulfils None) (rendered example_world)
    ''t1'' ''i1'' (no_index_attributes\<lparr>ip_unique := Some False\<rparr>) True
    example_world)) = [GetTable ''d1'' ''t1'']"
    unfolding a_updateIndex [THEN conjunct2]
    by (simp add: examples merge_field_def merge_index_def spread_def)
  have a3_updateIndex: "undoStack (snd (updateIndex (storage_fulfils None) (rendered
    example_world) ''t1'' ''i1'' (no_index_attributes\<lparr>ip_unique := Some False\<rparr>) True
    example_world)) = []"
    unfolding a_updateIndex [THEN conjunct2]
    by (simp add: examples merge_field_def merge_index_def spread_def)
  have a4_updateIndex: "tables (snd (updateIndex (storage_fulfils None) (rendered example_world)
    ''t1'' ''i1'' (no_index_attributes\<lparr>ip_unique := Some False\<rparr>) True
    example_world)) = [table_users\<lparr>t_indexes := [index_email\<lparr>i_unique :=
    False\<rparr>]\<rparr>, table_posts, table_tags]"
    unfolding a_updateIndex [THEN conjunct2]
    by (simp add: examples merge_field_def merge_index_def spread_def)
  note c_updateIndex = T_some [THEN conjunct2, THEN conjunct2, THEN conjunct2, THEN conjunct2,
    THEN conjunct2, THEN conjunct2, THEN conjunct2, THEN conjunct2, THEN conjunct2, THEN
    conjunct2, THEN conjunct2, THEN conjunct2, THEN conjunct2, THEN conjunct1, THEN mp, OF held]
  have c1_updateIndex: "dbCalls (snd (updateIndex (storage_fulfils (Some table_users)) (rendered
    example_world) ''t1'' ''i9'' (no_index_attributes\<lparr>ip_unique := Some False\<rparr>) True
    example_world)) = [GetTable ''d1'' ''t1'', UpdateTable ''t1'' (table_attributes table_users)]"
    unfolding c_updateIndex
    by (simp add: examples merge_field_def merge_index_def spread_def)
  note h_updateIndex = T_some [THEN conjunct2, THEN conjunct2, THEN conjunct2, THEN conjunct2,
    THEN conjunct2, THEN conjunct2, THEN conjunct2, THEN conjunct2, THEN conjunct2, THEN
    conjunct2, THEN conjunct2, THEN conjunct2, THEN conjunct2, THEN conjunct2, THEN conjunct1,
    THEN mp, OF no_index]
  have h1_updateIndex: "undoStack (snd (updateIndex (storage_fulfils (Some table_users)) (rendered
    example_world) ''t1'' ''i9'' (no_index_attributes\<lparr>ip_unique := Some False\<rparr>) True
    example_world)) = []"
    unfolding h_updateIndex [THEN conjunct1]
    by (simp add: examples merge_field_def merge_index_def spread_def)
  have h2_updateIndex: "redoStack (snd (updateIndex (storage_fulfils (Some table_users)) (rendered
    example_world) ''t1'' ''i9'' (no_index_attributes\<lparr>ip_unique := Some False\<rparr>) True
    example_world)) = [Act_updateDiagramName ''shop'' ''draft'']"
    unfolding h_updateIndex [THEN conjunct2]
    by (simp add: examples merge_field_def merge_index_def spread_def)
  note n_updateIndex = T_some [THEN conjunct2, THEN conjunct2, THEN conjunct2, THEN conjunct2,
    THEN conjunct2, THEN conjunct2, THEN conjunct2, THEN conjunct2, THEN conjunct2, THEN
    conjunct2, THEN conjunct2, THEN conjunct2, THEN conjunct2, THEN conjunct2, THEN conjunct2,
    THEN conjunct1, THEN mp, OF conjI [OF no_index dist]]
  have n1_updateIndex: "tables (snd (updateIndex (storage_fulfils (Some table_users)) (rendered
    example_world) ''t1'' ''i9'' (no_index_attributes\<lparr>ip_unique := Some False\<rparr>) True
    example_world)) = [table_users, table_posts, table_tags]"
    unfolding n_updateIndex
    by (simp add: examples merge_field_def merge_index_def spread_def)
  note a_removeIndex = T_none [THEN conjunct2, THEN conjunct2, THEN conjunct2, THEN conjunct2,
    THEN conjunct2, THEN conjunct2, THEN conjunct2, THEN conjunct2, THEN conjunct2, THEN
    conjunct2, THEN conjunct2, THEN conjunct2, THEN conjunct2, THEN conjunct2, THEN conjunct2,
    THEN conjunct2, THEN conjunct1, THEN mp, OF absent]
  have a1_removeIndex: "fst (removeIndex (storage_fulfils None) (rendered example_world) ''t1''
    ''i1'' True example_world) = Inr ()"
    by (rule a_removeIndex [THEN conjunct1])
  have a2_removeIndex: "dbCalls (snd (removeIndex (storage_fulfils None) (rendered example_world)
    ''t1'' ''i1'' True example_world)) = [GetTable ''d1'' ''t1'']"
    unfolding a_removeIndex [THEN conjunct2]
    by (simp add: examples merge_field_def merge_index_def spread_def)
  have a3_removeIndex: "undoStack (snd (removeIndex (storage_fulfils None) (rendered
    example_world) ''t1'' ''i1'' True example_world)) = []"
    unfolding a_removeIndex [THEN conjunct2]
    by (simp add: examples merge_field_def merge_index_def spread_def)
  have a4_removeIndex: "tables (snd (removeIndex (storage_fulfils None) (rendered example_world)
    ''t1'' ''i1'' True example_world)) = [table_users\<lparr>t_indexes := []\<rparr>, table_posts,
    table_tags]"
    unfolding a_removeIndex [THEN conjunct2]
    by (simp add: examples merge_field_def merge_index_def spread_def)
  note c_removeIndex = T_some [THEN conjunct2, THEN conjunct2, THEN conjunct2, THEN conjunct2,
    THEN conjunct2, THEN conjunct2, THEN conjunct2, THEN conjunct2, THEN conjunct2, THEN
    conjunct2, THEN conjunct2, THEN conjunct2, THEN conjunct2, THEN conjunct2, THEN conjunct2,
    THEN conjunct2, THEN conjunct2, THEN conjunct1, THEN mp, OF held]
  have c1_removeIndex: "dbCalls (snd (removeIndex (storage_fulfils (Some table_users)) (rendered
    example_world) ''t1'' ''i9'' True example_world)) = [GetTable ''d1'' ''t1'', UpdateTable
    ''t1'' (table_attributes table_users)]"
    unfolding c_removeIndex
    by (simp add: examples merge_field_def merge_index_def spread_def)
  note h_removeIndex = T_some [THEN conjunct2, THEN conjunct2, THEN conjunct2, THEN conjunct2,
    THEN conjunct2, THEN conjunct2, THEN conjunct2, THEN conjunct2, THEN conjunct2, THEN
    conjunct2, THEN conjunct2, THEN conjunct2, THEN conjunct2, THEN conjunct2, THEN conjunct2,
    THEN conjunct2, THEN conjunct2, THEN conjunct2, THEN conjunct1, THEN mp, OF no_index]
  have h1_removeIndex: "undoStack (snd (removeIndex (storage_fulfils (Some table_users)) (rendered
    example_world) ''t1'' ''i9'' True example_world)) = []"
    unfolding h_removeIndex [THEN conjunct1]
    by (simp add: examples merge_field_def merge_index_def spread_def)
  have h2_removeIndex: "redoStack (snd (removeIndex (storage_fulfils (Some table_users)) (rendered
    example_world) ''t1'' ''i9'' True example_world)) = [Act_updateDiagramName ''shop''
    ''draft'']"
    unfolding h_removeIndex [THEN conjunct2]
    by (simp add: examples merge_field_def merge_index_def spread_def)
  note n_removeIndex = T_some [THEN conjunct2, THEN conjunct2, THEN conjunct2, THEN conjunct2,
    THEN conjunct2, THEN conjunct2, THEN conjunct2, THEN conjunct2, THEN conjunct2, THEN
    conjunct2, THEN conjunct2, THEN conjunct2, THEN conjunct2, THEN conjunct2, THEN conjunct2,
    THEN conjunct2, THEN conjunct2, THEN conjunct2, THEN conjunct2, THEN mp, OF conjI [OF no_index
    dist]]
  have n1_removeIndex: "tables (snd (removeIndex (storage_fulfils (Some table_users)) (rendered
    example_world) ''t1'' ''i9'' True example_world)) = [table_users, table_posts, table_tags]"
    unfolding n_removeIndex
    by (simp add: examples merge_field_def merge_index_def spread_def)
  show ?thesis
    by (intro conjI; (rule absent | rule held | rule no_field | rule no_index | rule dist | rule
      a1_updateField | rule a2_updateField | rule a3_updateField | rule a4_updateField | rule
      c1_updateField | rule h1_updateField | rule h2_updateField | rule n1_updateField | rule
      a1_removeField | rule a2_removeField | rule a3_removeField | rule a4_removeField | rule
      c1_removeField | rule h1_removeField | rule h2_removeField | rule n1_removeField | rule
      a1_addField | rule a2_addField | rule a3_addField | rule a4_addField | rule c1_addField |
      rule a1_addIndex | rule a2_addIndex | rule a3_addIndex | rule a4_addIndex | rule c1_addIndex
      | rule a1_updateIndex | rule a2_updateIndex | rule a3_updateIndex | rule a4_updateIndex |
      rule c1_updateIndex | rule h1_updateIndex | rule h2_updateIndex | rule n1_updateIndex | rule
      a1_removeIndex | rule a2_removeIndex | rule a3_removeIndex | rule a4_removeIndex | rule
      c1_removeIndex | rule h1_removeIndex | rule h2_removeIndex | rule n1_removeIndex))
qed

text \<open>
  The callback of an older render: \<^verbatim>\<open>removeField\<close> called twice through the callback of
  one render. The second call finds the field in the tables of its render and records a
  second Action, although the Store no longer holds the field.
\<close>

lemma removeField_older_render:
  "getField (rendered (snd (removeField (storage_fulfils (Some table_users))
      (rendered example_world) ''t1'' ''f2'' True example_world))) ''t1'' ''f2'' = None
   \<and> undoStack (snd (removeField (storage_fulfils (Some table_users)) (rendered example_world)
        ''t1'' ''f2'' True
        (snd (removeField (storage_fulfils (Some table_users)) (rendered example_world)
           ''t1'' ''f2'' True example_world)))) =
       [Act_removeField ''t1'' ''f2'' ''t1'' field_email,
        Act_removeField ''t1'' ''f2'' ''t1'' field_email]"
  by (simp add: removeField_def getField_def getTable_def gateway_defs history_defs Let_def
        example_defs)

section \<open>Undoing and redoing a recorded Action\<close>



















































end
